theory Spec2Isabelle
  imports Complex_Main
begin

section \<open>Shared data model (helperFuncs)\<close>

text \<open>
  All times and durations are JavaScript numbers holding whole milliseconds; they are
  modelled as \<open>int\<close>.  Optional fields (\<open>Maybe<T>\<close>, \<open>undefined\<close>) are \<open>option\<close>s.
  Record fields carry a prefix naming their record (\<open>p_\<close> for a program, \<open>ch_\<close> for a
  channel, \<open>li_\<close> for a lineup item, ...) because several records of the source share field
  names such as \<open>duration\<close> and \<open>title\<close>.
\<close>

text \<open>
  Modelled from the spec: the constant \<open>constants.SLACK\<close> lives in \<open>constants.js\<close>, which
  is not part of the sources at hand; the glossary fixes it at 9900 ms.
\<close>

definition SLACK :: int where
  "SLACK = 9900"

record Program =
  p_title :: string
  p_key :: "string option"
  p_plexFile :: "string option"
  p_file :: "string option"
  p_ratingKey :: "string option"
  p_serverKey :: "string option"
  p_fillerId :: "string option"
  p_duration :: int
  p_isOffline :: bool
  p_err :: "string option"

record ChannelIcon =
  icon_path :: string
  icon_width :: int
  icon_duration :: int
  icon_position :: string

record Watermark =
  wm_enabled :: bool
  wm_url :: "ChannelIcon option"
  wm_width :: int
  wm_verticalMargin :: int
  wm_horizontalMargin :: int
  wm_duration :: int
  wm_position :: string
  wm_fixedSize :: "bool option"
  wm_animated :: "bool option"

record Channel =
  ch_number :: int
  ch_startTimeEpoch :: int
  ch_duration :: int
  ch_programs :: "Program list"
  ch_offlineMode :: string
  ch_fallback :: "Program list"
  ch_fillerRepeatCooldown :: "int option"
  ch_disableFillerOverlay :: "bool option"
  ch_watermark :: "Watermark option"
  ch_icon :: "ChannelIcon option"

record ProgramAndTimeElapsed =
  program :: Program
  timeElapsed :: int
  programIndex :: int

datatype error = NoProgramFound

section \<open>The lineup resolver: \<open>getCurrentProgramAndTimeElapsed\<close>\<close>

text \<open>
  JavaScript's \<open>a % b\<close> on whole numbers: the result has the sign of the dividend, and it is
  \<open>NaN\<close> (here \<open>None\<close>) when the divisor is 0.
\<close>

definition js_rem :: "int \<Rightarrow> int \<Rightarrow> int option" where
  "js_rem a b = (if b = 0 then None else Some (sgn a * (\<bar>a\<bar> mod \<bar>b\<bar>)))"

text \<open>
  Modelled from the spec: \<open>offlineProgram\<close> is imported from \<open>dao/db.js\<close>, which is not part
  of the sources at hand; the resolver's step 1 describes its result as an offline item of
  the given duration.
\<close>

definition offlineProgram :: "int \<Rightarrow> Program" where
  "offlineProgram d =
     \<lparr>p_title = [], p_key = None, p_plexFile = None, p_file = None, p_ratingKey = None,
      p_serverKey = None, p_fillerId = None, p_duration = d, p_isOffline = True, p_err = None\<rparr>"

text \<open>
  The \<open>for\<close> loop of the resolver.  \<open>find_program ps y te n\<close> runs the loop from index \<open>y\<close>
  on the remaining programs \<open>ps\<close> with the current value \<open>te\<close> of the variable
  \<open>timeElapsed\<close>; \<open>n\<close> is \<open>channel.programs.length\<close>.  It returns the final
  \<open>(currentProgramIndex, timeElapsed)\<close>, or \<open>None\<close> when the loop ends with
  \<open>currentProgramIndex\<close> still \<open>-1\<close>.
\<close>

fun find_program :: "Program list \<Rightarrow> nat \<Rightarrow> int \<Rightarrow> nat \<Rightarrow> (nat \<times> int) option" where
  "find_program [] y te n = None"
| "find_program (p # ps) y te n =
     (if te - p_duration p < 0 then
        (if p_duration p > 2 * SLACK \<and> te > p_duration p - SLACK
         then Some ((y + 1) mod n, 0)
         else Some (y, te))
      else find_program ps (Suc y) (te - p_duration p) n)"

text \<open>
  \<open>new Date(channel.startTimeEpoch).getTime()\<close> is the identity on whole millisecond counts.
  A \<open>NaN\<close> remainder (channel duration 0) makes every comparison of the loop false, so the
  loop finds nothing and the function throws.
\<close>

definition getCurrentProgramAndTimeElapsed ::
  "int \<Rightarrow> Channel \<Rightarrow> error + ProgramAndTimeElapsed" where
  "getCurrentProgramAndTimeElapsed date channel =
     (let channelStartTime = ch_startTimeEpoch channel in
      if channelStartTime > date then
        Inr \<lparr>program = offlineProgram (channelStartTime - date), timeElapsed = 0,
             programIndex = - 1\<rparr>
      else
        (case js_rem (date - channelStartTime) (ch_duration channel) of
           None \<Rightarrow> Inl NoProgramFound
         | Some te \<Rightarrow>
             (case find_program (ch_programs channel) 0 te (length (ch_programs channel)) of
                None \<Rightarrow> Inl NoProgramFound
              | Some (i, t) \<Rightarrow>
                  Inr \<lparr>program = ch_programs channel ! i, timeElapsed = t,
                       programIndex = int i\<rparr>)))"

text \<open>
  The running total of the spec's description of the walk: the summed durations of the
  first \<open>k\<close> items of a lineup.
\<close>

definition running_total :: "Program list \<Rightarrow> nat \<Rightarrow> int" where
  "running_total ps k = sum_list (map p_duration (take k ps))"

text \<open>The channel of scenario S1: start time 0, lineup A (60 s), B (120 s), C (30 s).\<close>

definition content :: "string \<Rightarrow> int \<Rightarrow> Program" where
  "content name d =
     \<lparr>p_title = name, p_key = None, p_plexFile = None, p_file = None, p_ratingKey = None,
      p_serverKey = None, p_fillerId = None, p_duration = d, p_isOffline = False, p_err = None\<rparr>"

definition channel_with :: "int \<Rightarrow> int \<Rightarrow> Program list \<Rightarrow> Channel" where
  "channel_with start d ps =
     \<lparr>ch_number = 1, ch_startTimeEpoch = start, ch_duration = d, ch_programs = ps,
      ch_offlineMode = ''pic'', ch_fallback = [], ch_fillerRepeatCooldown = None,
      ch_disableFillerOverlay = None, ch_watermark = None, ch_icon = None\<rparr>"

definition S1_channel :: Channel where
  "S1_channel =
     channel_with 0 210000 [content ''A'' 60000, content ''B'' 120000, content ''C'' 30000]"

section \<open>Filler weights: \<open>norm_d\<close> and \<open>norm_s\<close>\<close>

text \<open>
  The two helpers divide and take a logarithm, so their argument is a \<open>real\<close> here;
  \<open>Math.ceil\<close> is \<open>\<lceil>_\<rceil>\<close> and \<open>Math.log\<close> is \<open>ln\<close>.  The intermediate values are written
  as the source computes them, assignment by assignment.
\<close>

definition norm_d :: "real \<Rightarrow> int" where
  "norm_d x0 =
     (let x1 = x0 / (60 * 1000);
          x2 = (if x1 \<ge> 3.0 then 3.0 + ln x1 else x1);
          y = 10000 * (real_of_int \<lceil>x2 * 1000\<rceil> + 1)
      in \<lceil>y / 1000000\<rceil> + 1)"

definition norm_s :: "real \<Rightarrow> int" where
  "norm_s x =
     (let y0 = real_of_int \<lceil>x / 600\<rceil> + 1;
          y1 = y0 * y0
      in \<lceil>y1 / 1000000\<rceil> + 1)"

section \<open>The random source\<close>

text \<open>
  \<open>random\<close> is a generator of the library random-js.  Its draws are taken from an explicit
  list of raw numbers (an exhausted list keeps yielding 0), so that every outcome the
  generator can produce is the outcome for some list.  \<open>random.bool(a, b)\<close> is true with
  probability \<open>a / b\<close>: never for \<open>a \<le> 0\<close>, always for \<open>a \<ge> b\<close>; \<open>random.integer(lo, hi)\<close>
  lies in \<open>lo .. hi\<close>.
\<close>

type_synonym rng = "nat list"

fun draw :: "rng \<Rightarrow> nat \<times> rng" where
  "draw [] = (0, [])"
| "draw (x # xs) = (x, xs)"

definition random_bool :: "int \<Rightarrow> int \<Rightarrow> rng \<Rightarrow> bool \<times> rng" where
  "random_bool numerator denominator g =
     (if numerator \<le> 0 then (False, g)
      else if numerator \<ge> denominator then (True, g)
      else (case draw g of (x, g') \<Rightarrow> (int x mod denominator < numerator, g')))"

definition random_integer :: "int \<Rightarrow> int \<Rightarrow> rng \<Rightarrow> int \<times> rng" where
  "random_integer lo hi g = (case draw g of (x, g') \<Rightarrow> (lo + int x mod (hi - lo + 1), g'))"

definition weighedPick :: "int \<Rightarrow> int \<Rightarrow> rng \<Rightarrow> bool \<times> rng" where
  "weighedPick a tot g = random_bool a tot g"

section \<open>The filler picker: \<open>pickRandomWithMaxDuration\<close>\<close>

record FillerCollection =
  fc_id :: string
  fc_weight :: int
  fc_cooldown :: int
  fc_content :: "Program list"

text \<open>
  The two queries the picker makes to the channel cache (class \<open>ChannelCache\<close>, not part of
  the sources at hand) are parameters of the model.
\<close>

record ChannelCache =
  getProgramLastPlayTime :: "int \<Rightarrow> Program \<Rightarrow> int"
  getFillerLastPlayTime :: "int \<Rightarrow> string \<Rightarrow> int"

text \<open>The variables the two nested loops of the picker update.\<close>

record PickState =
  ps_minimumWait :: int
  ps_listM :: int
  ps_fillerId :: "string option"
  ps_pick1 :: "Program option"
  ps_rng :: rng

record PickResult =
  pr_filler :: "Program option"
  pr_minimumWait :: int

definition const_D :: int where
  "const_D = 7 * 24 * 60 * 60 * 1000"

definition const_E :: int where
  "const_E = 5 * 60 * 60 * 1000"

text \<open>
  The tail of the inner loop body, from \<open>if (timeSince <= 0) continue\<close> on: the clip's
  weight is added to \<open>n\<close> and the clip replaces \<open>pick1\<close> when the weighted draw says so.
  The result is the new \<open>n\<close> and the new state.
\<close>

definition weigh_clip :: "Program \<Rightarrow> int \<Rightarrow> int \<Rightarrow> PickState \<Rightarrow> int \<times> PickState" where
  "weigh_clip clip timeSince n st =
     (if timeSince \<le> 0 then (n, st)
      else
        (let s = norm_s (real_of_int (if timeSince \<ge> const_E then const_E else timeSince));
             d = norm_d (real_of_int (p_duration clip));
             w = s + d;
             n' = n + w
         in case weighedPick w n' (ps_rng st) of
              (b, g) \<Rightarrow>
                (n', if b then st\<lparr>ps_pick1 := Some clip, ps_rng := g\<rparr> else st\<lparr>ps_rng := g\<rparr>)))"

text \<open>
  The inner loop over the clips of one collection \<open>fc\<close> (\<open>fillers[j]\<close>).  \<open>cooldown\<close> is
  \<open>channel.fillerRepeatCooldown\<close>, \<open>t0\<close> the wall-clock time read at the start of the picker;
  \<open>pickedList\<close> and \<open>n\<close> are the loop's local variables.  A \<open>break\<close> returns the state.
\<close>

fun clip_loop ::
  "ChannelCache \<Rightarrow> int \<Rightarrow> int \<Rightarrow> int \<Rightarrow> int \<Rightarrow> FillerCollection \<Rightarrow> Program list \<Rightarrow>
   bool \<Rightarrow> int \<Rightarrow> PickState \<Rightarrow> PickState" where
  "clip_loop cache number cooldown maxDuration t0 fc [] pickedList n st = st"
| "clip_loop cache number cooldown maxDuration t0 fc (clip # rest) pickedList n st =
     (if p_duration clip \<le> maxDuration + SLACK then
        (let t1 = getProgramLastPlayTime cache number clip;
             timeSince = (if t1 = 0 then const_D else t0 - t1)
         in if timeSince < cooldown - SLACK then
              (let w = cooldown - timeSince;
                   st1 = (if p_duration clip + w \<le> maxDuration + SLACK
                          then st\<lparr>ps_minimumWait := min (ps_minimumWait st) w\<rparr> else st)
               in clip_loop cache number cooldown maxDuration t0 fc rest pickedList n st1)
            else if \<not> pickedList then
              (let t1' = getFillerLastPlayTime cache number (fc_id fc);
                   timeSince' = (if t1' = 0 then const_D else t0 - t1')
               in if timeSince' + SLACK \<ge> fc_cooldown fc then
                    (let listM = ps_listM st + fc_weight fc
                     in case weighedPick (fc_weight fc) listM (ps_rng st) of
                          (b, g) \<Rightarrow>
                            if b then
                              (case weigh_clip clip timeSince 0
                                      (st\<lparr>ps_listM := listM, ps_rng := g,
                                          ps_fillerId := Some (fc_id fc)\<rparr>) of
                                 (n', st') \<Rightarrow>
                                   clip_loop cache number cooldown maxDuration t0 fc rest True n' st')
                            else st\<lparr>ps_listM := listM, ps_rng := g\<rparr>)
                  else
                    (let w = fc_cooldown fc - timeSince'
                     in if p_duration clip + w \<le> maxDuration + SLACK
                        then st\<lparr>ps_minimumWait := min (ps_minimumWait st) w\<rparr> else st))
            else
              (case weigh_clip clip timeSince n st of
                 (n', st') \<Rightarrow>
                   clip_loop cache number cooldown maxDuration t0 fc rest pickedList n' st'))
      else clip_loop cache number cooldown maxDuration t0 fc rest pickedList n st)"

text \<open>The outer loop over the collections; each starts with \<open>pickedList = false\<close>, \<open>n = 0\<close>.\<close>

fun filler_loop ::
  "ChannelCache \<Rightarrow> int \<Rightarrow> int \<Rightarrow> int \<Rightarrow> int \<Rightarrow> FillerCollection list \<Rightarrow> PickState \<Rightarrow> PickState"
  where
  "filler_loop cache number cooldown maxDuration t0 [] st = st"
| "filler_loop cache number cooldown maxDuration t0 (fc # fcs) st =
     filler_loop cache number cooldown maxDuration t0 fcs
       (clip_loop cache number cooldown maxDuration t0 fc (fc_content fc) False 0 st)"

text \<open>
  The picker.  \<open>t0\<close> stands for \<open>new Date().getTime()\<close> and \<open>g\<close> for the state of \<open>random\<close>;
  the new state of \<open>random\<close> is returned with the result.  The first loop of the source
  (which concatenates all contents into \<open>list\<close>) has no effect, since \<open>list\<close> is
  reassigned before it is read.  The source also stores the default cooldown of 30 minutes
  into \<open>channel.fillerRepeatCooldown\<close> when that is undefined; the model uses the same
  default and leaves the channel as it is.  The picked clip is copied and given the
  \<open>fillerId\<close> of the last collection the lottery accepted.
\<close>

definition pickRandomWithMaxDuration ::
  "ChannelCache \<Rightarrow> Channel \<Rightarrow> FillerCollection list \<Rightarrow> int \<Rightarrow> int \<Rightarrow> rng \<Rightarrow> PickResult \<times> rng"
  where
  "pickRandomWithMaxDuration channelCache channel fillers maxDuration t0 g =
     (let cooldown = (case ch_fillerRepeatCooldown channel of
                        None \<Rightarrow> 30 * 60 * 1000 | Some c \<Rightarrow> c);
          st = filler_loop channelCache (ch_number channel) cooldown maxDuration t0 fillers
                 \<lparr>ps_minimumWait = 1000000000, ps_listM = 0, ps_fillerId = None,
                  ps_pick1 = None, ps_rng = g\<rparr>
      in (\<lparr>pr_filler = map_option (\<lambda>p. p\<lparr>p_fillerId := ps_fillerId st\<rparr>) (ps_pick1 st),
           pr_minimumWait = ps_minimumWait st\<rparr>,
          ps_rng st))"

section \<open>Building the stream lineup item: \<open>createLineup\<close>\<close>

record LineupItem =
  li_type :: string
  li_title :: string
  li_key :: "string option"
  li_plexFile :: "string option"
  li_file :: "string option"
  li_ratingKey :: "string option"
  li_serverKey :: "string option"
  li_fillerId :: "string option"
  li_err :: "string option"
  li_start :: int
  li_streamDuration :: int
  li_duration :: int
  li_beginningOffset :: int

definition offline_item :: "string \<Rightarrow> string option \<Rightarrow> int \<Rightarrow> int \<Rightarrow> LineupItem" where
  "offline_item name e remaining beginningOffset =
     \<lparr>li_type = ''offline'', li_title = name, li_key = None, li_plexFile = None,
      li_file = None, li_ratingKey = None, li_serverKey = None, li_fillerId = None,
      li_err = e, li_start = 0, li_streamDuration = remaining, li_duration = remaining,
      li_beginningOffset = beginningOffset\<rparr>"

text \<open>
  \<open>createLineup\<close>, branch by branch: an item that carries an error, an offline item (filler
  from the picker, else the channel's static fallback clip, else the offline screen), and a
  content item with the start-snap.  \<open>typeof randomResult.minimumWait !== undefined\<close>
  compares a string with \<open>undefined\<close> and is always true, so it does not appear.
\<close>

definition createLineup ::
  "ChannelCache \<Rightarrow> ProgramAndTimeElapsed \<Rightarrow> Channel \<Rightarrow> FillerCollection list \<Rightarrow> bool \<Rightarrow>
   int \<Rightarrow> rng \<Rightarrow> LineupItem list \<times> rng" where
  "createLineup channelCache obj channel fillers isFirst t0 g =
     (let timeElapsed0 = timeElapsed obj;
          activeProgram = program obj;
          beginningOffset0 = 0
      in if p_err activeProgram \<noteq> None then
           (let remaining = p_duration activeProgram - timeElapsed0
            in ([offline_item ''Error'' (p_err activeProgram) remaining beginningOffset0], g))
         else if p_isOffline activeProgram then
           (let remaining0 = p_duration activeProgram - timeElapsed0;
                special = (if ch_offlineMode channel = ''clip'' \<and> ch_fallback channel \<noteq> []
                           then Some (hd (ch_fallback channel)) else None)
            in case pickRandomWithMaxDuration channelCache channel fillers
                      (remaining0 + (if isFirst then 7 * 24 * 60 * 60 * 1000 else 0)) t0 g of
                 (randomResult, g1) \<Rightarrow>
                   (let filler0 = pr_filler randomResult;
                        remaining1 = (if filler0 = None \<and> remaining0 > pr_minimumWait randomResult
                                      then pr_minimumWait randomResult else remaining0);
                        isSpecial = (filler0 = None);
                        filler1 = (if filler0 = None then special else filler0)
                    in case filler1 of
                         Some filler \<Rightarrow>
                           (case (if isSpecial then
                                    (if p_duration filler > remaining1
                                     then p_duration filler - remaining1 else 0, g1)
                                  else if isFirst then
                                    (let fillerstart = max 0 (p_duration filler - remaining1);
                                         more = max 0 (p_duration filler - fillerstart - 15000 - SLACK)
                                     in case random_integer 0 more g1 of
                                          (r, g2) \<Rightarrow> (fillerstart + r, g2))
                                  else (0, g1)) of
                              (fillerstart, g3) \<Rightarrow>
                                ([\<lparr>li_type = ''commercial'', li_title = p_title filler,
                                   li_key = p_key filler, li_plexFile = p_plexFile filler,
                                   li_file = p_file filler, li_ratingKey = p_ratingKey filler,
                                   li_serverKey = p_serverKey filler,
                                   li_fillerId = p_fillerId filler, li_err = None,
                                   li_start = fillerstart,
                                   li_streamDuration =
                                     max 1 (min (p_duration filler - fillerstart) remaining1),
                                   li_duration = p_duration filler,
                                   li_beginningOffset = beginningOffset0\<rparr>], g3))
                       | None \<Rightarrow>
                           (let remaining2 = min remaining1 (10 * 60 * 1000)
                            in ([offline_item ''Channel Offline'' None remaining2 beginningOffset0],
                                g1))))
         else
           (let originalTimeElapsed = timeElapsed0;
                timeElapsed1 = (if timeElapsed0 < 30000 then 0 else timeElapsed0);
                beginningOffset1 = max 0 (originalTimeElapsed - timeElapsed1)
            in ([\<lparr>li_type = ''program'', li_title = p_title activeProgram,
                   li_key = p_key activeProgram, li_plexFile = p_plexFile activeProgram,
                   li_file = p_file activeProgram, li_ratingKey = p_ratingKey activeProgram,
                   li_serverKey = p_serverKey activeProgram, li_fillerId = None, li_err = None,
                   li_start = timeElapsed1,
                   li_streamDuration = p_duration activeProgram - timeElapsed1,
                   li_duration = p_duration activeProgram,
                   li_beginningOffset = beginningOffset1\<rparr>], g)))"

section \<open>The watermark decision: \<open>getWatermark\<close>\<close>

record Resolution =
  widthPx :: int
  heightPx :: int

text \<open>
  The ffmpeg settings (type \<open>FfmpegSettings\<close> of the package \<open>@tunarr/types\<close>), with the
  fields the sources at hand read.  Numeric settings hold whole numbers.
\<close>

record FfmpegSettings =
  ffmpegExecutablePath :: string
  numThreads :: int
  enableLogging :: bool
  enableTranscoding :: bool
  disableChannelOverlay :: bool
  errorScreen :: string
  errorAudio :: string
  maxFPS :: int
  deinterlaceFilter :: string
  videoEncoder :: string
  audioEncoder :: string
  scalingAlgorithm :: string
  normalizeVideoCodec :: bool
  normalizeAudioCodec :: bool
  normalizeAudio :: bool
  normalizeResolution :: bool
  audioVolumePercent :: int
  videoBitrate :: int
  videoBufferSize :: int
  audioBitrate :: int
  audioBufferSize :: int
  audioChannels :: int
  audioSampleRate :: int
  targetResolution :: Resolution

definition getWatermark :: "FfmpegSettings \<Rightarrow> Channel \<Rightarrow> string \<Rightarrow> Watermark option" where
  "getWatermark ffmpegSettings channel type =
     (if \<not> enableTranscoding ffmpegSettings \<or> disableChannelOverlay ffmpegSettings then None
      else
        (let disableFillerOverlay = (case ch_disableFillerOverlay channel of
                                       None \<Rightarrow> True | Some b \<Rightarrow> b)
         in if type = ''commercial'' \<and> disableFillerOverlay then None
            else
              (case ch_watermark channel of
                 None \<Rightarrow> None
               | Some watermark \<Rightarrow>
                   if \<not> wm_enabled watermark then None
                   else
                     (let icon0 = wm_url watermark;
                          icon1 = (if icon0 = None \<or> map_option icon_path icon0 = Some []
                                   then ch_icon channel else icon0)
                      in if (icon0 = None \<or> map_option icon_path icon0 = Some [])
                            \<and> (icon1 = None \<or> map_option icon_path icon1 = Some [])
                         then None
                         else Some \<lparr>wm_enabled = True, wm_url = icon1,
                                    wm_width = wm_width watermark,
                                    wm_verticalMargin = wm_verticalMargin watermark,
                                    wm_horizontalMargin = wm_horizontalMargin watermark,
                                    wm_duration = wm_duration watermark,
                                    wm_position = wm_position watermark,
                                    wm_fixedSize = Some (wm_fixedSize watermark = Some True),
                                    wm_animated = Some (wm_animated watermark = Some True)\<rparr>))))"

section \<open>Auxiliary notions for the statements about the lineup\<close>

text \<open>A channel cache in which nothing has been played yet: every last-play time is 0.\<close>

definition never_played :: ChannelCache where
  "never_played = \<lparr>getProgramLastPlayTime = (\<lambda>number clip. 0),
                    getFillerLastPlayTime = (\<lambda>number fillerId. 0)\<rparr>"

text \<open>The invariant of the picker's loops: the clip held in \<open>pick1\<close>, if any, passed the gate.\<close>

definition pick_fits :: "int \<Rightarrow> PickState \<Rightarrow> bool" where
  "pick_fits bound st = (case ps_pick1 st of None \<Rightarrow> True | Some c \<Rightarrow> p_duration c \<le> bound)"

text \<open>Sample settings and a sample channel with an enabled watermark.\<close>

definition logo :: ChannelIcon where
  "logo = \<lparr>icon_path = ''logo.png'', icon_width = 0, icon_duration = 0,
           icon_position = ''2''\<rparr>"

definition sample_watermark :: Watermark where
  "sample_watermark =
     \<lparr>wm_enabled = True, wm_url = Some logo, wm_width = 10, wm_verticalMargin = 5,
      wm_horizontalMargin = 5, wm_duration = 0, wm_position = ''bottom-right'',
      wm_fixedSize = None, wm_animated = None\<rparr>"

definition sample_settings :: FfmpegSettings where
  "sample_settings =
     \<lparr>ffmpegExecutablePath = ''/usr/bin/ffmpeg'', numThreads = 4, enableLogging = False,
      enableTranscoding = True, disableChannelOverlay = False, errorScreen = ''pic'',
      errorAudio = ''silent'', maxFPS = 60, deinterlaceFilter = ''none'',
      videoEncoder = ''mpeg2video'', audioEncoder = ''ac3'', scalingAlgorithm = ''bicubic'',
      normalizeVideoCodec = True, normalizeAudioCodec = True, normalizeAudio = True,
      normalizeResolution = False, audioVolumePercent = 100, videoBitrate = 2000,
      videoBufferSize = 2000, audioBitrate = 192, audioBufferSize = 50, audioChannels = 2,
      audioSampleRate = 48, targetResolution = \<lparr>widthPx = 1920, heightPx = 1080\<rparr>\<rparr>"

definition overlay_settings :: "bool \<Rightarrow> FfmpegSettings" where
  "overlay_settings transcode = sample_settings\<lparr>enableTranscoding := transcode\<rparr>"

definition watermarked_channel :: "Watermark \<Rightarrow> Channel" where
  "watermarked_channel w = (channel_with 0 0 [])\<lparr>ch_watermark := Some w\<rparr>"

text \<open>
  An offline gap of 100 s on a channel with one filler collection (weight 1, cooldown 0)
  that holds a single clip of 170 s, never played.
\<close>

definition gap_100s :: ProgramAndTimeElapsed where
  "gap_100s = \<lparr>program = offlineProgram 100000, timeElapsed = 0, programIndex = 0\<rparr>"

definition one_clip_170s :: "FillerCollection list" where
  "one_clip_170s =
     [\<lparr>fc_id = ''f1'', fc_weight = 1, fc_cooldown = 0, fc_content = [content ''clip'' 170000]\<rparr>]"

section \<open>The encoder wrapper: class \<open>FFMPEG\<close>\<close>

subsection \<open>Text helpers\<close>

text \<open>
  A whole number in a template literal (\<open>`${n}`\<close>, \<open>n.toString()\<close>) prints as its decimal digits.
\<close>

fun show_nat :: "nat \<Rightarrow> string" where
  "show_nat n =
     (if n < 10 then [''0123456789'' ! n]
      else show_nat (n div 10) @ [''0123456789'' ! (n mod 10)])"

declare show_nat.simps [simp del]

definition show_int :: "int \<Rightarrow> string" where
  "show_int i = (if i < 0 then CHR ''-'' # show_nat (nat (- i)) else show_nat (nat i))"

text \<open>An optional number or text in a template literal; \<open>undefined\<close> prints as its name.\<close>

definition show_opt_int :: "int option \<Rightarrow> string" where
  "show_opt_int v = (case v of None \<Rightarrow> ''undefined'' | Some i \<Rightarrow> show_int i)"

definition show_opt :: "string option \<Rightarrow> string" where
  "show_opt v = (case v of None \<Rightarrow> ''undefined'' | Some s \<Rightarrow> s)"

text \<open>
  \<open>round(volumePercent / 100.0, 2)\<close> in a template literal, for a whole percentage: the
  integer part, and up to two decimals without a trailing zero.
\<close>

definition show_hundredths :: "int \<Rightarrow> string" where
  "show_hundredths v =
     (let a = \<bar>v\<bar>;
          whole = show_int (a div 100);
          frac = a mod 100;
          decimals = (if frac = 0 then []
                      else if frac mod 10 = 0 then CHR ''.'' # show_int (frac div 10)
                      else if frac < 10 then ''.0'' @ show_int frac
                      else CHR ''.'' # show_int frac)
      in if v < 0 then CHR ''-'' # whole @ decimals else whole @ decimals)"

definition dquote :: string where
  "dquote = [CHR 0x22]"

definition squote :: string where
  "squote = [CHR 0x27]"

text \<open>\<open>String.prototype.includes\<close>: the second text occurs in the first.\<close>

fun str_includes :: "string \<Rightarrow> string \<Rightarrow> bool" where
  "str_includes [] sub = (sub = [])"
| "str_includes (c # cs) sub = (take (length sub) (c # cs) = sub \<or> str_includes cs sub)"

text \<open>\<open>Array.prototype.join\<close> on texts.\<close>

fun join :: "string \<Rightarrow> string list \<Rightarrow> string" where
  "join sep [] = []"
| "join sep [x] = x"
| "join sep (x # y # ys) = x @ sep @ join sep (y # ys)"

subsection \<open>Arithmetic helpers\<close>

text \<open>The remainder \<open>a % b\<close> for a divisor that is not 0.\<close>

definition js_mod :: "int \<Rightarrow> int \<Rightarrow> int" where
  "js_mod a b = sgn a * (\<bar>a\<bar> mod \<bar>b\<bar>)"

text \<open>\<open>Math.ceil(a / b)\<close> and \<open>Math.round(a / b)\<close> for whole \<open>a\<close> and positive whole \<open>b\<close>.\<close>

definition ceil_div :: "int \<Rightarrow> int \<Rightarrow> int" where
  "ceil_div a b = - ((- a) div b)"

definition round_div :: "int \<Rightarrow> int \<Rightarrow> int" where
  "round_div a b = (2 * a + b) div (2 * b)"

text \<open>The function \<open>gcd\<close> at the end of the file: Euclid's loop on \<open>%\<close>.\<close>

function gcd_loop :: "int \<Rightarrow> int \<Rightarrow> int" where
  "gcd_loop a b = (if b = 0 then a else gcd_loop b (js_mod a b))"
  by pat_completeness auto
termination
proof (relation "measure (\<lambda>(a, b). nat \<bar>b\<bar>)")
  show "wf (measure (\<lambda>(a, b). nat \<bar>b\<bar>))" by simp
next
  fix a b :: int
  assume "b \<noteq> 0"
  then have "\<bar>a\<bar> mod \<bar>b\<bar> < \<bar>b\<bar>" by simp
  moreover have "0 \<le> \<bar>a\<bar> mod \<bar>b\<bar>" using \<open>b \<noteq> 0\<close> by simp
  ultimately have "\<bar>js_mod a b\<bar> < \<bar>b\<bar>"
    using \<open>b \<noteq> 0\<close> by (simp add: js_mod_def abs_mult abs_sgn_eq)
  then show "((b, js_mod a b), (a, b)) \<in> measure (\<lambda>(a, b). nat \<bar>b\<bar>)"
    by simp
qed

declare gcd_loop.simps [simp del]

definition isLargerResolution :: "int \<Rightarrow> int \<Rightarrow> int \<Rightarrow> int \<Rightarrow> bool" where
  "isLargerResolution w1 h1 w2 h2 = (w1 > w2 \<or> h1 > h2 \<or> js_mod w1 2 = 1 \<or> js_mod h1 2 = 1)"

definition isDifferentVideoCodec :: "string option \<Rightarrow> string \<Rightarrow> bool" where
  "isDifferentVideoCodec codec encoder =
     (if codec = Some ''mpeg2video'' then \<not> str_includes encoder ''mpeg2''
      else if codec = Some ''h264'' then \<not> str_includes encoder ''264''
      else if codec = Some ''hevc'' then \<not> (str_includes encoder ''265'' \<or> str_includes encoder ''hevc'')
      else True)"

definition isDifferentAudioCodec :: "string option \<Rightarrow> string \<Rightarrow> bool" where
  "isDifferentAudioCodec codec encoder =
     (if codec = Some ''mp3'' then \<not> (str_includes encoder ''mp3'' \<or> str_includes encoder ''lame'')
      else if codec = Some ''aac'' then \<not> str_includes encoder ''aac''
      else if codec = Some ''ac3'' then \<not> str_includes encoder ''ac3''
      else if codec = Some ''flac'' then \<not> str_includes encoder ''flac''
      else True)"

subsection \<open>The wrapper's data\<close>

record ChannelTranscoding =
  tr_targetResolution :: "Resolution option"
  tr_videoBitrate :: "int option"
  tr_videoBufferSize :: "int option"

text \<open>The channel context as the wrapper reads it.\<close>

record ContextChannel =
  cc_name :: string
  cc_uuid :: string
  cc_offlinePicture :: "string option"
  cc_offlineSoundtrack :: "string option"
  cc_transcoding :: "ChannelTranscoding option"

text \<open>
  \<open>serverOptions()\<close> of \<open>globals.js\<close> (not part of the sources at hand) is a parameter: the
  port and the database directory it reports.
\<close>

record ServerOptions =
  so_port :: int
  so_databaseDirectory :: string

text \<open>
  The probe statistics (type \<open>VideoStats\<close> of \<open>plexTranscoder.js\<close>, whose declaration is not
  part of the sources at hand): width and height are always there, as \<open>spawnError\<close> and
  \<open>spawnOffline\<close> build the record from them and a duration alone.
\<close>

record VideoStats =
  vs_videoWidth :: int
  vs_videoHeight :: int
  vs_duration :: "int option"
  vs_audioIndex :: "string option"
  vs_videoFramerate :: "real option"
  vs_videoScanType :: "string option"
  vs_audioOnly :: "bool option"
  vs_placeholderImage :: "string option"
  vs_anamorphic :: "bool option"
  vs_pixelP :: "int option"
  vs_pixelQ :: "int option"
  vs_videoCodec :: "string option"
  vs_audioCodec :: "string option"

text \<open>The watermark as the wrapper reads it (its \<open>url\<close> is a text here).\<close>

record EncoderWatermark =
  ew_url :: "string option"
  ew_width :: int
  ew_verticalMargin :: int
  ew_horizontalMargin :: int
  ew_duration :: int
  ew_position :: string
  ew_fixedSize :: bool
  ew_animated :: bool

text \<open>The first parameter of \<open>spawn\<close>: a stream URL, or an error title with a subtitle.\<close>

datatype StreamSource = Url string | ErrorSource string "string option"

definition isString :: "StreamSource \<Rightarrow> bool" where
  "isString src = (case src of Url u \<Rightarrow> True | ErrorSource t s \<Rightarrow> False)"

definition isOffline :: "StreamSource \<Rightarrow> bool" where
  "isOffline src = (case src of Url u \<Rightarrow> False | ErrorSource t s \<Rightarrow> t = ''offline'')"

text \<open>
  The fields of an \<open>FFMPEG\<close> object.  \<open>alignAudio\<close> is declared and never assigned, so it is
  \<open>undefined\<close>, which every test reads as false.
\<close>

record FFMPEG =
  ff_opts :: FfmpegSettings
  ff_errorPicturePath :: string
  ff_ffmpegName :: string
  ff_channel :: ContextChannel
  ff_ffmpegPath :: string
  ff_wantedW :: int
  ff_wantedH :: int
  ff_sentData :: bool
  ff_apad :: bool
  ff_audioChannelsSampleRate :: bool
  ff_ensureResolution :: bool
  ff_volumePercent :: int
  ff_hasBeenKilled :: bool
  ff_audioOnly :: bool
  ff_alignAudio :: bool

definition MAXIMUM_ERROR_DURATION_MS :: int where
  "MAXIMUM_ERROR_DURATION_MS = 60000"

definition REALLY_RIDICULOUSLY_HIGH_FPS_FOR_TUNARRS_USECASE :: int where
  "REALLY_RIDICULOUSLY_HIGH_FPS_FOR_TUNARRS_USECASE = 120"

definition STILLIMAGE_SUPPORTED_ENCODERS :: "string list" where
  "STILLIMAGE_SUPPORTED_ENCODERS = [''mpeg2video'', ''libx264'', ''h264_videotoolbox'']"

text \<open>The constructor.\<close>

definition FFMPEG_new :: "ServerOptions \<Rightarrow> FfmpegSettings \<Rightarrow> ContextChannel \<Rightarrow> FFMPEG" where
  "FFMPEG_new server opts channel =
     (let opts1 = (if \<not> enableTranscoding opts
                   then opts\<lparr>normalizeAudio := False, normalizeAudioCodec := False,
                             normalizeVideoCodec := False, errorScreen := ''kill'',
                             normalizeResolution := False, audioVolumePercent := 100,
                             maxFPS := REALLY_RIDICULOUSLY_HIGH_FPS_FOR_TUNARRS_USECASE\<rparr>
                   else opts);
          transcoding = cc_transcoding channel;
          targetResolution1 =
            (case Option.bind transcoding tr_targetResolution of
               Some r \<Rightarrow> r | None \<Rightarrow> targetResolution opts);
          opts2 = (case Option.bind transcoding tr_videoBitrate of
                     Some b \<Rightarrow> if b \<noteq> 0 then opts1\<lparr>videoBitrate := b\<rparr> else opts1
                   | None \<Rightarrow> opts1);
          opts3 = (case Option.bind transcoding tr_videoBufferSize of
                     Some b \<Rightarrow> if b \<noteq> 0 then opts2\<lparr>videoBufferSize := b\<rparr> else opts2
                   | None \<Rightarrow> opts2)
      in \<lparr>ff_opts = opts3,
          ff_errorPicturePath =
            ''http://localhost:'' @ show_int (so_port server) @ ''/images/generic-error-screen.png'',
          ff_ffmpegName = ''unnamed ffmpeg'',
          ff_channel = channel,
          ff_ffmpegPath = ffmpegExecutablePath opts,
          ff_wantedW = widthPx targetResolution1,
          ff_wantedH = heightPx targetResolution1,
          ff_sentData = False,
          ff_apad = normalizeAudio opts3,
          ff_audioChannelsSampleRate = normalizeAudio opts3,
          ff_ensureResolution = normalizeResolution opts3,
          ff_volumePercent = audioVolumePercent opts3,
          ff_hasBeenKilled = False,
          ff_audioOnly = False,
          ff_alignAudio = False\<rparr>)"

definition setAudioOnly :: "bool \<Rightarrow> FFMPEG \<Rightarrow> FFMPEG" where
  "setAudioOnly b this = this\<lparr>ff_audioOnly := b\<rparr>"

definition kill :: "FFMPEG \<Rightarrow> FFMPEG" where
  "kill this = this\<lparr>ff_hasBeenKilled := True\<rparr>"

subsection \<open>The exit handler of the child process\<close>

text \<open>
  The events the wrapper emits, with their payloads: \<open>end\<close> and \<open>error\<close> carry an optional
  object of an exit code and a command line, \<open>close\<close> the exit code (\<open>null\<close> for a signal).
\<close>

datatype FfmpegEvent =
    End "(int \<times> string) option"
  | Error "(int \<times> string) option"
  | Close "int option"

fun event_name :: "FfmpegEvent \<Rightarrow> string" where
  "event_name (End payload) = ''end''"
| "event_name (Error payload) = ''error''"
| "event_name (Close code) = ''close''"

text \<open>
  The listener \<open>spawn\<close> registers for the child's \<open>exit\<close> event (\<open>startProcess\<close> registers the
  same one).  The exit code is \<open>None\<close> when the child was ended by a signal.  The result is
  the list of events emitted, in order.
\<close>

definition on_exit :: "FFMPEG \<Rightarrow> string list \<Rightarrow> int option \<Rightarrow> FfmpegEvent list" where
  "on_exit this ffmpegArgs code =
     (let cmd = ffmpegExecutablePath (ff_opts this) @ '' '' @ join '' '' ffmpegArgs
      in case code of
           None \<Rightarrow> [Close None]
         | Some c \<Rightarrow>
             if c = 0 then [End None]
             else if c = 255 then
               (if ff_hasBeenKilled this then [Close (Some c)]
                else (if \<not> ff_sentData this then [Error (Some (c, cmd))] else [])
                     @ [Close (Some c)])
             else [Error (Some (c, cmd))])"

subsection \<open>Building the argument list: \<open>spawn\<close>\<close>

text \<open>
  The local variables of \<open>spawn\<close>.  The function is modelled in the order of the source, as a
  chain of steps; each step takes the object (\<open>this\<close>) and the locals and returns both, since
  \<open>spawn\<close> assigns to fields of the object as it goes.
\<close>

record SpawnLocals =
  l_ffmpegArgs :: "string list"
  l_useStillImageTune :: bool
  l_inputFiles :: int
  l_audioFile :: int
  l_videoFile :: int
  l_overlayFile :: int
  l_doOverlay :: bool
  l_iW :: int
  l_iH :: int
  l_currentVideo :: string
  l_currentAudio :: string
  l_audioComplex :: string
  l_videoComplex :: string
  l_duration :: "string option"
  l_beforeSizeChange :: string
  l_audioIndex :: string

text \<open>
  How a call of \<open>spawn\<close> can fail to produce an argument list.  \<open>TypeError\<close>: the statistics are
  \<open>undefined\<close> and \<open>streamStats!.videoWidth\<close> throws.  \<open>Diverges\<close>: the scaler multiplies by an
  undefined pixel aspect, and \<open>gcd\<close> never leaves its loop on \<open>NaN\<close>.  \<open>NonFinite\<close>: the scaler
  divides by 0 (a zero width or height); the source goes on with \<open>NaN\<close> or an infinity, and
  the model stops there.
\<close>

datatype spawn_failure = TypeError | Diverges | NonFinite

record SpawnResult =
  sr_args :: "string list"
  sr_started :: bool

text \<open>
  The head of the list, the \<open>-re\<close> and \<open>-ss\<close> flags, the input file and the initial filter
  texts.  The start time may be fractional; its text is the value of the parameter
  \<open>numberToString\<close>, which stands for JavaScript's conversion of a number to a text.
\<close>

definition spawn_begin ::
  "(real \<Rightarrow> string) \<Rightarrow> FFMPEG \<Rightarrow> StreamSource \<Rightarrow> VideoStats \<Rightarrow> real option \<Rightarrow> string option \<Rightarrow>
   bool \<Rightarrow> EncoderWatermark option \<Rightarrow> SpawnLocals" where
  "spawn_begin numberToString this streamUrl stats startTime duration limitRead watermark =
     (let args0 = [''-threads'', show_int (numThreads (ff_opts this)), ''-fflags'',
                   ''+genpts+discardcorrupt+igndts''];
          args1 = (if limitRead \<and> (\<not> ff_audioOnly this \<or> isString streamUrl)
                   then args0 @ [''-re''] else args0);
          args2 = (case startTime of
                     Some t \<Rightarrow> args1 @ [''-ss'', numberToString t] | None \<Rightarrow> args1);
          audioIndex = show_opt (vs_audioIndex stats);
          hasInput = (case streamUrl of Url u \<Rightarrow> u \<noteq> [] | ErrorSource t s \<Rightarrow> False);
          args3 = (case streamUrl of
                     Url u \<Rightarrow> if u \<noteq> [] then args2 @ [''-i'', u] else args2
                   | ErrorSource t s \<Rightarrow> args2);
          inputFiles = (if hasInput then 1 else 0);
          videoFile = (if hasInput then 0 else - 1);
          audioFile = videoFile
      in \<lparr>l_ffmpegArgs = args3, l_useStillImageTune = False, l_inputFiles = inputFiles,
          l_audioFile = audioFile, l_videoFile = videoFile, l_overlayFile = - 1,
          l_doOverlay = (watermark \<noteq> None),
          l_iW = vs_videoWidth stats, l_iH = vs_videoHeight stats,
          l_currentVideo = ''[video]'', l_currentAudio = ''[audio]'',
          l_audioComplex = '';['' @ show_int audioFile @ '':'' @ audioIndex @ '']anull[audio]'',
          l_videoComplex = '';['' @ show_int videoFile @ '':v]null[video]'',
          l_duration = duration, l_beforeSizeChange = ''[video]'',
          l_audioIndex = audioIndex\<rparr>)"

text \<open>The frame-rate cap and the deinterlace filter.\<close>

definition spawn_fps :: "FFMPEG \<Rightarrow> VideoStats \<Rightarrow> SpawnLocals \<Rightarrow> SpawnLocals" where
  "spawn_fps this stats l =
     (let l1 = (if (case vs_videoFramerate stats of None \<Rightarrow> 0 | Some r \<Rightarrow> r)
                     \<ge> real_of_int (maxFPS (ff_opts this)) + 0.000001
                then l\<lparr>l_videoComplex := l_videoComplex l @ '';'' @ l_currentVideo l @ ''fps=''
                                             @ show_int (maxFPS (ff_opts this)) @ ''[fpchange]'',
                       l_currentVideo := ''[fpchange]''\<rparr>
                else l)
      in if vs_videoScanType stats = Some ''interlaced''
            \<and> deinterlaceFilter (ff_opts this) \<noteq> ''none''
         then l1\<lparr>l_videoComplex := l_videoComplex l1 @ '';'' @ l_currentVideo l1
                                      @ deinterlaceFilter (ff_opts this) @ ''[deinterlaced]'',
                 l_currentVideo := ''[deinterlaced]''\<rparr>
         else l1)"

text \<open>
  The generated video of an error, offline or audio-only stream (the branch
  \<open>if (!this.audioOnly)\<close> inside ``prepare input streams'').
\<close>

definition spawn_error_video ::
  "ServerOptions \<Rightarrow> FFMPEG \<Rightarrow> StreamSource \<Rightarrow> VideoStats \<Rightarrow> SpawnLocals \<Rightarrow> SpawnLocals" where
  "spawn_error_video server this streamUrl stats l =
     (let iW = l_iW l; iH = l_iH l;
          size = show_int iW @ ''x'' @ show_int iH;
          l0 = l\<lparr>l_ffmpegArgs := l_ffmpegArgs l @ [''-r'', ''24'']\<rparr>;
          defaultOfflinePic = ''http://localhost:'' @ show_int (so_port server)
                                @ ''/images/generic-offline-screen.png'';
          pic = (if isString streamUrl \<and> vs_audioOnly stats = Some True
                 then vs_placeholderImage stats
                 else if isOffline streamUrl
                 then Some (case cc_offlinePicture (ff_channel this) of
                              Some p \<Rightarrow> p | None \<Rightarrow> defaultOfflinePic)
                 else if errorScreen (ff_opts this) = ''pic''
                 then Some (ff_errorPicturePath this)
                 else None)
      in if pic \<noteq> None \<and> pic \<noteq> Some [] then
           l0\<lparr>l_ffmpegArgs := l_ffmpegArgs l0 @ [''-i'', the pic],
               l_duration :=
                 (if l_duration l0 = None \<and> vs_duration stats \<noteq> None
                  then Some (show_int (the (vs_duration stats) + 150) @ ''ms'')
                  else l_duration l0),
               l_videoComplex :=
                 '';['' @ show_int (l_inputFiles l0) @ '':0]format=yuv420p[formatted]''
                 @ '';[formatted]scale=w='' @ show_int iW @ '':h='' @ show_int iH
                 @ '':force_original_aspect_ratio=1[scaled]''
                 @ '';[scaled]pad='' @ show_int iW @ '':'' @ show_int iH
                 @ '':(ow-iw)/2:(oh-ih)/2[padded]''
                 @ '';[padded]loop=loop=-1:size=1:start=0[looped]''
                 @ '';[looped]realtime[videox]'',
               l_inputFiles := l_inputFiles l0 + 1,
               l_useStillImageTune :=
                 (if videoEncoder (ff_opts this) \<in> set STILLIMAGE_SUPPORTED_ENCODERS
                  then True else l_useStillImageTune l0)\<rparr>
         else if errorScreen (ff_opts this) = ''static'' then
           l0\<lparr>l_ffmpegArgs := l_ffmpegArgs l0 @ [''-f'', ''lavfi'', ''-i'', ''nullsrc=s=64x36''],
               l_videoComplex :=
                 '';geq=random(1)*255:128:128[videoz];[videoz]scale='' @ show_int iW @ '':''
                 @ show_int iH @ ''[videoy];[videoy]realtime[videox]'',
               l_inputFiles := l_inputFiles l0 + 1\<rparr>
         else if errorScreen (ff_opts this) = ''testsrc'' then
           l0\<lparr>l_ffmpegArgs := l_ffmpegArgs l0 @ [''-f'', ''lavfi'', ''-i'', ''testsrc=size='' @ size],
               l_videoComplex := '';realtime[videox]'',
               l_inputFiles := l_inputFiles l0 + 1\<rparr>
         else if errorScreen (ff_opts this) = ''text'' \<and> \<not> isString streamUrl then
           (let sz2 = ceil_div iH 33;
                sz1 = ceil_div (sz2 * 3) 2;
                sz3 = 2 * sz2;
                font = ''drawtext=fontfile='' @ so_databaseDirectory server @ ''/font.ttf:fontsize='';
                errorTitle = (case streamUrl of ErrorSource t s \<Rightarrow> t | Url u \<Rightarrow> u);
                subtitle = (case streamUrl of ErrorSource t s \<Rightarrow> show_opt s | Url u \<Rightarrow> u)
            in l0\<lparr>l_ffmpegArgs := l_ffmpegArgs l0
                                      @ [''-f'', ''lavfi'', ''-i'', ''color=c=black:s='' @ size],
                   l_inputFiles := l_inputFiles l0 + 1,
                   l_videoComplex :=
                     '';'' @ font @ show_int sz1
                     @ '':fontcolor=white:x=(w-text_w)/2:y=(h-text_h)/2:text='' @ squote
                     @ errorTitle @ squote @ '','' @ font @ show_int sz2
                     @ '':fontcolor=white:x=(w-text_w)/2:y=(h+text_h+'' @ show_int sz3
                     @ '')/2:text='' @ squote @ subtitle @ squote
                     @ ''[videoy];[videoy]realtime[videox]''\<rparr>)
         else
           l0\<lparr>l_ffmpegArgs := l_ffmpegArgs l0
                                  @ [''-f'', ''lavfi'', ''-i'', ''color=c=black:s='' @ size],
               l_inputFiles := l_inputFiles l0 + 1,
               l_videoComplex := '';realtime[videox]''\<rparr>)"

text \<open>
  The generated audio of an error or offline stream (the branch \<open>if (!isString(streamUrl))\<close>):
  first the choice of the audio source.  The two noisy variants clamp the object's volume
  to 70 percent.
\<close>

definition error_audio_source ::
  "FFMPEG \<Rightarrow> VideoStats \<Rightarrow> StreamSource \<Rightarrow> SpawnLocals \<Rightarrow> FFMPEG \<times> SpawnLocals" where
  "error_audio_source this stats streamUrl l =
     (let durstr = ''duration='' @ show_opt_int (vs_duration stats) @ ''ms'';
          soundtrack = cc_offlineSoundtrack (ff_channel this)
      in if isOffline streamUrl then
           (if soundtrack \<noteq> None \<and> soundtrack \<noteq> Some [] then
              (this,
               l\<lparr>l_ffmpegArgs := l_ffmpegArgs l @ [''-i'', the soundtrack],
                 l_audioComplex := '';['' @ show_int (l_inputFiles l)
                                     @ '':a]aloop=loop=-1:size=2147483647[audioy]'',
                 l_inputFiles := l_inputFiles l + 1\<rparr>)
            else (this, l\<lparr>l_audioComplex := '';aevalsrc=0:'' @ durstr @ ''[audioy]''\<rparr>))
         else if errorAudio (ff_opts this) = ''whitenoise''
                 \<or> (errorAudio (ff_opts this) \<noteq> ''sine'' \<and> ff_audioOnly this) then
           (this\<lparr>ff_volumePercent := min 70 (ff_volumePercent this)\<rparr>,
            l\<lparr>l_audioComplex := '';aevalsrc=random(0):'' @ durstr @ ''[audioy]''\<rparr>)
         else if errorAudio (ff_opts this) = ''sine'' then
           (this\<lparr>ff_volumePercent := min 70 (ff_volumePercent this)\<rparr>,
            l\<lparr>l_audioComplex := '';sine=f=440:'' @ durstr @ ''[audioy]''\<rparr>)
         else (this, l\<lparr>l_audioComplex := '';aevalsrc=0:'' @ durstr @ ''[audioy]''\<rparr>))"

text \<open>Then the pixel format and the \<open>arealtime\<close> filter.\<close>

definition spawn_error_audio ::
  "FFMPEG \<Rightarrow> VideoStats \<Rightarrow> StreamSource \<Rightarrow> SpawnLocals \<Rightarrow> FFMPEG \<times> SpawnLocals" where
  "spawn_error_audio this stats streamUrl l =
     (case error_audio_source this stats streamUrl l of
        (this1, l1) \<Rightarrow>
          (let l2 = (if \<not> ff_audioOnly this1
                     then l1\<lparr>l_ffmpegArgs := l_ffmpegArgs l1 @ [''-pix_fmt'', ''yuv420p'']\<rparr>
                     else l1)
           in (this1,
               l2\<lparr>l_audioComplex := l_audioComplex l2 @ '';[audioy]arealtime[audiox]'',
                  l_currentAudio := ''[audiox]''\<rparr>)))"

text \<open>
  ``Prepare input streams'': for an error descriptor, an empty URL or audio-only statistics
  the inputs are generated.  The step clears \<open>this.apad\<close> and sets
  \<open>this.audioChannelsSampleRate\<close>.
\<close>

definition spawn_prepare ::
  "ServerOptions \<Rightarrow> FFMPEG \<Rightarrow> StreamSource \<Rightarrow> VideoStats \<Rightarrow> SpawnLocals \<Rightarrow> FFMPEG \<times> SpawnLocals"
  where
  "spawn_prepare server this streamUrl stats l =
     (if \<not> isString streamUrl \<or> streamUrl = Url [] \<or> vs_audioOnly stats = Some True then
        (let this1 = this\<lparr>ff_apad := False, ff_audioChannelsSampleRate := True\<rparr>;
             l1 = l\<lparr>l_doOverlay := False, l_iW := ff_wantedW this1, l_iH := ff_wantedH this1\<rparr>;
             l2 = (if \<not> ff_audioOnly this1
                   then spawn_error_video server this1 streamUrl stats l1 else l1)
         in case (if \<not> isString streamUrl then spawn_error_audio this1 stats streamUrl l2
                  else (this1, l2)) of
              (this2, l3) \<Rightarrow> (this2, l3\<lparr>l_currentVideo := ''[videox]''\<rparr>))
      else (this, l))"

text \<open>The watermark's input file; it forces the resolution to be normalised.\<close>

definition spawn_overlay_input ::
  "FFMPEG \<Rightarrow> EncoderWatermark option \<Rightarrow> SpawnLocals \<Rightarrow> FFMPEG \<times> SpawnLocals" where
  "spawn_overlay_input this watermark l =
     (case watermark of
        Some wm \<Rightarrow>
          (case ew_url wm of
             Some url \<Rightarrow>
               if l_doOverlay l then
                 (this\<lparr>ff_ensureResolution := True\<rparr>,
                  l\<lparr>l_ffmpegArgs := l_ffmpegArgs l
                        @ (if ew_animated wm then [''-ignore_loop'', ''0''] else [])
                        @ [''-i'', url],
                    l_overlayFile := l_inputFiles l,
                    l_inputFiles := l_inputFiles l + 1\<rparr>)
               else (this, l)
           | None \<Rightarrow> (this, l))
      | None \<Rightarrow> (this, l))"

text \<open>
  The scaler's arithmetic: the size \<open>(cw, ch)\<close> that fits the wanted size and keeps the
  aspect ratio \<open>p : q\<close> of the source, reduced by \<open>gcd\<close>.  \<open>Math.floor\<close> of a quotient of whole
  numbers is \<open>div\<close>.
\<close>

definition scale_target ::
  "int \<Rightarrow> int \<Rightarrow> int \<Rightarrow> int \<Rightarrow> VideoStats \<Rightarrow> spawn_failure + int \<times> int" where
  "scale_target iW iH wantedW wantedH stats =
     (case vs_pixelP stats of
        None \<Rightarrow> Inl Diverges
      | Some pixelP \<Rightarrow>
          (case vs_pixelQ stats of
             None \<Rightarrow> if iW * pixelP = 0 then Inl NonFinite else Inl Diverges
           | Some pixelQ \<Rightarrow>
               (let p0 = iW * pixelP;
                    q0 = iH * pixelQ;
                    g = gcd_loop q0 p0
                in if g = 0 then Inl NonFinite
                   else
                     (let p = p0 div g; q = q0 div g
                      in if p = 0 \<or> q = 0 then Inl NonFinite
                         else
                           (let hypotheticalW1 = wantedW;
                                hypotheticalH1 = (hypotheticalW1 * q) div p;
                                hypotheticalH2 = wantedH;
                                hypotheticalW2 = (wantedH * p) div q
                            in if hypotheticalH1 \<le> wantedH
                               then Inr (hypotheticalW1, hypotheticalH1)
                               else Inr (hypotheticalW2, hypotheticalH2))))))"

text \<open>
  The filters of the ``resolution fix'' for a scaled size \<open>(cw, ch)\<close>: the scale filter, the
  padding to the wanted size when that differs, and \<open>setsar\<close>.  \<open>wantedW\<close>, \<open>wantedH\<close> and
  \<open>ensureResolution\<close> are the fields of the object at that point.
\<close>

definition resolution_filters ::
  "string \<Rightarrow> bool \<Rightarrow> int \<Rightarrow> int \<Rightarrow> int \<Rightarrow> int \<Rightarrow> SpawnLocals \<Rightarrow> SpawnLocals" where
  "resolution_filters algo ensureResolution cw ch wantedW wantedH l =
     (let l1 = l\<lparr>l_videoComplex := l_videoComplex l @ '';'' @ l_currentVideo l
                  @ ''scale='' @ show_int cw @ '':'' @ show_int ch @ '':flags='' @ algo
                  @ ''[scaled]'',
                l_currentVideo := ''scaled''\<rparr>;
          l2 = (if wantedW \<noteq> cw \<or> wantedH \<noteq> ch
                then l1\<lparr>l_videoComplex := l_videoComplex l1 @ '';['' @ l_currentVideo l1
                           @ '']pad='' @ show_int wantedW @ '':'' @ show_int wantedH
                           @ '':(ow-iw)/2:(oh-ih)/2[blackpadded]'',
                         l_currentVideo := ''blackpadded''\<rparr>
                else l1);
          name = (if \<not> ensureResolution \<and> l_beforeSizeChange l \<noteq> ''[fpchange]''
                  then ''minsiz'' else ''siz'')
      in l2\<lparr>l_videoComplex := l_videoComplex l2 @ '';['' @ l_currentVideo l2
                @ '']setsar=1['' @ name @ '']'',
             l_currentVideo := ''['' @ name @ '']'',
             l_iW := wantedW,
             l_iH := wantedH\<rparr>)"

text \<open>
  ``Resolution fix''.  When the resolution is not normalised and the scaled size has an odd
  side, the step rewrites \<open>this.wantedW\<close> and \<open>this.wantedH\<close> to the next even numbers, and
  the padding that follows reads the rewritten fields.
\<close>

definition spawn_resolution ::
  "FFMPEG \<Rightarrow> VideoStats \<Rightarrow> SpawnLocals \<Rightarrow> spawn_failure + FFMPEG \<times> SpawnLocals" where
  "spawn_resolution this stats l0 =
     (let l = l0\<lparr>l_beforeSizeChange := l_currentVideo l0\<rparr>;
          algo = scalingAlgorithm (ff_opts this);
          iW = l_iW l; iH = l_iH l
      in if vs_audioOnly stats \<noteq> Some True
            \<and> ((ff_ensureResolution this
                   \<and> (vs_anamorphic stats = Some True \<or> iW \<noteq> ff_wantedW this
                        \<or> iH \<noteq> ff_wantedH this))
                 \<or> isLargerResolution iW iH (ff_wantedW this) (ff_wantedH this))
         then
           (case scale_target iW iH (ff_wantedW this) (ff_wantedH this) stats of
              Inl failure \<Rightarrow> Inl failure
            | Inr (cw, ch) \<Rightarrow>
                (let this1 = (if ff_ensureResolution this then this
                              else if js_mod cw 2 = 1 \<or> js_mod ch 2 = 1
                              then this\<lparr>ff_wantedW := cw + js_mod cw 2,
                                        ff_wantedH := ch + js_mod ch 2\<rparr>
                              else this)
                 in Inr (this1,
                         resolution_filters algo (ff_ensureResolution this1) cw ch
                           (ff_wantedW this1) (ff_wantedH this1) l)))
         else Inr (this, l))"

text \<open>The channel watermark: an optional scale of the icon and the overlay filter.\<close>

definition spawn_watermark ::
  "FFMPEG \<Rightarrow> EncoderWatermark option \<Rightarrow> SpawnLocals \<Rightarrow> SpawnLocals" where
  "spawn_watermark this watermark l =
     (case watermark of
        None \<Rightarrow> l
      | Some wm \<Rightarrow>
          if l_doOverlay l \<and> \<not> ff_audioOnly this then
            (let iW = l_iW l; iH = l_iH l;
                 w = round_div (ew_width wm * iW) 100;
                 horz = round_div (ew_horizontalMargin wm * iW) 100;
                 vert = round_div (ew_verticalMargin wm * iH) 100;
                 icnDur = (if ew_duration wm > 0
                           then '':enable='' @ squote @ ''between(t,0,''
                                @ show_int (ew_duration wm) @ '')'' @ squote
                           else []);
                 waterVideo0 = ''['' @ show_int (l_overlayFile l) @ '':v]'';
                 l1 = (if \<not> ew_fixedSize wm
                       then l\<lparr>l_videoComplex := l_videoComplex l @ '';'' @ waterVideo0
                                 @ ''scale='' @ show_int w @ '':-1[icn]''\<rparr>
                       else l);
                 waterVideo = (if \<not> ew_fixedSize wm then ''[icn]'' else waterVideo0);
                 position =
                   (if ew_position wm = ''top-left''
                    then ''x='' @ show_int horz @ '':y='' @ show_int vert
                    else if ew_position wm = ''top-right''
                    then ''x=W-w-'' @ show_int horz @ '':y='' @ show_int vert
                    else if ew_position wm = ''bottom-left''
                    then ''x='' @ show_int horz @ '':y=H-h-'' @ show_int vert
                    else if ew_position wm = ''bottom-right''
                    then ''x=W-w-'' @ show_int horz @ '':y=H-h-'' @ show_int vert
                    else ''undefined'');
                 overlayShortest = (if ew_animated wm then ''shortest=1:'' else [])
             in l1\<lparr>l_videoComplex := l_videoComplex l1 @ '';'' @ l_currentVideo l1 @ waterVideo
                       @ ''overlay='' @ overlayShortest @ position @ icnDur @ ''[comb]'',
                    l_currentVideo := ''[comb]''\<rparr>)
          else l)"

text \<open>The volume filter and the audio padding.\<close>

definition spawn_volume :: "FFMPEG \<Rightarrow> VideoStats \<Rightarrow> SpawnLocals \<Rightarrow> SpawnLocals" where
  "spawn_volume this stats l =
     (let l1 = (if ff_volumePercent this \<noteq> 100
                then l\<lparr>l_audioComplex := l_audioComplex l @ '';'' @ l_currentAudio l
                          @ ''volume='' @ show_hundredths (ff_volumePercent this)
                          @ ''[boosted]'',
                       l_currentAudio := ''[boosted]''\<rparr>
                else l)
      in if ff_apad this \<and> \<not> ff_audioOnly this
         then l1\<lparr>l_audioComplex := l_audioComplex l1 @ '';'' @ l_currentAudio l1
                    @ ''apad=whole_dur='' @ show_opt_int (vs_duration stats) @ ''ms[padded]'',
                 l_currentAudio := ''[padded]''\<rparr>
         else l1)"

text \<open>
  The codec decision, the filter graph and the output arguments, up to \<open>pipe:1\<close>.  The value
  the source puts into \<open>transcodeAudio\<close> after the padding is overwritten before it is read.
\<close>

definition spawn_output :: "FFMPEG \<Rightarrow> VideoStats \<Rightarrow> SpawnLocals \<Rightarrow> string list" where
  "spawn_output this stats l =
     (let opts = ff_opts this;
          transcodeVideo0 = (normalizeVideoCodec opts
                               \<and> isDifferentVideoCodec (vs_videoCodec stats) (videoEncoder opts));
          transcodeAudio0 = (normalizeAudioCodec opts
                               \<and> isDifferentAudioCodec (vs_audioCodec stats) (audioEncoder opts));
          currentVideo0 = (if \<not> transcodeVideo0 \<and> l_currentVideo l = ''[minsiz]''
                           then l_beforeSizeChange l else l_currentVideo l);
          videoFiltered = (\<not> ff_audioOnly this \<and> currentVideo0 \<noteq> ''[video]'');
          transcodeVideo = (transcodeVideo0 \<or> videoFiltered);
          filterComplex0 = (if videoFiltered then l_videoComplex l else []);
          currentVideo = (if \<not> ff_audioOnly this \<and> currentVideo0 = ''[video]''
                          then show_int (l_videoFile l) @ '':v'' else currentVideo0);
          audioFiltered = (l_currentAudio l \<noteq> ''[audio]'');
          transcodeAudio = (transcodeAudio0 \<or> audioFiltered);
          filterComplex = (if audioFiltered then filterComplex0 @ l_audioComplex l
                           else filterComplex0);
          currentAudio = (if audioFiltered then l_currentAudio l
                          else show_int (l_audioFile l) @ '':'' @ l_audioIndex l)
      in l_ffmpegArgs l
         @ (if filterComplex \<noteq> []
            then [''-filter_complex'', tl filterComplex]
                 @ (if ff_alignAudio this then [''-shortest''] else [])
            else [])
         @ (if \<not> ff_audioOnly this
            then [''-map'', currentVideo, ''-c:v'',
                  (if transcodeVideo then videoEncoder opts else ''copy''),
                  ''-sc_threshold'', ''1000000000'']
                 @ (if l_useStillImageTune l then [''-tune'', ''stillimage''] else [])
            else [])
         @ [''-map'', currentAudio, ''-flags'', ''cgop+ilme'']
         @ (if transcodeVideo \<and> \<not> ff_audioOnly this
            then [''-b:v'', show_int (videoBitrate opts) @ ''k'',
                  ''-maxrate:v'', show_int (videoBitrate opts) @ ''k'',
                  ''-bufsize:v'', show_int (videoBufferSize opts) @ ''k'']
            else [])
         @ (if transcodeAudio
            then [''-b:a'', show_int (audioBitrate opts) @ ''k'',
                  ''-maxrate:a'', show_int (audioBitrate opts) @ ''k'',
                  ''-bufsize:a'', show_int (audioBufferSize opts) @ ''k'']
                 @ (if ff_audioChannelsSampleRate this
                    then [''-ac'', show_int (audioChannels opts),
                          ''-ar'', show_int (audioSampleRate opts) @ ''k'']
                    else [])
            else [])
         @ [''-c:a'', (if transcodeAudio then audioEncoder opts else ''copy''),
            ''-map_metadata'', ''-1'', ''-movflags'', ''+faststart'', ''-muxdelay'', ''0'',
            ''-muxpreload'', ''0'']
         @ [''-metadata'', ''service_provider='' @ dquote @ ''tunarr'' @ dquote,
            ''-metadata'', ''service_name='' @ dquote @ cc_name (ff_channel this) @ dquote]
         @ (case l_duration l of Some d \<Rightarrow> [''-t'', d] | None \<Rightarrow> [])
         @ [''-f'', ''mpegts'', ''pipe:1''])"

text \<open>
  \<open>spawn\<close>.  The result is the argument list built, whether the child process was started
  with it (it is not when \<open>kill()\<close> came first), and the object as the call leaves it.
\<close>

definition spawn ::
  "ServerOptions \<Rightarrow> (real \<Rightarrow> string) \<Rightarrow> FFMPEG \<Rightarrow> StreamSource \<Rightarrow> VideoStats option \<Rightarrow>
   real option \<Rightarrow> string option \<Rightarrow> bool \<Rightarrow> EncoderWatermark option \<Rightarrow>
   spawn_failure + SpawnResult \<times> FFMPEG" where
  "spawn server numberToString this streamUrl streamStats startTime duration limitRead watermark =
     (case streamStats of
        None \<Rightarrow> Inl TypeError
      | Some stats \<Rightarrow>
          (let l0 = spawn_begin numberToString this streamUrl stats startTime duration limitRead
                      watermark;
               l1 = spawn_fps this stats l0
           in case spawn_prepare server this streamUrl stats l1 of
                (this1, l2) \<Rightarrow>
                  (case spawn_overlay_input this1 watermark l2 of
                     (this2, l3) \<Rightarrow>
                       (case spawn_resolution this2 stats l3 of
                          Inl failure \<Rightarrow> Inl failure
                        | Inr (this3, l4) \<Rightarrow>
                            (let l5 = spawn_watermark this3 watermark l4;
                                 l6 = spawn_volume this3 stats l5;
                                 ffmpegArgs = spawn_output this3 stats l6
                             in if ff_hasBeenKilled this3
                                then Inr (\<lparr>sr_args = ffmpegArgs, sr_started = False\<rparr>, this3)
                                else Inr (\<lparr>sr_args = ffmpegArgs, sr_started = True\<rparr>,
                                          this3\<lparr>ff_ffmpegName := ''Stream FFMPEG''\<rparr>))))))"

text \<open>
  \<open>spawnStream\<close>, \<open>spawnError\<close> and \<open>spawnOffline\<close>.  The latter two can emit an event instead
  of calling \<open>spawn\<close>; the result pairs the events emitted with what \<open>spawn\<close> returned, if it
  was called.
\<close>

definition spawnStream ::
  "ServerOptions \<Rightarrow> (real \<Rightarrow> string) \<Rightarrow> FFMPEG \<Rightarrow> string \<Rightarrow> VideoStats option \<Rightarrow> real option \<Rightarrow>
   string option \<Rightarrow> EncoderWatermark option \<Rightarrow> spawn_failure + SpawnResult \<times> FFMPEG" where
  "spawnStream server numberToString this streamUrl streamStats startTime duration enableIcon =
     spawn server numberToString this (Url streamUrl) streamStats startTime duration True
       enableIcon"

definition spawnError ::
  "ServerOptions \<Rightarrow> (real \<Rightarrow> string) \<Rightarrow> FFMPEG \<Rightarrow> string \<Rightarrow> string option \<Rightarrow> int option \<Rightarrow>
   FfmpegEvent list \<times> (spawn_failure + SpawnResult \<times> FFMPEG) option" where
  "spawnError server numberToString this title subtitle duration =
     (if \<not> enableTranscoding (ff_opts this) \<or> errorScreen (ff_opts this) = ''kill'' then
        ([Error (Some (- 1, ''error stream disabled. '' @ title @ '' '' @ show_opt subtitle))],
         None)
      else
        (let duration1 = (case duration of None \<Rightarrow> MAXIMUM_ERROR_DURATION_MS | Some d \<Rightarrow> d);
             duration2 = min MAXIMUM_ERROR_DURATION_MS duration1;
             streamStats = \<lparr>vs_videoWidth = ff_wantedW this, vs_videoHeight = ff_wantedH this,
                            vs_duration = Some duration2, vs_audioIndex = None,
                            vs_videoFramerate = None, vs_videoScanType = None,
                            vs_audioOnly = None, vs_placeholderImage = None,
                            vs_anamorphic = None, vs_pixelP = None, vs_pixelQ = None,
                            vs_videoCodec = None, vs_audioCodec = None\<rparr>
         in ([], Some (spawn server numberToString this (ErrorSource title subtitle)
                         (Some streamStats) None
                         (Some (show_opt_int (vs_duration streamStats) @ ''ms'')) True None))))"

definition spawnOffline ::
  "ServerOptions \<Rightarrow> (real \<Rightarrow> string) \<Rightarrow> FFMPEG \<Rightarrow> int \<Rightarrow>
   FfmpegEvent list \<times> (spawn_failure + SpawnResult \<times> FFMPEG) option" where
  "spawnOffline server numberToString this duration =
     (if \<not> enableTranscoding (ff_opts this) then
        ([End (Some (- 1, ''offline stream disabled.''))], None)
      else
        (let streamStats = \<lparr>vs_videoWidth = ff_wantedW this, vs_videoHeight = ff_wantedH this,
                            vs_duration = Some duration, vs_audioIndex = None,
                            vs_videoFramerate = None, vs_videoScanType = None,
                            vs_audioOnly = None, vs_placeholderImage = None,
                            vs_anamorphic = None, vs_pixelP = None, vs_pixelQ = None,
                            vs_videoCodec = None, vs_audioCodec = None\<rparr>
         in ([], Some (spawn server numberToString this (ErrorSource ''offline'' None)
                         (Some streamStats) None (Some (show_int duration @ ''ms'')) True
                         None))))"

subsection \<open>Sample objects\<close>

definition sample_server :: ServerOptions where
  "sample_server = \<lparr>so_port = 8000, so_databaseDirectory = ''.tunarr''\<rparr>"

definition sample_context :: ContextChannel where
  "sample_context =
     \<lparr>cc_name = ''One'', cc_uuid = ''c1'', cc_offlinePicture = None,
      cc_offlineSoundtrack = None, cc_transcoding = None\<rparr>"

definition sample_ffmpeg :: FFMPEG where
  "sample_ffmpeg = FFMPEG_new sample_server sample_settings sample_context"

subsection \<open>Auxiliary notions for the statements about \<open>spawn\<close>\<close>

text \<open>
  Two objects agree on the fields that \<open>spawn\<close> reads and never assigns: the settings, the
  error picture, the channel, the audio-only flag, \<open>alignAudio\<close> and the kill flag.
\<close>

definition same_fixed :: "FFMPEG \<Rightarrow> FFMPEG \<Rightarrow> bool" where
  "same_fixed a b \<longleftrightarrow>
     ff_opts a = ff_opts b \<and> ff_errorPicturePath a = ff_errorPicturePath b
     \<and> ff_channel a = ff_channel b \<and> ff_audioOnly a = ff_audioOnly b
     \<and> ff_alignAudio a = ff_alignAudio b \<and> ff_hasBeenKilled a = ff_hasBeenKilled b"

text \<open>
  A film of 2940 by 2000 square pixels in HEVC, to be sent through the sample wrapper
  (target 1920 by 1080, resolution not normalised, video transcoded to MPEG-2).
\<close>

definition film_stats :: VideoStats where
  "film_stats =
     \<lparr>vs_videoWidth = 2940, vs_videoHeight = 2000, vs_duration = Some 5400000,
      vs_audioIndex = Some ''1'', vs_videoFramerate = Some 24, vs_videoScanType = None,
      vs_audioOnly = None, vs_placeholderImage = None, vs_anamorphic = None,
      vs_pixelP = Some 1, vs_pixelQ = Some 1, vs_videoCodec = Some ''hevc'',
      vs_audioCodec = Some ''ac3''\<rparr>"

section \<open>Following redirects: the loop of \<open>VideoStream.startStream\<close>\<close>

text \<open>
  The program the resolver hands to \<open>startStream\<close>, with the fields the loop reads: its
  type, the channel a redirect points to, its duration and an optional error text.
\<close>

record StreamProgram =
  sp_type :: string
  sp_channel :: string
  sp_duration :: int
  sp_error :: "string option"

record StreamProgramAndTimeElapsed =
  s_program :: StreamProgram
  s_timeElapsed :: int
  s_programIndex :: int

record StreamLineupItem =
  sl_type :: string
  sl_title :: "string option"
  sl_error :: "string option"
  sl_duration :: int
  sl_start :: int
  sl_streamDuration :: "int option"
  sl_beginningOffset :: "int option"

record StreamChannel =
  sc_uuid :: string
  sc_name :: string
  sc_number :: int

text \<open>
  The collaborators of the loop are parameters of the model, since their code is not part
  of the sources at hand: the two operations of the playback cache (\<open>serverCtx.channelCache\<close>)
  on a cache state of any type \<open>'c\<close>; the store (\<open>channelDB.loadChannelAndLineup\<close>) as a map
  from channel ids to a channel and its lineup, of any type \<open>'l\<close>; and the resolver
  (\<open>getCurrentProgramAndTimeElapsed\<close> with three arguments), which returns a program or throws.
\<close>

record 'c PlaybackCache =
  recordPlayback :: "'c \<Rightarrow> string \<Rightarrow> int \<Rightarrow> StreamLineupItem \<Rightarrow> 'c"
  getCurrentLineupItem :: "'c \<Rightarrow> string \<Rightarrow> int \<Rightarrow> StreamLineupItem option"

type_synonym 'l store = "string \<Rightarrow> (StreamChannel \<times> 'l) option"

type_synonym 'l resolver = "int \<Rightarrow> StreamChannel \<Rightarrow> 'l \<Rightarrow> error + StreamProgramAndTimeElapsed"

text \<open>The variables of \<open>startStream\<close> that the loop reads and assigns, and the cache.\<close>

record 'c WalkState =
  ws_currentProgram :: StreamProgramAndTimeElapsed
  ws_channelContext :: StreamChannel
  ws_redirectChannels :: "string list"
  ws_upperBounds :: "int list"
  ws_lineupItem :: "StreamLineupItem option"
  ws_cache :: 'c

text \<open>The item recorded when the target of a redirect is among the channels visited.\<close>

definition recursive_redirect_item :: "string list \<Rightarrow> StreamLineupItem" where
  "recursive_redirect_item redirectChannels =
     \<lparr>sl_type = ''offline'', sl_title = Some ''Error'',
      sl_error = Some (''Recursive channel redirect found: '' @ join '', '' redirectChannels),
      sl_duration = 60000, sl_start = 0, sl_streamDuration = None,
      sl_beginningOffset = None\<rparr>"

text \<open>
  Modelled from the spec: \<open>createOfflineStreamLineupIteam\<close> is imported from
  \<open>dao/derived_types/StreamLineup\<close>, which is not part of the sources at hand; it yields an
  offline item of the given duration, which the loop extends with an error text and uses as
  the current program.
\<close>

definition invalid_redirect_program :: StreamProgramAndTimeElapsed where
  "invalid_redirect_program =
     \<lparr>s_program = \<lparr>sp_type = ''offline'', sp_channel = [], sp_duration = 60000,
                    sp_error = Some (''Invalid redirect to a channel that doesn'' @ squote
                                       @ ''t exist'')\<rparr>,
      s_timeElapsed = 0, s_programIndex = - 1\<rparr>"

text \<open>How one pass through the body of the \<open>while\<close> loop ends.\<close>

datatype 'c walk_step = Break "'c WalkState" | Continue "'c WalkState" | Throw error

definition is_redirect :: "'c WalkState \<Rightarrow> bool" where
  "is_redirect st = (sp_type (s_program (ws_currentProgram st)) = ''redirect'')"

text \<open>The body of the loop, for the timestamp \<open>startTimestamp\<close>.\<close>

definition walk_body ::
  "'c PlaybackCache \<Rightarrow> 'l store \<Rightarrow> 'l resolver \<Rightarrow> int \<Rightarrow> 'c WalkState \<Rightarrow> 'c walk_step" where
  "walk_body channelCache channelDB resolve startTimestamp st =
     (let currentProgram = ws_currentProgram st;
          channelContext = ws_channelContext st;
          redirectChannels = ws_redirectChannels st @ [sc_uuid channelContext];
          upperBounds = ws_upperBounds st
                          @ [sp_duration (s_program currentProgram) - s_timeElapsed currentProgram];
          cache1 = (if sp_channel (s_program currentProgram) \<in> set redirectChannels
                    then recordPlayback channelCache (ws_cache st) (sc_uuid channelContext)
                           startTimestamp (recursive_redirect_item redirectChannels)
                    else ws_cache st);
          nextChannelId = sp_channel (s_program currentProgram);
          st1 = st\<lparr>ws_redirectChannels := redirectChannels, ws_upperBounds := upperBounds,
                   ws_cache := cache1\<rparr>
      in case channelDB nextChannelId of
           None \<Rightarrow> Continue (st1\<lparr>ws_currentProgram := invalid_redirect_program\<rparr>)
         | Some (newChannel, newLineup) \<Rightarrow>
             (case getCurrentLineupItem channelCache cache1 (sc_uuid newChannel) startTimestamp of
                Some lineupItem \<Rightarrow>
                  Break (st1\<lparr>ws_channelContext := newChannel, ws_lineupItem := Some lineupItem\<rparr>)
              | None \<Rightarrow>
                  (case resolve startTimestamp newChannel newLineup of
                     Inl e \<Rightarrow> Throw e
                   | Inr resolved \<Rightarrow>
                       Continue (st1\<lparr>ws_channelContext := newChannel,
                                     ws_currentProgram := resolved\<rparr>))))"

text \<open>
  The \<open>while\<close> loop, with fuel: \<open>walk_loop \<dots> n st\<close> allows \<open>n\<close> passes through the body and
  is \<open>None\<close> when the loop wants one more.  A result is the exception thrown or the state in
  which the loop ended.
\<close>

fun walk_loop ::
  "'c PlaybackCache \<Rightarrow> 'l store \<Rightarrow> 'l resolver \<Rightarrow> int \<Rightarrow> nat \<Rightarrow> 'c WalkState \<Rightarrow>
   (error + 'c WalkState) option" where
  "walk_loop channelCache channelDB resolve startTimestamp n st =
     (if \<not> is_redirect st then Some (Inr st)
      else case n of
             0 \<Rightarrow> None
           | Suc k \<Rightarrow>
               (case walk_body channelCache channelDB resolve startTimestamp st of
                  Break st' \<Rightarrow> Some (Inr st')
                | Throw e \<Rightarrow> Some (Inl e)
                | Continue st' \<Rightarrow> walk_loop channelCache channelDB resolve startTimestamp k st'))"

declare walk_loop.simps [simp del]

text \<open>
  The start of the resolution in \<open>startStream\<close> for a request that is not the loading screen:
  the first call of the resolver, then the loop.
\<close>

definition walk_start ::
  "StreamChannel \<Rightarrow> StreamProgramAndTimeElapsed \<Rightarrow> 'c \<Rightarrow> 'c WalkState" where
  "walk_start channel resolved cache =
     \<lparr>ws_currentProgram = resolved, ws_channelContext = channel, ws_redirectChannels = [],
      ws_upperBounds = [], ws_lineupItem = None, ws_cache = cache\<rparr>"

definition resolve_redirects ::
  "'c PlaybackCache \<Rightarrow> 'l store \<Rightarrow> 'l resolver \<Rightarrow> int \<Rightarrow> nat \<Rightarrow> StreamChannel \<Rightarrow> 'l \<Rightarrow> 'c \<Rightarrow>
   (error + 'c WalkState) option" where
  "resolve_redirects channelCache channelDB resolve startTimestamp n channel lineup cache =
     (case resolve startTimestamp channel lineup of
        Inl e \<Rightarrow> Some (Inl e)
      | Inr resolved \<Rightarrow>
          walk_loop channelCache channelDB resolve startTimestamp n
            (walk_start channel resolved cache))"

text \<open>
  After the loop, for a lineup item that is there: the loop over the redirect channels from
  the innermost to the outermost, which bounds \<open>streamDuration\<close> by each redirect's remaining
  time and records the playback for each channel.  \<open>upperBound\<close> starts at
  \<open>Number.MAX_SAFE_INTEGER\<close>.
\<close>

definition MAX_SAFE_INTEGER :: int where
  "MAX_SAFE_INTEGER = 9007199254740991"

fun bound_loop ::
  "'c PlaybackCache \<Rightarrow> int \<Rightarrow> int \<Rightarrow> (string \<times> int option) list \<Rightarrow> int \<Rightarrow>
   StreamLineupItem \<Rightarrow> 'c \<Rightarrow> StreamLineupItem \<times> 'c" where
  "bound_loop channelCache startTimestamp beginningOffset [] upperBound lineupItem cache =
     (lineupItem, cache)"
| "bound_loop channelCache startTimestamp beginningOffset ((channelId, thisUpperBound) # rest)
     upperBound lineupItem cache =
     (case thisUpperBound of
        Some bound \<Rightarrow>
          (let nextBound = bound + beginningOffset;
               prevBound = (case sl_streamDuration lineupItem of
                              None \<Rightarrow> upperBound | Some d \<Rightarrow> min upperBound d);
               newDuration = min nextBound prevBound;
               lineupItem1 = lineupItem\<lparr>sl_streamDuration := Some newDuration\<rparr>
           in bound_loop channelCache startTimestamp beginningOffset rest newDuration lineupItem1
                (recordPlayback channelCache cache channelId startTimestamp lineupItem1))
      | None \<Rightarrow>
          bound_loop channelCache startTimestamp beginningOffset rest upperBound lineupItem
            (recordPlayback channelCache cache channelId startTimestamp lineupItem))"

text \<open>\<open>nth(upperBounds, i)\<close> of lodash: undefined beyond the end of the array.\<close>

definition nth_opt :: "'a list \<Rightarrow> nat \<Rightarrow> 'a option" where
  "nth_opt xs i = (if i < length xs then Some (xs ! i) else None)"

definition adjust_upper_bounds ::
  "'c PlaybackCache \<Rightarrow> int \<Rightarrow> 'c WalkState \<Rightarrow> StreamLineupItem \<Rightarrow> StreamLineupItem \<times> 'c" where
  "adjust_upper_bounds channelCache startTimestamp st lineupItem =
     (let redirectChannels = ws_redirectChannels st;
          beginningOffset = (case sl_beginningOffset lineupItem of None \<Rightarrow> 0 | Some b \<Rightarrow> b);
          pairs = map (\<lambda>i. (redirectChannels ! i, nth_opt (ws_upperBounds st) i))
                    (rev [0 ..< length redirectChannels])
      in bound_loop channelCache startTimestamp beginningOffset pairs MAX_SAFE_INTEGER
           lineupItem (ws_cache st))"

subsection \<open>Auxiliary notions for the statements about the redirect loop\<close>

text \<open>
  What the loop needs from a playback cache at the timestamp of the request: the item that
  the loop records for a channel when it finds the target of a redirect among the channels
  visited is the channel's current lineup item at that timestamp, and recording it leaves
  the answer for every other channel as it was.
\<close>

definition cache_laws :: "'c PlaybackCache \<Rightarrow> int \<Rightarrow> bool" where
  "cache_laws channelCache t \<longleftrightarrow>
     (\<forall>c channelId rs.
        getCurrentLineupItem channelCache
          (recordPlayback channelCache c channelId t (recursive_redirect_item rs)) channelId t
        = Some (recursive_redirect_item rs))
     \<and> (\<forall>c channelId other rs.
          other \<noteq> channelId \<longrightarrow>
          getCurrentLineupItem channelCache
            (recordPlayback channelCache c other t (recursive_redirect_item rs)) channelId t
          = getCurrentLineupItem channelCache c channelId t)"

text \<open>The store answers a request for an id with the channel of that id.\<close>

definition store_consistent :: "'l store \<Rightarrow> bool" where
  "store_consistent channelDB \<longleftrightarrow>
     (\<forall>channelId channel lineup.
        channelDB channelId = Some (channel, lineup) \<longrightarrow> sc_uuid channel = channelId)"

text \<open>
  The invariant of the loop: the current channel is the store's, with the current program
  resolved from it; every channel visited redirects to a visited channel or to the current
  one; and a current channel that has been visited before has no current lineup item in the
  cache.
\<close>

definition walk_inv ::
  "'c PlaybackCache \<Rightarrow> 'l store \<Rightarrow> 'l resolver \<Rightarrow> int \<Rightarrow> 'c WalkState \<Rightarrow> bool" where
  "walk_inv channelCache channelDB resolve t st \<longleftrightarrow>
     (\<exists>lineup. channelDB (sc_uuid (ws_channelContext st)) = Some (ws_channelContext st, lineup)
               \<and> resolve t (ws_channelContext st) lineup = Inr (ws_currentProgram st))
     \<and> (\<forall>v \<in> set (ws_redirectChannels st).
          \<exists>channel lineup p.
            channelDB v = Some (channel, lineup) \<and> resolve t channel lineup = Inr p
            \<and> sp_type (s_program p) = ''redirect''
            \<and> (sp_channel (s_program p) \<in> set (ws_redirectChannels st)
                 \<or> sp_channel (s_program p) = sc_uuid (ws_channelContext st)))
     \<and> (sc_uuid (ws_channelContext st) \<in> set (ws_redirectChannels st) \<longrightarrow>
          getCurrentLineupItem channelCache (ws_cache st) (sc_uuid (ws_channelContext st)) t
            = None)"

text \<open>
  The measure that bounds the passes: the channels of the store not yet visited, plus the
  channels of the store without a current lineup item in the cache.
\<close>

definition walk_measure :: "'c PlaybackCache \<Rightarrow> 'l store \<Rightarrow> int \<Rightarrow> 'c WalkState \<Rightarrow> nat" where
  "walk_measure channelCache channelDB t st =
     card (dom channelDB - set (ws_redirectChannels st))
     + card {channelId \<in> dom channelDB.
               getCurrentLineupItem channelCache (ws_cache st) channelId t = None}"

text \<open>
  What the cache holds during the loop: no lineup item has been taken from it yet, and the
  current lineup item of a channel, where there is one, is the item recorded when the loop
  left that channel, which lists the channels visited up to then.
\<close>

definition walk_trace :: "'c PlaybackCache \<Rightarrow> int \<Rightarrow> 'c WalkState \<Rightarrow> bool" where
  "walk_trace channelCache t st \<longleftrightarrow>
     ws_lineupItem st = None
     \<and> (\<forall>channelId item.
          getCurrentLineupItem channelCache (ws_cache st) channelId t = Some item \<longrightarrow>
          (\<exists>k < length (ws_redirectChannels st).
             item = recursive_redirect_item (take (Suc k) (ws_redirectChannels st))
             \<and> ws_redirectChannels st ! k = channelId))"

text \<open>
  How the loop has ended, in a state it returns: either no lineup item was taken from the
  cache and the current program is no redirect, or the lineup item is the one recorded when
  the loop left the channel it has now come back to, which lists the channels visited up to
  then.
\<close>

definition walk_end :: "'c WalkState \<Rightarrow> bool" where
  "walk_end st \<longleftrightarrow>
     (case ws_lineupItem st of
        None \<Rightarrow> \<not> is_redirect st
      | Some item \<Rightarrow>
          (\<exists>k < length (ws_redirectChannels st).
             item = recursive_redirect_item (take (Suc k) (ws_redirectChannels st))
             \<and> ws_redirectChannels st ! k = sc_uuid (ws_channelContext st)))"

subsection \<open>Scenario S5: two channels that redirect to each other\<close>

text \<open>
  Modelled from the spec: the playback cache (\<open>serverCtx.channelCache\<close>) is not part of the
  sources at hand.  This one keeps the playbacks recorded, the latest first, and answers a
  request at the timestamp of a channel's latest record with the item recorded.
\<close>

type_synonym playback_records = "(string \<times> int \<times> StreamLineupItem) list"

definition sample_cache :: "playback_records PlaybackCache" where
  "sample_cache =
     \<lparr>recordPlayback = (\<lambda>c channelId t item. (channelId, t, item) # c),
      getCurrentLineupItem =
        (\<lambda>c channelId t.
           case map_of c channelId of
             None \<Rightarrow> None
           | Some (t0, item) \<Rightarrow> if t0 = t then Some item else None)\<rparr>"

text \<open>
  Modelled from the spec: the resolver with three arguments is not part of the sources at
  hand.  This one runs the walk of \<open>getCurrentProgramAndTimeElapsed\<close> above over the durations
  of a lineup of stream programs, for a channel that started at time 0 and whose duration is
  the total of its lineup.
\<close>

definition lineup_resolver :: "StreamProgram list resolver" where
  "lineup_resolver t channel lineup =
     (case getCurrentProgramAndTimeElapsed t
             (channel_with 0 (sum_list (map sp_duration lineup))
                (map (\<lambda>p. content (sp_type p) (sp_duration p)) lineup)) of
        Inl e \<Rightarrow> Inl e
      | Inr found \<Rightarrow>
          if programIndex found < 0 then Inl NoProgramFound
          else Inr \<lparr>s_program = lineup ! nat (programIndex found),
                    s_timeElapsed = timeElapsed found, s_programIndex = programIndex found\<rparr>)"

definition redirect_to :: "string \<Rightarrow> int \<Rightarrow> StreamProgram" where
  "redirect_to channelId d =
     \<lparr>sp_type = ''redirect'', sp_channel = channelId, sp_duration = d, sp_error = None\<rparr>"

definition S5_X :: StreamChannel where
  "S5_X = \<lparr>sc_uuid = ''X'', sc_name = ''Channel X'', sc_number = 1\<rparr>"

definition S5_Y :: StreamChannel where
  "S5_Y = \<lparr>sc_uuid = ''Y'', sc_name = ''Channel Y'', sc_number = 2\<rparr>"

definition S5_store :: "StreamProgram list store" where
  "S5_store channelId =
     (if channelId = ''X'' then Some (S5_X, [redirect_to ''Y'' 600000])
      else if channelId = ''Y'' then Some (S5_Y, [redirect_to ''X'' 600000])
      else None)"

text \<open>
  Resolving channel X at the timestamp 1000000 with an empty cache, allowing \<open>n\<close> passes
  through the loop.
\<close>

definition S5_walk :: "nat \<Rightarrow> (error + playback_records WalkState) option" where
  "S5_walk n =
     resolve_redirects sample_cache S5_store lineup_resolver 1000000 n S5_X
       [redirect_to ''Y'' 600000] []"

section \<open>Properties of the resolver\<close>

lemma running_total_Cons:
  "running_total (p # ps) (Suc k) = p_duration p + running_total ps k"
  by (simp add: running_total_def)

lemma running_total_0: "running_total ps 0 = 0"
  by (simp add: running_total_def)

lemma find_program_found:
  "i < length ps \<Longrightarrow>
   \<forall>k<i. running_total ps (Suc k) \<le> te \<Longrightarrow>
   te < running_total ps (Suc i) \<Longrightarrow>
   find_program ps y te n =
     (if p_duration (ps ! i) > 2 * SLACK \<and> te - running_total ps i > p_duration (ps ! i) - SLACK
      then Some ((y + i + 1) mod n, 0)
      else Some (y + i, te - running_total ps i))"
proof (induction ps arbitrary: i y te)
  case Nil
  then show ?case by simp
next
  case (Cons p ps)
  show ?case
  proof (cases i)
    case 0
    with Cons.prems show ?thesis
      by (simp add: running_total_Cons running_total_0)
  next
    case (Suc j)
    have first: "p_duration p \<le> te"
      using Cons.prems(2) Suc by (auto simp: running_total_Cons running_total_0 dest: spec [of _ 0])
    have j: "j < length ps" using Cons.prems(1) Suc by simp
    have below: "\<forall>k<j. running_total ps (Suc k) \<le> te - p_duration p"
    proof (intro allI impI)
      fix k assume "k < j"
      then have "Suc k < i" using Suc by simp
      then have "running_total (p # ps) (Suc (Suc k)) \<le> te" using Cons.prems(2) by blast
      then show "running_total ps (Suc k) \<le> te - p_duration p"
        by (simp add: running_total_Cons)
    qed
    have above: "te - p_duration p < running_total ps (Suc j)"
      using Cons.prems(3) Suc by (simp add: running_total_Cons)
    from Cons.IH [OF j below above, of "Suc y"] first Suc show ?thesis
      by (simp add: running_total_Cons)
  qed
qed

lemma find_program_None_iff:
  "find_program ps y te n = None \<longleftrightarrow> (\<forall>k<length ps. running_total ps (Suc k) \<le> te)"
proof (induction ps arbitrary: y te)
  case Nil
  then show ?case by simp
next
  case (Cons p ps)
  show ?case
  proof (cases "te - p_duration p < 0")
    case True
    then have "\<not> running_total (p # ps) (Suc 0) \<le> te"
      by (simp add: running_total_Cons running_total_0)
    then have "\<not> (\<forall>k<length (p # ps). running_total (p # ps) (Suc k) \<le> te)"
      by (metis length_Cons zero_less_Suc)
    with True show ?thesis by simp
  next
    case False
    have "(\<forall>k<length (p # ps). running_total (p # ps) (Suc k) \<le> te) \<longleftrightarrow>
          (\<forall>k<length ps. running_total ps (Suc k) \<le> te - p_duration p)"
      (is "?L \<longleftrightarrow> ?R")
    proof
      assume l: ?L
      show ?R
      proof (intro allI impI)
        fix k assume "k < length ps"
        then have "running_total (p # ps) (Suc (Suc k)) \<le> te" using l by simp
        then show "running_total ps (Suc k) \<le> te - p_duration p"
          by (simp add: running_total_Cons)
      qed
    next
      assume r: ?R
      show ?L
      proof (intro allI impI)
        fix k assume k: "k < length (p # ps)"
        show "running_total (p # ps) (Suc k) \<le> te"
        proof (cases k)
          case 0
          with False show ?thesis by (simp add: running_total_Cons running_total_0)
        next
          case (Suc j)
          with k r have "running_total ps (Suc j) \<le> te - p_duration p" by simp
          with Suc show ?thesis by (simp add: running_total_Cons)
        qed
      qed
    qed
    with False Cons.IH [of "Suc y" "te - p_duration p"] show ?thesis by simp
  qed
qed

lemma js_rem_nonneg:
  "0 \<le> a \<Longrightarrow> b \<noteq> 0 \<Longrightarrow> js_rem a b = Some (a mod \<bar>b\<bar>)"
  by (cases "a = 0") (simp_all add: js_rem_def)

text \<open>
  Claim C1.  For a channel with a positive duration and a time \<open>now\<close> not before its start,
  let \<open>elapsed = (now - startTime) mod duration\<close> and let \<open>i\<close> be the first index at which the
  running total of the item durations exceeds \<open>elapsed\<close>.  Then the resolver returns item \<open>i\<close>
  with \<open>timeElapsed = elapsed -\<close> (the durations before \<open>i\<close>), except that an item longer than
  \<open>2 * SLACK\<close> with \<open>timeElapsed > duration - SLACK\<close> is replaced by item \<open>(i + 1) mod N\<close> at
  time 0.  Scenario S1 (resolving at 70 s gives B, 10 s, index 1) is the instance
  \<open>resolver_walk_S1\<close> below.
\<close>

theorem resolver_walk:
  assumes "ch_programs ch \<noteq> []"
    and "ch_startTimeEpoch ch \<le> now"
    and "0 < ch_duration ch"
    and "elapsed = (now - ch_startTimeEpoch ch) mod ch_duration ch"
    and "i < length (ch_programs ch)"
    and "\<forall>k<i. running_total (ch_programs ch) (Suc k) \<le> elapsed"
    and "elapsed < running_total (ch_programs ch) (Suc i)"
    and "timeIntoItem = elapsed - running_total (ch_programs ch) i"
  shows "getCurrentProgramAndTimeElapsed now ch =
     Inr (if p_duration (ch_programs ch ! i) > 2 * SLACK
             \<and> timeIntoItem > p_duration (ch_programs ch ! i) - SLACK
          then \<lparr>program = ch_programs ch ! ((i + 1) mod length (ch_programs ch)),
                timeElapsed = 0,
                programIndex = int ((i + 1) mod length (ch_programs ch))\<rparr>
          else \<lparr>program = ch_programs ch ! i, timeElapsed = timeIntoItem,
                programIndex = int i\<rparr>)"
proof -
  have rem: "js_rem (now - ch_startTimeEpoch ch) (ch_duration ch) = Some elapsed"
    using assms(2,3,4) by (simp add: js_rem_nonneg)
  note found = find_program_found [OF assms(5,6,7), of 0 "length (ch_programs ch)"]
  show ?thesis
    using assms(2) rem found assms(8)
    by (simp add: getCurrentProgramAndTimeElapsed_def Let_def)
qed

theorem resolver_walk_S1:
  "getCurrentProgramAndTimeElapsed 70000 S1_channel =
     Inr \<lparr>program = content ''B'' 120000, timeElapsed = 10000, programIndex = 1\<rparr>"
proof -
  have total: "\<forall>k<1. running_total (ch_programs S1_channel) (Suc k) \<le> 70000"
    by (simp add: S1_channel_def channel_with_def running_total_def content_def)
  have "getCurrentProgramAndTimeElapsed 70000 S1_channel =
     Inr (if p_duration (ch_programs S1_channel ! 1) > 2 * SLACK
             \<and> (10000::int) > p_duration (ch_programs S1_channel ! 1) - SLACK
          then \<lparr>program = ch_programs S1_channel ! ((1 + 1) mod length (ch_programs S1_channel)),
                timeElapsed = 0,
                programIndex = int ((1 + 1) mod length (ch_programs S1_channel))\<rparr>
          else \<lparr>program = ch_programs S1_channel ! 1, timeElapsed = 10000,
                programIndex = int 1\<rparr>)"
    by (rule resolver_walk [where elapsed = 70000])
       (simp_all add: S1_channel_def channel_with_def running_total_def content_def)
  then show ?thesis
    by (simp add: S1_channel_def channel_with_def content_def SLACK_def)
qed

lemma find_program_nonneg:
  "find_program ps y te n = Some (i, t) \<Longrightarrow> 0 \<le> te \<Longrightarrow> 0 \<le> t"
  by (induction ps arbitrary: y te) (auto split: if_splits)

lemma resolver_timeElapsed_nonneg:
  assumes "getCurrentProgramAndTimeElapsed now ch = Inr obj"
  shows "0 \<le> timeElapsed obj"
proof (cases "ch_startTimeEpoch ch > now")
  case True
  with assms show ?thesis
    by (auto simp: getCurrentProgramAndTimeElapsed_def)
next
  case False
  then have nonneg: "0 \<le> now - ch_startTimeEpoch ch" by simp
  from assms False obtain te i t where
    te: "js_rem (now - ch_startTimeEpoch ch) (ch_duration ch) = Some te" and
    found: "find_program (ch_programs ch) 0 te (length (ch_programs ch)) = Some (i, t)" and
    obj: "timeElapsed obj = t"
    by (auto simp: getCurrentProgramAndTimeElapsed_def split: option.splits)
  from te nonneg have "0 \<le> te"
    by (cases "ch_duration ch = 0") (auto simp: js_rem_def sgn_if split: if_splits)
  with found obj show ?thesis
    by (simp add: find_program_nonneg)
qed

text \<open>
  Claim C5, as the code has it.  The resolver has a single failure, the generic error
  ``No program found'', and it raises it exactly when \<open>now\<close> is not before the channel's
  start and no running total of the item durations exceeds the elapsed time (or the
  channel's duration is 0, where the elapsed time is \<open>NaN\<close>).  In particular it is raised
  for every empty lineup once the channel has started, and then nothing is returned.  The
  code compares nothing with the summed durations: there is no duration-mismatch check, and
  a started channel whose elapsed time some running total exceeds resolves to an item
  whatever its durations sum to.  Before the channel's start the resolver returns the
  offline item that lasts until the start, with index \<open>-1\<close>, whatever the lineup.
\<close>

theorem resolver_fails_iff:
  "(getCurrentProgramAndTimeElapsed now ch = Inl NoProgramFound \<longleftrightarrow>
      ch_startTimeEpoch ch \<le> now \<and>
      (ch_duration ch = 0 \<or>
       (\<forall>k<length (ch_programs ch).
           running_total (ch_programs ch) (Suc k)
             \<le> (now - ch_startTimeEpoch ch) mod \<bar>ch_duration ch\<bar>)))
   \<and> (ch_programs ch = [] \<and> ch_startTimeEpoch ch \<le> now \<longrightarrow>
        getCurrentProgramAndTimeElapsed now ch = Inl NoProgramFound)
   \<and> (ch_startTimeEpoch ch \<le> now \<and> ch_duration ch \<noteq> 0
        \<and> (\<exists>k<length (ch_programs ch).
               (now - ch_startTimeEpoch ch) mod \<bar>ch_duration ch\<bar>
                 < running_total (ch_programs ch) (Suc k)) \<longrightarrow>
        (\<exists>obj. getCurrentProgramAndTimeElapsed now ch = Inr obj))
   \<and> (now < ch_startTimeEpoch ch \<longrightarrow>
        getCurrentProgramAndTimeElapsed now ch
          = Inr \<lparr>program = offlineProgram (ch_startTimeEpoch ch - now), timeElapsed = 0,
                 programIndex = - 1\<rparr>)"
proof -
  have main: "getCurrentProgramAndTimeElapsed now ch = Inl NoProgramFound \<longleftrightarrow>
      ch_startTimeEpoch ch \<le> now \<and>
      (ch_duration ch = 0 \<or>
       (\<forall>k<length (ch_programs ch).
           running_total (ch_programs ch) (Suc k)
             \<le> (now - ch_startTimeEpoch ch) mod \<bar>ch_duration ch\<bar>))"
  proof (cases "ch_startTimeEpoch ch > now")
    case True
    then show ?thesis by (simp add: getCurrentProgramAndTimeElapsed_def)
  next
    case started: False
    show ?thesis
    proof (cases "ch_duration ch = 0")
      case True
      with started show ?thesis
        by (simp add: getCurrentProgramAndTimeElapsed_def js_rem_def)
    next
      case False
      with started have rem: "js_rem (now - ch_startTimeEpoch ch) (ch_duration ch)
          = Some ((now - ch_startTimeEpoch ch) mod \<bar>ch_duration ch\<bar>)"
        by (simp add: js_rem_nonneg)
      note none = find_program_None_iff
        [of "ch_programs ch" 0 "(now - ch_startTimeEpoch ch) mod \<bar>ch_duration ch\<bar>"
            "length (ch_programs ch)"]
      show ?thesis
      proof (cases "find_program (ch_programs ch) 0
          ((now - ch_startTimeEpoch ch) mod \<bar>ch_duration ch\<bar>) (length (ch_programs ch))")
        case None
        with started False none show ?thesis
          by (simp add: getCurrentProgramAndTimeElapsed_def rem)
      next
        case (Some r)
        with started False none show ?thesis
          by (cases r) (simp add: getCurrentProgramAndTimeElapsed_def rem)
      qed
    qed
  qed
  have empty: "ch_programs ch = [] \<and> ch_startTimeEpoch ch \<le> now \<longrightarrow>
        getCurrentProgramAndTimeElapsed now ch = Inl NoProgramFound"
    using main by simp
  have resolves: "\<exists>obj. getCurrentProgramAndTimeElapsed now ch = Inr obj"
    if "ch_startTimeEpoch ch \<le> now \<and> ch_duration ch \<noteq> 0
        \<and> (\<exists>k<length (ch_programs ch).
               (now - ch_startTimeEpoch ch) mod \<bar>ch_duration ch\<bar>
                 < running_total (ch_programs ch) (Suc k))"
  proof (cases "getCurrentProgramAndTimeElapsed now ch")
    case (Inr obj)
    then show ?thesis by simp
  next
    case (Inl e)
    then have "getCurrentProgramAndTimeElapsed now ch = Inl NoProgramFound" by (cases e) simp
    with main that show ?thesis by (auto simp: not_less [symmetric])
  qed
  have before: "now < ch_startTimeEpoch ch \<longrightarrow>
        getCurrentProgramAndTimeElapsed now ch
          = Inr \<lparr>program = offlineProgram (ch_startTimeEpoch ch - now), timeElapsed = 0,
                 programIndex = - 1\<rparr>"
    by (simp add: getCurrentProgramAndTimeElapsed_def)
  from main empty resolves before show ?thesis by blast
qed

theorem resolver_fails_iff_witness:
  "getCurrentProgramAndTimeElapsed 100000 (channel_with 0 210000 [content ''A'' 60000])
     = Inl NoProgramFound
   \<and> getCurrentProgramAndTimeElapsed 100000 (channel_with 0 210000 []) = Inl NoProgramFound
   \<and> (\<exists>obj. getCurrentProgramAndTimeElapsed 30000
                 (channel_with 0 210000 [content ''A'' 60000]) = Inr obj)
   \<and> getCurrentProgramAndTimeElapsed 500 (channel_with 2000 210000 [content ''A'' 60000])
       = Inr \<lparr>program = offlineProgram 1500, timeElapsed = 0, programIndex = - 1\<rparr>"
proof -
  have "getCurrentProgramAndTimeElapsed 100000 (channel_with 0 210000 [content ''A'' 60000])
     = Inl NoProgramFound"
    using resolver_fails_iff [of 100000 "channel_with 0 210000 [content ''A'' 60000]"]
    by (simp add: channel_with_def content_def running_total_def)
  moreover have "getCurrentProgramAndTimeElapsed 100000 (channel_with 0 210000 [])
     = Inl NoProgramFound"
    using resolver_fails_iff [of 100000 "channel_with 0 210000 []"]
    by (simp add: channel_with_def)
  moreover have "\<exists>obj. getCurrentProgramAndTimeElapsed 30000
                 (channel_with 0 210000 [content ''A'' 60000]) = Inr obj"
    using resolver_fails_iff [of 30000 "channel_with 0 210000 [content ''A'' 60000]"]
    by (simp add: channel_with_def content_def running_total_def)
  moreover have "getCurrentProgramAndTimeElapsed 500
        (channel_with 2000 210000 [content ''A'' 60000])
       = Inr \<lparr>program = offlineProgram 1500, timeElapsed = 0, programIndex = - 1\<rparr>"
    using resolver_fails_iff [of 500 "channel_with 2000 210000 [content ''A'' 60000]"]
    by (simp add: channel_with_def)
  ultimately show ?thesis by simp
qed

text \<open>
  The claim as the spec words it fails twice.  A lineup whose durations sum to 60 s on a
  channel of duration 210 s (a mismatch far beyond \<open>SLACK\<close>) resolves to its item without any
  error; and an empty lineup resolved before the channel's start yields the offline item
  with index \<open>-1\<close>, not an error.
\<close>

theorem resolver_mismatch_counterexample:
  "\<bar>sum_list (map p_duration (ch_programs (channel_with 0 210000 [content ''A'' 60000])))
      - ch_duration (channel_with 0 210000 [content ''A'' 60000])\<bar> > SLACK
   \<and> getCurrentProgramAndTimeElapsed 30000 (channel_with 0 210000 [content ''A'' 60000])
       = Inr \<lparr>program = content ''A'' 60000, timeElapsed = 30000, programIndex = 0\<rparr>
   \<and> getCurrentProgramAndTimeElapsed 0 (channel_with 1000 210000 [])
       = Inr \<lparr>program = offlineProgram 1000, timeElapsed = 0, programIndex = - 1\<rparr>"
  by (simp add: getCurrentProgramAndTimeElapsed_def channel_with_def content_def SLACK_def
      js_rem_def)

section \<open>Properties of \<open>createLineup\<close> and of the filler picker\<close>

text \<open>
  Claim C7.  For a content item the resolver returned (no error, not offline), the stream
  lineup item starts the source at 0 and carries the original time into the item as
  \<open>beginningOffset\<close> when that time is below 30000 ms, and starts at that time with
  \<open>beginningOffset\<close> 0 otherwise.  Scenario S2 (the channel of S1 at 65 s: item B, index 1,
  start 0, \<open>beginningOffset\<close> 5 s) is the instance \<open>start_snap_S2\<close> below.
\<close>

theorem start_snap:
  assumes "getCurrentProgramAndTimeElapsed now ch = Inr obj"
    and "p_err (program obj) = None"
    and "\<not> p_isOffline (program obj)"
  shows "fst (createLineup cache obj channel fillers isFirst t0 g) =
     [\<lparr>li_type = ''program'', li_title = p_title (program obj),
       li_key = p_key (program obj), li_plexFile = p_plexFile (program obj),
       li_file = p_file (program obj), li_ratingKey = p_ratingKey (program obj),
       li_serverKey = p_serverKey (program obj), li_fillerId = None, li_err = None,
       li_start = (if timeElapsed obj < 30000 then 0 else timeElapsed obj),
       li_streamDuration = p_duration (program obj)
          - (if timeElapsed obj < 30000 then 0 else timeElapsed obj),
       li_duration = p_duration (program obj),
       li_beginningOffset = (if timeElapsed obj < 30000 then timeElapsed obj else 0)\<rparr>]"
proof -
  have "0 \<le> timeElapsed obj"
    using assms(1) by (rule resolver_timeElapsed_nonneg)
  with assms(2,3) show ?thesis
    by (simp add: createLineup_def Let_def)
qed

theorem start_snap_S2:
  "getCurrentProgramAndTimeElapsed 65000 S1_channel =
     Inr \<lparr>program = content ''B'' 120000, timeElapsed = 5000, programIndex = 1\<rparr>
   \<and> map (\<lambda>item. (li_title item, li_start item, li_beginningOffset item))
        (fst (createLineup never_played
               \<lparr>program = content ''B'' 120000, timeElapsed = 5000, programIndex = 1\<rparr>
               S1_channel [] False 65000 []))
       = [(''B'', 0, 5000)]"
proof -
  have resolved: "getCurrentProgramAndTimeElapsed 65000 S1_channel =
     Inr \<lparr>program = content ''B'' 120000, timeElapsed = 5000, programIndex = 1\<rparr>"
    by (simp add: getCurrentProgramAndTimeElapsed_def S1_channel_def channel_with_def
        content_def SLACK_def js_rem_def)
  have "p_err (program \<lparr>program = content ''B'' 120000, timeElapsed = 5000,
                         programIndex = 1\<rparr>) = None"
    and "\<not> p_isOffline (program \<lparr>program = content ''B'' 120000, timeElapsed = 5000,
                         programIndex = 1\<rparr>)"
    by (simp_all add: content_def)
  from start_snap [OF resolved this, of never_played S1_channel "[]" False 65000 "[]"]
  have "map (\<lambda>item. (li_title item, li_start item, li_beginningOffset item))
        (fst (createLineup never_played
               \<lparr>program = content ''B'' 120000, timeElapsed = 5000, programIndex = 1\<rparr>
               S1_channel [] False 65000 []))
       = [(''B'', 0, 5000)]"
    by (simp add: content_def)
  with resolved show ?thesis by simp
qed

text \<open>
  Claim C8.  The two weight helpers compute the closed forms of the spec: with
  \<open>x = d / 60000\<close>, replaced by \<open>3 + ln x\<close> when \<open>x \<ge> 3\<close>, \<open>norm_d d\<close> is
  \<open>\<lceil>(10000 * \<lceil>1000 * x\<rceil> + 10000) / 10\<^sup>6\<rceil> + 1\<close>, and \<open>norm_s s\<close> is
  \<open>\<lceil>(\<lceil>s / 600\<rceil> + 1)\<^sup>2 / 10\<^sup>6\<rceil> + 1\<close>.  The numbers are real numbers here; the rounding of
  the source's double-precision arithmetic is outside the model.
\<close>

theorem norm_closed_forms:
  "norm_d d =
     \<lceil>(10000 * real_of_int \<lceil>1000 * (if d / 60000 \<ge> 3 then 3 + ln (d / 60000) else d / 60000)\<rceil>
        + 10000) / 10 ^ 6\<rceil> + 1
   \<and> norm_s s = \<lceil>(real_of_int \<lceil>s / 600\<rceil> + 1)\<^sup>2 / 10 ^ 6\<rceil> + 1"
proof
  have "(10000::real) * (real_of_int c + 1) = 10000 * real_of_int c + 10000" for c :: int
    by (simp add: algebra_simps)
  then show "norm_d d =
     \<lceil>(10000 * real_of_int \<lceil>1000 * (if d / 60000 \<ge> 3 then 3 + ln (d / 60000) else d / 60000)\<rceil>
        + 10000) / 10 ^ 6\<rceil> + 1"
    by (simp add: norm_d_def Let_def mult.commute)
  show "norm_s s = \<lceil>(real_of_int \<lceil>s / 600\<rceil> + 1)\<^sup>2 / 10 ^ 6\<rceil> + 1"
    by (simp add: norm_s_def Let_def power2_eq_square)
qed

text \<open>
  Claim C10.  \<open>getWatermark\<close> returns nothing when transcoding is disabled or the channel
  overlay is globally disabled; when the channel has no watermark or one that is not
  enabled; and for a \<open>commercial\<close> item unless the channel sets \<open>disableFillerOverlay\<close> to
  false.  A watermark it returns is enabled and has an icon with a non-empty path.
\<close>

theorem getWatermark_gates:
  "(\<not> enableTranscoding s \<or> disableChannelOverlay s \<longrightarrow> getWatermark s ch ty = None)
   \<and> (ch_watermark ch = None \<longrightarrow> getWatermark s ch ty = None)
   \<and> (\<forall>w. ch_watermark ch = Some w \<and> \<not> wm_enabled w \<longrightarrow> getWatermark s ch ty = None)
   \<and> (ty = ''commercial'' \<and> ch_disableFillerOverlay ch \<noteq> Some False \<longrightarrow>
        getWatermark s ch ty = None)
   \<and> (\<forall>w. getWatermark s ch ty = Some w \<longrightarrow>
        wm_enabled w \<and> (\<exists>icon. wm_url w = Some icon \<and> icon_path icon \<noteq> []))"
proof (intro conjI allI impI)
  assume "\<not> enableTranscoding s \<or> disableChannelOverlay s"
  then show "getWatermark s ch ty = None"
    by (auto simp: getWatermark_def)
next
  assume "ch_watermark ch = None"
  then show "getWatermark s ch ty = None"
    by (simp add: getWatermark_def Let_def)
next
  fix w assume "ch_watermark ch = Some w \<and> \<not> wm_enabled w"
  then show "getWatermark s ch ty = None"
    by (simp add: getWatermark_def Let_def)
next
  assume "ty = ''commercial'' \<and> ch_disableFillerOverlay ch \<noteq> Some False"
  then show "getWatermark s ch ty = None"
    by (cases "ch_disableFillerOverlay ch") (auto simp: getWatermark_def Let_def)
next
  fix w assume some: "getWatermark s ch ty = Some w"
  then show "wm_enabled w"
    by (auto simp: getWatermark_def Let_def split: if_splits option.splits)
  from some show "\<exists>icon. wm_url w = Some icon \<and> icon_path icon \<noteq> []"
    by (auto simp: getWatermark_def Let_def split: if_splits option.splits)
qed

theorem getWatermark_gates_witness:
  "getWatermark (overlay_settings False) (watermarked_channel sample_watermark) ''program''
     = None
   \<and> getWatermark (overlay_settings True) (channel_with 0 0 []) ''program'' = None
   \<and> getWatermark (overlay_settings True)
        (watermarked_channel (sample_watermark\<lparr>wm_enabled := False\<rparr>)) ''program'' = None
   \<and> getWatermark (overlay_settings True) (watermarked_channel sample_watermark)
        ''commercial'' = None
   \<and> (\<exists>w. getWatermark (overlay_settings True) (watermarked_channel sample_watermark)
              ''program'' = Some w
          \<and> wm_enabled w \<and> (\<exists>icon. wm_url w = Some icon \<and> icon_path icon \<noteq> []))"
proof (intro conjI)
  show "getWatermark (overlay_settings False) (watermarked_channel sample_watermark)
      ''program'' = None"
    using getWatermark_gates
      [of "overlay_settings False" "watermarked_channel sample_watermark" "''program''"]
    by (simp add: overlay_settings_def sample_settings_def)
  show "getWatermark (overlay_settings True) (channel_with 0 0 []) ''program'' = None"
    using getWatermark_gates [of "overlay_settings True" "channel_with 0 0 []" "''program''"]
    by (simp add: channel_with_def)
  show "getWatermark (overlay_settings True)
        (watermarked_channel (sample_watermark\<lparr>wm_enabled := False\<rparr>)) ''program'' = None"
    using getWatermark_gates [of "overlay_settings True"
        "watermarked_channel (sample_watermark\<lparr>wm_enabled := False\<rparr>)" "''program''"]
    by (simp add: watermarked_channel_def sample_watermark_def)
  show "getWatermark (overlay_settings True) (watermarked_channel sample_watermark)
        ''commercial'' = None"
    using getWatermark_gates
      [of "overlay_settings True" "watermarked_channel sample_watermark" "''commercial''"]
    by (simp add: watermarked_channel_def channel_with_def)
  have "getWatermark (overlay_settings True) (watermarked_channel sample_watermark)
      ''program'' \<noteq> None"
    by (simp add: getWatermark_def overlay_settings_def sample_settings_def watermarked_channel_def
        channel_with_def sample_watermark_def logo_def)
  then obtain w where w: "getWatermark (overlay_settings True)
      (watermarked_channel sample_watermark) ''program'' = Some w"
    by blast
  with getWatermark_gates
    [of "overlay_settings True" "watermarked_channel sample_watermark" "''program''"]
  have "wm_enabled w \<and> (\<exists>icon. wm_url w = Some icon \<and> icon_path icon \<noteq> [])"
    by blast
  with w show "\<exists>w. getWatermark (overlay_settings True)
      (watermarked_channel sample_watermark) ''program'' = Some w
      \<and> wm_enabled w \<and> (\<exists>icon. wm_url w = Some icon \<and> icon_path icon \<noteq> [])"
    by blast
qed

lemma weigh_clip_fits:
  "pick_fits b st \<Longrightarrow> p_duration clip \<le> b \<Longrightarrow> weigh_clip clip ts n st = (n', st') \<Longrightarrow>
   pick_fits b st'"
  by (auto simp: weigh_clip_def pick_fits_def Let_def split: if_splits prod.splits)

lemma clip_loop_fits:
  "pick_fits (maxDuration + SLACK) st \<Longrightarrow>
   pick_fits (maxDuration + SLACK)
     (clip_loop cache number cooldown maxDuration t0 fc clips pickedList n st)"
proof (induction cache number cooldown maxDuration t0 fc clips pickedList n st
       rule: clip_loop.induct)
  case (1 cache number cooldown maxDuration t0 fc pickedList n st)
  then show ?case by simp
next
  case (2 cache number cooldown maxDuration t0 fc clip rest pickedList n st)
  let ?b = "maxDuration + SLACK"
  let ?t1 = "getProgramLastPlayTime cache number clip"
  let ?timeSince = "if ?t1 = 0 then const_D else t0 - ?t1"
  let ?t1' = "getFillerLastPlayTime cache number (fc_id fc)"
  let ?timeSince' = "if ?t1' = 0 then const_D else t0 - ?t1'"
  show ?case
  proof (cases "p_duration clip \<le> ?b")
    case False
    with 2 show ?thesis by simp
  next
    case gate: True
    show ?thesis
    proof (cases "?timeSince < cooldown - SLACK")
      case True
      let ?st1 = "if p_duration clip + (cooldown - ?timeSince) \<le> ?b
                  then st\<lparr>ps_minimumWait := min (ps_minimumWait st) (cooldown - ?timeSince)\<rparr>
                  else st"
      have "pick_fits ?b ?st1"
        using "2.prems" by (simp add: pick_fits_def)
      with "2.IH"(1) [OF gate refl refl True refl refl] gate True show ?thesis
        by (simp add: Let_def)
    next
      case cool: False
      show ?thesis
      proof (cases pickedList)
        case True
        obtain n' st' where w: "weigh_clip clip ?timeSince n st = (n', st')"
          by (cases "weigh_clip clip ?timeSince n st")
        have fits': "pick_fits ?b st'"
          using weigh_clip_fits [OF "2.prems" gate w] .
        have picked: "\<not> \<not> pickedList" using True by simp
        from "2.IH"(3) [OF gate refl refl cool picked w [symmetric] fits'] True gate cool w
        show ?thesis by (simp add: Let_def)
      next
        case notPicked: False
        show ?thesis
        proof (cases "?timeSince' + SLACK \<ge> fc_cooldown fc")
          case False
          with gate cool notPicked "2.prems" show ?thesis
            by (simp add: Let_def pick_fits_def)
        next
          case eligible: True
          let ?listM = "ps_listM st + fc_weight fc"
          obtain b g where pk: "weighedPick (fc_weight fc) ?listM (ps_rng st) = (b, g)"
            by (cases "weighedPick (fc_weight fc) ?listM (ps_rng st)")
          show ?thesis
          proof (cases b)
            case False
            with gate cool notPicked eligible pk "2.prems" show ?thesis
              by (simp add: Let_def pick_fits_def)
          next
            case True
            let ?st0 = "st\<lparr>ps_listM := ?listM, ps_rng := g, ps_fillerId := Some (fc_id fc)\<rparr>"
            obtain n' st' where w: "weigh_clip clip ?timeSince 0 ?st0 = (n', st')"
              by (cases "weigh_clip clip ?timeSince 0 ?st0")
            have "pick_fits ?b ?st0"
              using "2.prems" by (simp add: pick_fits_def)
            then have "pick_fits ?b st'"
              using weigh_clip_fits gate w by blast
            with "2.IH"(2) [OF gate refl refl cool notPicked refl refl eligible refl
                pk [symmetric] True w [symmetric]]
              gate cool notPicked eligible pk True w
            show ?thesis by (simp add: Let_def)
          qed
        qed
      qed
    qed
  qed
qed

lemma filler_loop_fits:
  "pick_fits (maxDuration + SLACK) st \<Longrightarrow>
   pick_fits (maxDuration + SLACK)
     (filler_loop cache number cooldown maxDuration t0 fillers st)"
  by (induction fillers arbitrary: st) (simp_all add: clip_loop_fits)

lemma pickRandomWithMaxDuration_fits:
  assumes "pickRandomWithMaxDuration cache channel fillers maxDuration t0 g = (res, g')"
    and "pr_filler res = Some clip"
  shows "p_duration clip \<le> maxDuration + SLACK"
proof -
  let ?cooldown = "case ch_fillerRepeatCooldown channel of None \<Rightarrow> 30 * 60 * 1000 | Some c \<Rightarrow> c"
  let ?init = "\<lparr>ps_minimumWait = 1000000000, ps_listM = 0, ps_fillerId = None,
                ps_pick1 = None, ps_rng = g\<rparr>"
  let ?st = "filler_loop cache (ch_number channel) ?cooldown maxDuration t0 fillers ?init"
  have "pick_fits (maxDuration + SLACK) ?init" by (simp add: pick_fits_def)
  then have fits: "pick_fits (maxDuration + SLACK) ?st" by (rule filler_loop_fits)
  from assms have "map_option (\<lambda>p. p\<lparr>p_fillerId := ps_fillerId ?st\<rparr>) (ps_pick1 ?st) = Some clip"
    by (auto simp: pickRandomWithMaxDuration_def Let_def)
  then obtain c where "ps_pick1 ?st = Some c" and "clip = c\<lparr>p_fillerId := ps_fillerId ?st\<rparr>"
    by auto
  with fits show ?thesis by (simp add: pick_fits_def)
qed

text \<open>
  Claim C4, as the code has it.  For an offline gap with remaining time \<open>R\<close>, \<open>createLineup\<close>
  calls the picker with the bound \<open>R\<close>, or \<open>R\<close> plus seven days when the join is the first
  one.  A clip the picker returns is therefore at most \<open>R + SLACK\<close> long when \<open>isFirst\<close> is
  false and at most \<open>R + SLACK\<close> plus seven days when it is true, whatever the channel, the
  collections, the cache, the clock and the random draws; and \<open>createLineup\<close> turns that clip
  into a \<open>commercial\<close> item of the clip's duration.
\<close>

theorem filler_fit:
  assumes "p_err (program obj) = None"
    and "p_isOffline (program obj)"
    and "R = p_duration (program obj) - timeElapsed obj"
    and "pickRandomWithMaxDuration cache channel fillers
           (R + (if isFirst then 7 * 24 * 60 * 60 * 1000 else 0)) t0 g = (res, g')"
    and "pr_filler res = Some clip"
  shows "p_duration clip \<le> R + SLACK + (if isFirst then 7 * 24 * 60 * 60 * 1000 else 0)
    \<and> (\<exists>item. fst (createLineup cache obj channel fillers isFirst t0 g) = [item]
          \<and> li_type item = ''commercial'' \<and> li_duration item = p_duration clip)"
proof
  show "p_duration clip \<le> R + SLACK + (if isFirst then 7 * 24 * 60 * 60 * 1000 else 0)"
    using pickRandomWithMaxDuration_fits [OF assms(4,5)] by simp
  show "\<exists>item. fst (createLineup cache obj channel fillers isFirst t0 g) = [item]
          \<and> li_type item = ''commercial'' \<and> li_duration item = p_duration clip"
    using assms
    by (simp add: createLineup_def Let_def split: prod.splits)
qed

lemma pick_170s_first_join:
  "pickRandomWithMaxDuration never_played (channel_with 0 100000 [offlineProgram 100000])
     one_clip_170s (100000 + 7 * 24 * 60 * 60 * 1000) 0 []
   = (\<lparr>pr_filler = Some ((content ''clip'' 170000)\<lparr>p_fillerId := Some ''f1''\<rparr>),
       pr_minimumWait = 1000000000\<rparr>, [])"
  by (simp add: pickRandomWithMaxDuration_def channel_with_def one_clip_170s_def
      never_played_def content_def SLACK_def const_D_def const_E_def weighedPick_def
      random_bool_def weigh_clip_def norm_s_def norm_d_def Let_def)

theorem filler_fit_witness:
  "p_duration ((content ''clip'' 170000)\<lparr>p_fillerId := Some ''f1''\<rparr>)
      \<le> 100000 + SLACK + 7 * 24 * 60 * 60 * 1000
   \<and> (\<exists>item. fst (createLineup never_played gap_100s
                    (channel_with 0 100000 [offlineProgram 100000]) one_clip_170s True 0 [])
                = [item]
          \<and> li_type item = ''commercial'' \<and> li_duration item = 170000)"
proof -
  have pick: "pickRandomWithMaxDuration never_played
      (channel_with 0 100000 [offlineProgram 100000]) one_clip_170s
      (100000 + (if True then 7 * 24 * 60 * 60 * 1000 else 0)) 0 []
    = (\<lparr>pr_filler = Some ((content ''clip'' 170000)\<lparr>p_fillerId := Some ''f1''\<rparr>),
        pr_minimumWait = 1000000000\<rparr>, [])"
    using pick_170s_first_join by simp
  have "p_err (program gap_100s) = None" and "p_isOffline (program gap_100s)"
    and "100000 = p_duration (program gap_100s) - timeElapsed gap_100s"
    by (simp_all add: gap_100s_def offlineProgram_def)
  from filler_fit [OF this pick] show ?thesis
    by (simp add: content_def)
qed

text \<open>
  The claim as the spec words it fails on a first join: for the gap of 100 s the picker
  returns the clip of 170 s, which is longer than \<open>R + SLACK\<close>, and \<open>createLineup\<close> plays it
  from 70 s on.
\<close>

theorem filler_fit_first_join_counterexample:
  "map (\<lambda>item. (li_type item, li_duration item, li_start item, li_streamDuration item))
     (fst (createLineup never_played gap_100s
             (channel_with 0 100000 [offlineProgram 100000]) one_clip_170s True 0 []))
     = [(''commercial'', 170000, 70000, 100000)]
   \<and> p_duration (program gap_100s) - timeElapsed gap_100s + SLACK < 170000"
proof -
  have "pickRandomWithMaxDuration never_played
      (channel_with 0 100000 [offlineProgram 100000]) one_clip_170s 604900000 0 []
    = (\<lparr>pr_filler = Some ((content ''clip'' 170000)\<lparr>p_fillerId := Some ''f1''\<rparr>),
        pr_minimumWait = 1000000000\<rparr>, [])"
    using pick_170s_first_join by simp
  then show ?thesis
    by (simp add: createLineup_def gap_100s_def offlineProgram_def Let_def content_def
        random_integer_def SLACK_def)
qed

section \<open>Properties of the encoder wrapper\<close>

text \<open>
  Claim C2, as the code has it.  Exit code 0 emits \<open>end\<close> alone.  Exit code 255 emits
  \<open>close\<close>, preceded by \<open>error\<close> when the wrapper was not killed and its \<open>sentData\<close> flag is
  unset; it never emits \<open>end\<close>.  Any other exit code emits \<open>error\<close> alone, and the end by a
  signal emits \<open>close\<close> alone.  So \<open>close\<close> is emitted exactly for a signal and for exit
  code 255, and \<open>end\<close> exactly for exit code 0.
\<close>

theorem exit_events:
  "map event_name (on_exit this ffmpegArgs code) =
     (case code of
        None \<Rightarrow> [''close'']
      | Some c \<Rightarrow>
          if c = 0 then [''end'']
          else if c = 255 then
            (if \<not> ff_hasBeenKilled this \<and> \<not> ff_sentData this
             then [''error'', ''close''] else [''close''])
          else [''error''])
   \<and> (''close'' \<in> set (map event_name (on_exit this ffmpegArgs code))
        \<longleftrightarrow> code = None \<or> code = Some 255)
   \<and> (''end'' \<in> set (map event_name (on_exit this ffmpegArgs code)) \<longleftrightarrow> code = Some 0)"
  by (cases code) (auto simp: on_exit_def Let_def)

text \<open>
  The claim as the spec words it fails: exit code 255 with \<open>sentData\<close> set emits \<open>close\<close> and
  no \<open>end\<close>, and neither exit code 0 nor exit code 1 emits \<open>close\<close>.
\<close>

theorem exit_events_counterexample:
  "map event_name (on_exit (sample_ffmpeg\<lparr>ff_sentData := True\<rparr>) [] (Some 255)) = [''close'']
   \<and> map event_name (on_exit sample_ffmpeg [] (Some 0)) = [''end'']
   \<and> map event_name (on_exit sample_ffmpeg [] (Some 1)) = [''error'']"
  by (simp add: on_exit_def sample_ffmpeg_def FFMPEG_new_def Let_def)

text \<open>
  Nothing in the wrapper assigns \<open>sentData\<close> after the constructor has set it to false:
  \<open>kill\<close>, \<open>setAudioOnly\<close> and \<open>spawn\<close> leave it as it is.
\<close>

lemma sentData_constructor: "\<not> ff_sentData (FFMPEG_new server opts channel)"
  by (simp add: FFMPEG_new_def Let_def)

lemma sentData_kill: "ff_sentData (kill this) = ff_sentData this"
  by (simp add: kill_def)

lemma sentData_setAudioOnly: "ff_sentData (setAudioOnly b this) = ff_sentData this"
  by (simp add: setAudioOnly_def)


subsection \<open>The duration argument through the steps of \<open>spawn\<close>\<close>

lemma duration_begin:
  "l_duration (spawn_begin nts this src stats start d limitRead wm) = d"
  by (simp add: spawn_begin_def Let_def)

lemma duration_fps: "l_duration (spawn_fps this stats l) = l_duration l"
  by (simp add: spawn_fps_def Let_def)

lemma duration_error_video:
  "l_duration l = Some d \<Longrightarrow> l_duration (spawn_error_video server this src stats l) = Some d"
  by (simp add: spawn_error_video_def Let_def)

lemma duration_error_audio:
  "l_duration (snd (spawn_error_audio this stats src l)) = l_duration l"
  by (simp add: spawn_error_audio_def error_audio_source_def Let_def split: prod.splits)

lemma duration_prepare:
  assumes d: "l_duration l = Some d"
  shows "l_duration (snd (spawn_prepare server this src stats l)) = Some d"
proof (cases "\<not> isString src \<or> src = Url [] \<or> vs_audioOnly stats = Some True")
  case False
  with d show ?thesis by (simp add: spawn_prepare_def)
next
  case True
  define this1 where "this1 = this\<lparr>ff_apad := False, ff_audioChannelsSampleRate := True\<rparr>"
  define l1 where "l1 = l\<lparr>l_doOverlay := False, l_iW := ff_wantedW this1, l_iH := ff_wantedH this1\<rparr>"
  define l2 where
    "l2 = (if \<not> ff_audioOnly this1 then spawn_error_video server this1 src stats l1 else l1)"
  obtain this2 l3 where audio:
    "(if \<not> isString src then spawn_error_audio this1 stats src l2 else (this1, l2)) = (this2, l3)"
    by (cases "if \<not> isString src then spawn_error_audio this1 stats src l2 else (this1, l2)")
  have "l_duration l1 = Some d" using d by (simp add: l1_def)
  then have "l_duration l2 = Some d" by (simp add: l2_def duration_error_video)
  moreover have "l_duration l3 = l_duration l2"
    using audio duration_error_audio [of this1 stats src l2]
    by (cases "isString src") auto
  ultimately have l3: "l_duration l3 = Some d" by simp
  have "spawn_prepare server this src stats l = (this2, l3\<lparr>l_currentVideo := ''[videox]''\<rparr>)"
    using True audio unfolding spawn_prepare_def this1_def l1_def l2_def Let_def
    by (simp split: prod.splits)
  with l3 show ?thesis by simp
qed

lemma duration_overlay_input:
  "l_duration (snd (spawn_overlay_input this wm l)) = l_duration l"
  by (simp add: spawn_overlay_input_def split: option.splits)

lemma duration_filters:
  "l_duration (resolution_filters algo e cw ch w h l) = l_duration l"
  by (simp add: resolution_filters_def Let_def)

lemma duration_resolution:
  "spawn_resolution this stats l = Inr (this', l') \<Longrightarrow> l_duration l' = l_duration l"
  by (auto simp: spawn_resolution_def Let_def duration_filters split: if_splits sum.splits)

lemma duration_watermark: "l_duration (spawn_watermark this wm l) = l_duration l"
  by (simp add: spawn_watermark_def Let_def split: option.splits)

lemma duration_volume: "l_duration (spawn_volume this stats l) = l_duration l"
  by (simp add: spawn_volume_def Let_def)

lemma output_ends_with_duration:
  "l_duration l = Some d \<Longrightarrow>
   \<exists>front. spawn_output this stats l = front @ [''-t'', d, ''-f'', ''mpegts'', ''pipe:1'']"
  by (simp add: spawn_output_def Let_def)

lemma spawn_ends_with_duration:
  assumes "spawn server nts this src stats start (Some d) limitRead wm = Inr (res, this')"
  shows "\<exists>front. sr_args res = front @ [''-t'', d, ''-f'', ''mpegts'', ''pipe:1'']"
proof -
  from assms obtain st where stats: "stats = Some st"
    by (cases stats) (simp_all add: spawn_def)
  let ?l1 = "spawn_fps this st (spawn_begin nts this src st start (Some d) limitRead wm)"
  obtain this1 l2 where prep: "spawn_prepare server this src st ?l1 = (this1, l2)"
    by (cases "spawn_prepare server this src st ?l1")
  obtain this2 l3 where ov: "spawn_overlay_input this1 wm l2 = (this2, l3)"
    by (cases "spawn_overlay_input this1 wm l2")
  from assms stats prep ov obtain this3 l4 where
    res: "spawn_resolution this2 st l3 = Inr (this3, l4)" and
    args: "sr_args res = spawn_output this3 st (spawn_volume this3 st (spawn_watermark this3 wm l4))"
    by (auto simp: spawn_def Let_def split: sum.splits if_splits)
  have "l_duration ?l1 = Some d" by (simp add: duration_fps duration_begin)
  then have "l_duration l2 = Some d"
    using duration_prepare [of ?l1 d server this src st] prep by simp
  then have "l_duration l3 = Some d"
    using duration_overlay_input [of this1 wm l2] ov by simp
  then have "l_duration l4 = Some d"
    using duration_resolution [OF res] by simp
  then have "l_duration (spawn_volume this3 st (spawn_watermark this3 wm l4)) = Some d"
    by (simp add: duration_volume duration_watermark)
  from output_ends_with_duration [OF this] args show ?thesis by simp
qed
subsection \<open>Calling \<open>spawn\<close> twice on one object\<close>

lemma same_fixed_refl: "same_fixed a a"
  by (simp add: same_fixed_def)

lemma same_fixed_trans: "same_fixed a b \<Longrightarrow> same_fixed b c \<Longrightarrow> same_fixed a c"
  by (simp add: same_fixed_def)

lemma same_fixed_sym: "same_fixed a b \<Longrightarrow> same_fixed b a"
  by (simp add: same_fixed_def)

lemma begin_cong:
  "same_fixed Y X \<Longrightarrow>
   spawn_begin N Y src st start d lr wm = spawn_begin N X src st start d lr wm"
  unfolding same_fixed_def by (simp only: spawn_begin_def)

lemma fps_cong:
  "same_fixed Y X \<Longrightarrow> spawn_fps Y st l = spawn_fps X st l"
  unfolding same_fixed_def by (simp only: spawn_fps_def)

lemma error_video_cong:
  "same_fixed Y X \<Longrightarrow> spawn_error_video S Y src st l = spawn_error_video S X src st l"
  unfolding same_fixed_def by (simp only: spawn_error_video_def)

lemma audio_source_fields:
  "same_fixed (fst (error_audio_source X st src l)) X"
  "ff_apad (fst (error_audio_source X st src l)) = ff_apad X"
  "ff_audioChannelsSampleRate (fst (error_audio_source X st src l)) = ff_audioChannelsSampleRate X"
  "ff_ensureResolution (fst (error_audio_source X st src l)) = ff_ensureResolution X"
  "ff_wantedW (fst (error_audio_source X st src l)) = ff_wantedW X"
  "ff_wantedH (fst (error_audio_source X st src l)) = ff_wantedH X"
  by (simp_all add: error_audio_source_def Let_def same_fixed_def)

lemma audio_source_volume_again:
  assumes "same_fixed Y X"
    and "ff_volumePercent Y = ff_volumePercent (fst (error_audio_source X st src l))"
  shows "ff_volumePercent (fst (error_audio_source Y st src l')) = ff_volumePercent Y"
  using assms
  by (simp add: error_audio_source_def Let_def same_fixed_def)

lemma audio_source_snd_cong:
  assumes "same_fixed Y X"
  shows "snd (error_audio_source Y st src l) = snd (error_audio_source X st src l)"
  using assms
  by (simp add: error_audio_source_def Let_def same_fixed_def)

lemma error_audio_fst: "fst (spawn_error_audio X st src l) = fst (error_audio_source X st src l)"
  by (simp add: spawn_error_audio_def case_prod_unfold Let_def)

lemma error_audio_snd_cong:
  assumes "same_fixed Y X"
  shows "snd (spawn_error_audio Y st src l) = snd (spawn_error_audio X st src l)"
proof -
  have "ff_audioOnly (fst (error_audio_source Y st src l))
      = ff_audioOnly (fst (error_audio_source X st src l))"
    using audio_source_fields(1) [of Y st src l] audio_source_fields(1) [of X st src l] assms
    by (simp add: same_fixed_def)
  then show ?thesis
    by (simp add: spawn_error_audio_def case_prod_unfold Let_def audio_source_snd_cong [OF assms])
qed


lemma prepare_fields:
  "same_fixed (fst (spawn_prepare S X src st l)) X"
  "ff_ensureResolution (fst (spawn_prepare S X src st l)) = ff_ensureResolution X"
  "ff_wantedW (fst (spawn_prepare S X src st l)) = ff_wantedW X"
  "ff_wantedH (fst (spawn_prepare S X src st l)) = ff_wantedH X"
  "ff_apad (fst (spawn_prepare S X src st l))
     = (if \<not> isString src \<or> src = Url [] \<or> vs_audioOnly st = Some True
        then False else ff_apad X)"
  "ff_audioChannelsSampleRate (fst (spawn_prepare S X src st l))
     = (if \<not> isString src \<or> src = Url [] \<or> vs_audioOnly st = Some True
        then True else ff_audioChannelsSampleRate X)"
  using audio_source_fields [of "X\<lparr>ff_apad := False, ff_audioChannelsSampleRate := True\<rparr>" st src]
  by (simp_all add: spawn_prepare_def Let_def case_prod_unfold same_fixed_def error_audio_fst)

lemma prepare_volume_again:
  assumes "same_fixed Y X"
    and "ff_volumePercent Y = ff_volumePercent (fst (spawn_prepare S X src st l))"
  shows "ff_volumePercent (fst (spawn_prepare S Y src st l')) = ff_volumePercent Y"
proof (cases "\<not> isString src \<or> src = Url [] \<or> vs_audioOnly st = Some True")
  case False
  then show ?thesis by (simp add: spawn_prepare_def)
next
  case True
  let ?X1 = "X\<lparr>ff_apad := False, ff_audioChannelsSampleRate := True\<rparr>"
  let ?Y1 = "Y\<lparr>ff_apad := False, ff_audioChannelsSampleRate := True\<rparr>"
  have fixed: "same_fixed ?Y1 ?X1" using assms(1) by (simp add: same_fixed_def)
  show ?thesis
  proof (cases "isString src")
    case True
    with \<open>\<not> isString src \<or> src = Url [] \<or> vs_audioOnly st = Some True\<close> show ?thesis
      by (simp add: spawn_prepare_def Let_def)
  next
    case False
    let ?lX = "if \<not> ff_audioOnly ?X1 then spawn_error_video S ?X1 src st
                 (l\<lparr>l_doOverlay := False, l_iW := ff_wantedW ?X1, l_iH := ff_wantedH ?X1\<rparr>)
               else l\<lparr>l_doOverlay := False, l_iW := ff_wantedW ?X1, l_iH := ff_wantedH ?X1\<rparr>"
    let ?lY = "if \<not> ff_audioOnly ?Y1 then spawn_error_video S ?Y1 src st
                 (l'\<lparr>l_doOverlay := False, l_iW := ff_wantedW ?Y1, l_iH := ff_wantedH ?Y1\<rparr>)
               else l'\<lparr>l_doOverlay := False, l_iW := ff_wantedW ?Y1, l_iH := ff_wantedH ?Y1\<rparr>"
    have x: "fst (spawn_prepare S X src st l) = fst (error_audio_source ?X1 st src ?lX)"
      using False by (simp add: spawn_prepare_def Let_def case_prod_unfold error_audio_fst)
    have y: "fst (spawn_prepare S Y src st l') = fst (error_audio_source ?Y1 st src ?lY)"
      using False by (simp add: spawn_prepare_def Let_def case_prod_unfold error_audio_fst)
    have "ff_volumePercent ?Y1 = ff_volumePercent (fst (error_audio_source ?X1 st src ?lX))"
      using assms(2) x by simp
    from audio_source_volume_again [OF fixed this, of ?lY] y show ?thesis by simp
  qed
qed

lemma prepare_snd_cong:
  assumes "same_fixed Y X" "ff_wantedW Y = ff_wantedW X" "ff_wantedH Y = ff_wantedH X"
  shows "snd (spawn_prepare S Y src st l) = snd (spawn_prepare S X src st l)"
proof -
  let ?X1 = "X\<lparr>ff_apad := False, ff_audioChannelsSampleRate := True\<rparr>"
  let ?Y1 = "Y\<lparr>ff_apad := False, ff_audioChannelsSampleRate := True\<rparr>"
  have fixed: "same_fixed ?Y1 ?X1" using assms(1) by (simp add: same_fixed_def)
  have audioOnly: "ff_audioOnly Y = ff_audioOnly X" using assms(1) by (simp add: same_fixed_def)
  show ?thesis
    using assms(2,3) audioOnly
    by (simp add: spawn_prepare_def Let_def case_prod_unfold error_video_cong [OF fixed]
        error_audio_snd_cong [OF fixed])
qed

lemma overlay_fields:
  "same_fixed (fst (spawn_overlay_input X wm l)) X"
  "ff_wantedW (fst (spawn_overlay_input X wm l)) = ff_wantedW X"
  "ff_wantedH (fst (spawn_overlay_input X wm l)) = ff_wantedH X"
  "ff_apad (fst (spawn_overlay_input X wm l)) = ff_apad X"
  "ff_audioChannelsSampleRate (fst (spawn_overlay_input X wm l)) = ff_audioChannelsSampleRate X"
  "ff_volumePercent (fst (spawn_overlay_input X wm l)) = ff_volumePercent X"
  by (simp_all add: spawn_overlay_input_def same_fixed_def split: option.splits)

lemma overlay_ensure_again:
  "ff_ensureResolution Y = ff_ensureResolution (fst (spawn_overlay_input X wm l)) \<Longrightarrow>
   ff_ensureResolution (fst (spawn_overlay_input Y wm l)) = ff_ensureResolution Y"
  by (simp add: spawn_overlay_input_def split: option.splits if_splits)

lemma overlay_snd_cong:
  "snd (spawn_overlay_input Y wm l) = snd (spawn_overlay_input X wm l)"
  by (simp add: spawn_overlay_input_def split: option.splits)

lemma resolution_fields:
  assumes "spawn_resolution X st l = Inr (X3, l4)"
  shows "same_fixed X3 X"
    and "ff_apad X3 = ff_apad X"
    and "ff_audioChannelsSampleRate X3 = ff_audioChannelsSampleRate X"
    and "ff_volumePercent X3 = ff_volumePercent X"
    and "ff_ensureResolution X3 = ff_ensureResolution X"
  using assms
  by (auto simp: spawn_resolution_def Let_def same_fixed_def split: if_splits sum.splits)

lemma resolution_again:
  assumes "spawn_resolution X st l = Inr (X3, l4)"
    and "ff_opts Y = ff_opts X" "ff_ensureResolution Y = ff_ensureResolution X"
    and "ff_wantedW Y = ff_wantedW X" "ff_wantedH Y = ff_wantedH X"
  shows "\<exists>Y3. spawn_resolution Y st l = Inr (Y3, l4)"
  using assms
  by (auto simp: spawn_resolution_def Let_def split: if_splits sum.splits)


lemma watermark_cong:
  "same_fixed Y X \<Longrightarrow> spawn_watermark Y wm l = spawn_watermark X wm l"
  unfolding same_fixed_def by (simp only: spawn_watermark_def)

lemma volume_cong:
  "same_fixed Y X \<Longrightarrow> ff_apad Y = ff_apad X \<Longrightarrow> ff_volumePercent Y = ff_volumePercent X \<Longrightarrow>
   spawn_volume Y st l = spawn_volume X st l"
  unfolding same_fixed_def by (simp only: spawn_volume_def)

lemma output_cong:
  "same_fixed Y X \<Longrightarrow> ff_audioChannelsSampleRate Y = ff_audioChannelsSampleRate X \<Longrightarrow>
   spawn_output Y st l = spawn_output X st l"
  unfolding same_fixed_def by (simp only: spawn_output_def)

text \<open>
  Claim C6, as the code has it.  \<open>spawn\<close> reads fields of the wrapper object that earlier
  calls of \<open>spawn\<close> assign (\<open>apad\<close>, \<open>audioChannelsSampleRate\<close>, \<open>ensureResolution\<close>,
  \<open>volumePercent\<close>, \<open>wantedW\<close>, \<open>wantedH\<close>), so its argument list is a function of its
  parameters and of the object.  A second call on the same object with the same parameters
  builds the same argument list whenever the first call left the wanted size \<open>wantedW\<close>,
  \<open>wantedH\<close> as it was: every other assignment of the first call is repeated by the second
  before the field is read.
\<close>

theorem spawn_repeat:
  assumes run: "spawn S N this src stats start d lr wm = Inr (res, this')"
    and w: "ff_wantedW this' = ff_wantedW this"
    and h: "ff_wantedH this' = ff_wantedH this"
  shows "\<exists>this''. spawn S N this' src stats start d lr wm = Inr (res, this'')"
proof -
  from run obtain st where stats: "stats = Some st"
    by (cases stats) (simp_all add: spawn_def)
  define l1 where "l1 = spawn_fps this st (spawn_begin N this src st start d lr wm)"
  obtain X1 l2 where prep: "spawn_prepare S this src st l1 = (X1, l2)"
    by (cases "spawn_prepare S this src st l1")
  obtain X2 l3 where ov: "spawn_overlay_input X1 wm l2 = (X2, l3)"
    by (cases "spawn_overlay_input X1 wm l2")
  have unfolded: "spawn S N this src stats start d lr wm =
      (case spawn_resolution X2 st l3 of
         Inl failure \<Rightarrow> Inl failure
       | Inr (this3, l4) \<Rightarrow>
           if ff_hasBeenKilled this3
           then Inr (\<lparr>sr_args = spawn_output this3 st
                                   (spawn_volume this3 st (spawn_watermark this3 wm l4)),
                      sr_started = False\<rparr>, this3)
           else Inr (\<lparr>sr_args = spawn_output this3 st
                                   (spawn_volume this3 st (spawn_watermark this3 wm l4)),
                      sr_started = True\<rparr>, this3\<lparr>ff_ffmpegName := ''Stream FFMPEG''\<rparr>))"
    using stats prep ov
    by (simp add: spawn_def Let_def l1_def [symmetric] split: sum.splits prod.splits)
  with run obtain X3 l4 where reso: "spawn_resolution X2 st l3 = Inr (X3, l4)"
    by (cases "spawn_resolution X2 st l3") auto
  from run unfolded reso have
    res: "res = \<lparr>sr_args = spawn_output X3 st (spawn_volume X3 st (spawn_watermark X3 wm l4)),
                  sr_started = (\<not> ff_hasBeenKilled X3)\<rparr>" and
    final: "this' = (if ff_hasBeenKilled X3 then X3 else X3\<lparr>ff_ffmpegName := ''Stream FFMPEG''\<rparr>)"
    by (cases "ff_hasBeenKilled X3"; simp)+
  note p1 = prepare_fields [of S this src st l1, unfolded prep fst_conv]
  note o1 = overlay_fields [of X1 wm l2, unfolded ov fst_conv]
  note r1 = resolution_fields [OF reso]
  have f1: "same_fixed this' X3" "ff_apad this' = ff_apad X3"
    "ff_audioChannelsSampleRate this' = ff_audioChannelsSampleRate X3"
    "ff_volumePercent this' = ff_volumePercent X3"
    "ff_ensureResolution this' = ff_ensureResolution X3"
    using final by (simp_all add: same_fixed_def)
  have fixed0: "same_fixed this' this"
    using f1(1) r1(1) o1(1) p1(1) by (blast intro: same_fixed_trans)
  have l1': "spawn_fps this' st (spawn_begin N this' src st start d lr wm) = l1"
    by (simp add: l1_def begin_cong [OF fixed0] fps_cong [OF fixed0])
  obtain Y1 l2' where prep': "spawn_prepare S this' src st l1 = (Y1, l2')"
    by (cases "spawn_prepare S this' src st l1")
  have l2': "l2' = l2"
    using prepare_snd_cong [OF fixed0 w h, of S src st l1] prep prep' by simp
  note p2 = prepare_fields [of S this' src st l1, unfolded prep' fst_conv]
  have vol0: "ff_volumePercent this' = ff_volumePercent (fst (spawn_prepare S this src st l1))"
    using f1(4) r1(4) o1(6) prep by simp
  have vol1: "ff_volumePercent Y1 = ff_volumePercent X1"
    using prepare_volume_again [OF fixed0 vol0, of l1] prep prep' vol0 by simp
  have apad1: "ff_apad Y1 = ff_apad X1"
    using p2(5) p1(5) f1(2) r1(2) o1(4) by simp
  have acsr1: "ff_audioChannelsSampleRate Y1 = ff_audioChannelsSampleRate X1"
    using p2(6) p1(6) f1(3) r1(3) o1(5) by simp
  have fixed1: "same_fixed Y1 X1"
    using p2(1) fixed0 p1(1) by (blast intro: same_fixed_trans same_fixed_sym)
  obtain Y2 l3' where ov': "spawn_overlay_input Y1 wm l2 = (Y2, l3')"
    by (cases "spawn_overlay_input Y1 wm l2")
  have l3': "l3' = l3"
    using overlay_snd_cong [of Y1 wm l2 X1] ov ov' by simp
  note o2 = overlay_fields [of Y1 wm l2, unfolded ov' fst_conv]
  have ens1: "ff_ensureResolution Y1 = ff_ensureResolution (fst (spawn_overlay_input X1 wm l2))"
    using p2(2) f1(5) r1(5) ov by simp
  have ens2: "ff_ensureResolution Y2 = ff_ensureResolution X2"
    using overlay_ensure_again [OF ens1] ov ov' ens1 by simp
  have fixed2: "same_fixed Y2 X2"
    using o2(1) fixed1 o1(1) by (blast intro: same_fixed_trans same_fixed_sym)
  have wanted2: "ff_wantedW Y2 = ff_wantedW X2" "ff_wantedH Y2 = ff_wantedH X2"
    using o2(2,3) p2(3,4) w h o1(2,3) p1(3,4) by simp_all
  have opts2: "ff_opts Y2 = ff_opts X2" using fixed2 by (simp add: same_fixed_def)
  from resolution_again [OF reso opts2 ens2 wanted2]
  obtain Y3 where reso': "spawn_resolution Y2 st l3 = Inr (Y3, l4)" by blast
  note r2 = resolution_fields [OF reso']
  have fixed3: "same_fixed Y3 X3"
    using r2(1) fixed2 r1(1) by (blast intro: same_fixed_trans same_fixed_sym)
  have apad3: "ff_apad Y3 = ff_apad X3" using r2(2) o2(4) apad1 o1(4) r1(2) by simp
  have acsr3: "ff_audioChannelsSampleRate Y3 = ff_audioChannelsSampleRate X3"
    using r2(3) o2(5) acsr1 o1(5) r1(3) by simp
  have vol3: "ff_volumePercent Y3 = ff_volumePercent X3"
    using r2(4) o2(6) vol1 o1(6) r1(4) by simp
  have args: "spawn_output Y3 st (spawn_volume Y3 st (spawn_watermark Y3 wm l4))
      = spawn_output X3 st (spawn_volume X3 st (spawn_watermark X3 wm l4))"
    by (simp add: output_cong [OF fixed3 acsr3] volume_cong [OF fixed3 apad3 vol3]
        watermark_cong [OF fixed3])
  have killed: "ff_hasBeenKilled Y3 = ff_hasBeenKilled X3"
    using fixed3 by (simp add: same_fixed_def)
  show ?thesis
    using stats l1' prep' l2' ov' l3' reso' args killed res
    by (simp add: spawn_def Let_def)
qed

lemmas spawn_defs = spawn_def spawn_begin_def spawn_fps_def spawn_prepare_def
  spawn_error_video_def spawn_error_audio_def error_audio_source_def
  spawn_overlay_input_def spawn_resolution_def resolution_filters_def scale_target_def
  spawn_watermark_def spawn_volume_def spawn_output_def
  isLargerResolution_def js_mod_def isString_def isOffline_def
  isDifferentVideoCodec_def isDifferentAudioCodec_def show_int_def show_nat.simps
  show_opt_def show_opt_int_def gcd_loop.simps Let_def

lemmas sample_defs = sample_ffmpeg_def FFMPEG_new_def sample_settings_def sample_context_def
  sample_server_def film_stats_def

theorem spawn_repeat_witness:
  "\<exists>res t1 t2.
      spawn sample_server (\<lambda>r. []) sample_ffmpeg (Url ''http://media/film.mkv'')
          (Some (film_stats\<lparr>vs_videoWidth := 3840, vs_videoHeight := 2160\<rparr>)) None
          (Some ''100000ms'') True None = Inr (res, t1)
    \<and> ff_wantedW t1 = ff_wantedW sample_ffmpeg \<and> ff_wantedH t1 = ff_wantedH sample_ffmpeg
    \<and> spawn sample_server (\<lambda>r. []) t1 (Url ''http://media/film.mkv'')
          (Some (film_stats\<lparr>vs_videoWidth := 3840, vs_videoHeight := 2160\<rparr>)) None
          (Some ''100000ms'') True None = Inr (res, t2)
    \<and> sr_args res ! 8 = ''[0:v]null[video];[video]scale=1920:1080:flags=bicubic[scaled];[scaled]setsar=1[minsiz];[0:1]anull[audio];[audio]apad=whole_dur=5400000ms[padded]''"
proof -
  have "\<exists>res t1.
      spawn sample_server (\<lambda>r. []) sample_ffmpeg (Url ''http://media/film.mkv'')
          (Some (film_stats\<lparr>vs_videoWidth := 3840, vs_videoHeight := 2160\<rparr>)) None
          (Some ''100000ms'') True None = Inr (res, t1)
    \<and> ff_wantedW t1 = ff_wantedW sample_ffmpeg \<and> ff_wantedH t1 = ff_wantedH sample_ffmpeg
    \<and> sr_args res ! 8 = ''[0:v]null[video];[video]scale=1920:1080:flags=bicubic[scaled];[scaled]setsar=1[minsiz];[0:1]anull[audio];[audio]apad=whole_dur=5400000ms[padded]''"
    by (simp add: spawn_defs sample_defs)
  then obtain res t1 where
    run: "spawn sample_server (\<lambda>r. []) sample_ffmpeg (Url ''http://media/film.mkv'')
          (Some (film_stats\<lparr>vs_videoWidth := 3840, vs_videoHeight := 2160\<rparr>)) None
          (Some ''100000ms'') True None = Inr (res, t1)" and
    w: "ff_wantedW t1 = ff_wantedW sample_ffmpeg" and
    h: "ff_wantedH t1 = ff_wantedH sample_ffmpeg" and
    filter: "sr_args res ! 8 = ''[0:v]null[video];[video]scale=1920:1080:flags=bicubic[scaled];[scaled]setsar=1[minsiz];[0:1]anull[audio];[audio]apad=whole_dur=5400000ms[padded]''"
    by blast
  from spawn_repeat [OF run w h] obtain t2 where
    "spawn sample_server (\<lambda>r. []) t1 (Url ''http://media/film.mkv'')
          (Some (film_stats\<lparr>vs_videoWidth := 3840, vs_videoHeight := 2160\<rparr>)) None
          (Some ''100000ms'') True None = Inr (res, t2)"
    by blast
  with run w h filter show ?thesis by blast
qed

text \<open>
  The claim as the spec words it fails when one wrapper object is asked twice.  For the film
  of 2940 by 2000 pixels the first call scales to 1587 by 1080, pads to 1588 by 1080 and
  stores 1588 into \<open>wantedW\<close>; the second call, with the same parameters, scales to 1588 by
  1080 and pads nothing.  The two filter graphs differ.
\<close>

theorem spawn_repeat_counterexample:
  "\<exists>r1 t1 r2 t2.
      spawn sample_server (\<lambda>r. []) sample_ffmpeg (Url ''http://media/film.mkv'')
          (Some film_stats) None (Some ''100000ms'') True None = Inr (r1, t1)
    \<and> spawn sample_server (\<lambda>r. []) t1 (Url ''http://media/film.mkv'')
          (Some film_stats) None (Some ''100000ms'') True None = Inr (r2, t2)
    \<and> sr_args r1 ! 8 = ''[0:v]null[video];[video]scale=1587:1080:flags=bicubic[scaled];[scaled]pad=1588:1080:(ow-iw)/2:(oh-ih)/2[blackpadded];[blackpadded]setsar=1[minsiz];[0:1]anull[audio];[audio]apad=whole_dur=5400000ms[padded]''
    \<and> sr_args r2 ! 8 = ''[0:v]null[video];[video]scale=1588:1080:flags=bicubic[scaled];[scaled]setsar=1[minsiz];[0:1]anull[audio];[audio]apad=whole_dur=5400000ms[padded]''
    \<and> sr_args r1 \<noteq> sr_args r2"
  by (simp add: spawn_defs sample_defs)

subsection \<open>The error screen: \<open>spawnError\<close>\<close>

lemma size_error_video:
  "l_iW (spawn_error_video S X src st l) = l_iW l"
  "l_iH (spawn_error_video S X src st l) = l_iH l"
  by (simp_all add: spawn_error_video_def Let_def)

lemma size_error_audio:
  "l_iW (snd (spawn_error_audio X st src l)) = l_iW l"
  "l_iH (snd (spawn_error_audio X st src l)) = l_iH l"
  by (simp_all add: spawn_error_audio_def error_audio_source_def Let_def split: prod.splits)

lemma size_prepare:
  assumes "\<not> isString src"
  shows "l_iW (snd (spawn_prepare S X src st l)) = ff_wantedW X"
    and "l_iH (snd (spawn_prepare S X src st l)) = ff_wantedH X"
  using assms
  by (simp_all add: spawn_prepare_def Let_def case_prod_unfold size_error_audio size_error_video)

lemma resolution_generated:
  assumes "l_iW l = ff_wantedW X" "l_iH l = ff_wantedH X"
    and "vs_pixelP st = None" "vs_audioOnly st = None" "vs_anamorphic st = None"
  shows "spawn_resolution X st l =
           (if js_mod (ff_wantedW X) 2 = 1 \<or> js_mod (ff_wantedH X) 2 = 1
            then Inl Diverges
            else Inr (X, l\<lparr>l_beforeSizeChange := l_currentVideo l\<rparr>))"
  using assms
  by (simp add: spawn_resolution_def Let_def isLargerResolution_def scale_target_def)

lemma spawn_generated:
  assumes "vs_pixelP st = None" "vs_audioOnly st = None" "vs_anamorphic st = None"
  shows "if js_mod (ff_wantedW X) 2 = 1 \<or> js_mod (ff_wantedH X) 2 = 1
         then spawn S N X (ErrorSource title subtitle) (Some st) start (Some d) lr None
                = Inl Diverges
         else \<exists>res X'.
                spawn S N X (ErrorSource title subtitle) (Some st) start (Some d) lr None
                  = Inr (res, X')
                \<and> sr_started res = (\<not> ff_hasBeenKilled X)"
proof -
  let ?src = "ErrorSource title subtitle"
  let ?l1 = "spawn_fps X st (spawn_begin N X ?src st start (Some d) lr None)"
  obtain X1 l2 where prep: "spawn_prepare S X ?src st ?l1 = (X1, l2)"
    by (cases "spawn_prepare S X ?src st ?l1")
  have src: "\<not> isString ?src" by (simp add: isString_def)
  have X1: "X1 = fst (spawn_prepare S X ?src st ?l1)" and l2: "l2 = snd (spawn_prepare S X ?src st ?l1)"
    using prep by simp_all
  have w: "ff_wantedW X1 = ff_wantedW X" and h: "ff_wantedH X1 = ff_wantedH X"
    and killed: "ff_hasBeenKilled X1 = ff_hasBeenKilled X"
    using prepare_fields(1,3,4) [of S X ?src st ?l1] unfolding X1 same_fixed_def by simp_all
  have iW: "l_iW l2 = ff_wantedW X1" and iH: "l_iH l2 = ff_wantedH X1"
    using size_prepare [OF src, of S X st ?l1] w h unfolding l2 by simp_all
  have ov: "spawn_overlay_input X1 None l2 = (X1, l2)"
    by (simp add: spawn_overlay_input_def)
  note res = resolution_generated [OF iW iH assms]
  show ?thesis
    using prep ov res w h killed
    by (simp add: spawn_def Let_def)
qed

text \<open>
  Claim C9.  \<open>spawnError\<close> replaces an undefined duration by 60000 ms and clamps the
  duration to 60000 ms before it builds the statistics and calls \<open>spawn\<close>.  It produces an
  argument list exactly when transcoding is enabled, the error screen is not \<open>kill\<close> (else
  it emits \<open>error\<close> and calls nothing) and neither side of the wanted size is odd (else the
  scaler is entered with the undefined pixel aspect of the generated statistics and \<open>gcd\<close>
  never returns).  Whenever it produces the list, it emits no event, the encoder is started
  with the list unless \<open>kill()\<close> came first, and the list ends with \<open>-t\<close>, the duration
  \<open>min(60000, d)\<close> in milliseconds (60000 when \<open>d\<close> is undefined) and the output target: the
  error screen plays for at most 60000 ms.
\<close>

theorem spawnError_duration:
  assumes "shown = min 60000 (case d of None \<Rightarrow> 60000 | Some x \<Rightarrow> x)"
  shows "shown \<le> 60000
    \<and> ((\<exists>events res this'.
           spawnError server nts this title subtitle d = (events, Some (Inr (res, this'))))
        \<longleftrightarrow> enableTranscoding (ff_opts this) \<and> errorScreen (ff_opts this) \<noteq> ''kill''
            \<and> js_mod (ff_wantedW this) 2 \<noteq> 1 \<and> js_mod (ff_wantedH this) 2 \<noteq> 1)
    \<and> (\<forall>events res this'.
          spawnError server nts this title subtitle d = (events, Some (Inr (res, this'))) \<longrightarrow>
          events = [] \<and> sr_started res = (\<not> ff_hasBeenKilled this)
          \<and> (\<exists>front. sr_args res
                = front @ [''-t'', show_int shown @ ''ms'', ''-f'', ''mpegts'', ''pipe:1'']))"
proof -
  let ?stats = "\<lparr>vs_videoWidth = ff_wantedW this, vs_videoHeight = ff_wantedH this,
                  vs_duration = Some shown, vs_audioIndex = None,
                  vs_videoFramerate = None, vs_videoScanType = None,
                  vs_audioOnly = None, vs_placeholderImage = None,
                  vs_anamorphic = None, vs_pixelP = None, vs_pixelQ = None,
                  vs_videoCodec = None, vs_audioCodec = None\<rparr>"
  let ?run = "spawn server nts this (ErrorSource title subtitle) (Some ?stats) None
                (Some (show_int shown @ ''ms'')) True None"
  let ?enabled = "enableTranscoding (ff_opts this) \<and> errorScreen (ff_opts this) \<noteq> ''kill''"
  let ?odd = "js_mod (ff_wantedW this) 2 = 1 \<or> js_mod (ff_wantedH this) 2 = 1"
  have bound: "shown \<le> 60000" using assms by simp
  have disabled: "snd (spawnError server nts this title subtitle d) = None" if "\<not> ?enabled"
    using that by (auto simp: spawnError_def)
  have enabled: "spawnError server nts this title subtitle d = ([], Some ?run)" if "?enabled"
    using that assms
    by (cases d) (simp_all add: spawnError_def Let_def MAXIMUM_ERROR_DURATION_MS_def
        show_opt_int_def)
  have gen: "if ?odd then ?run = Inl Diverges
             else \<exists>res X'. ?run = Inr (res, X') \<and> sr_started res = (\<not> ff_hasBeenKilled this)"
    by (rule spawn_generated) simp_all
  have produced: "(\<exists>events res this'.
           spawnError server nts this title subtitle d = (events, Some (Inr (res, this'))))
        \<longleftrightarrow> ?enabled \<and> \<not> ?odd"
  proof (cases ?enabled)
    case False
    with disabled show ?thesis by (metis option.distinct(1) snd_conv)
  next
    case True
    show ?thesis
    proof (cases ?odd)
      case True
      with gen have "?run = Inl Diverges" by simp
      with enabled [OF \<open>?enabled\<close>] True show ?thesis by simp
    next
      case False
      with gen obtain res X' where "?run = Inr (res, X')" by auto
      with enabled [OF \<open>?enabled\<close>] False \<open>?enabled\<close> show ?thesis by simp
    qed
  qed
  have result: "events = [] \<and> sr_started res = (\<not> ff_hasBeenKilled this)
          \<and> (\<exists>front. sr_args res
                = front @ [''-t'', show_int shown @ ''ms'', ''-f'', ''mpegts'', ''pipe:1''])"
    if run: "spawnError server nts this title subtitle d = (events, Some (Inr (res, this')))"
    for events res this'
  proof -
    have on: ?enabled
    proof (rule ccontr)
      assume "\<not> ?enabled"
      from disabled [OF this] run show False by simp
    qed
    from enabled [OF on] run have ev: "events = []" and r: "?run = Inr (res, this')"
      by simp_all
    from gen r have "sr_started res = (\<not> ff_hasBeenKilled this)"
      by (auto split: if_splits)
    moreover from spawn_ends_with_duration [OF r]
    have "\<exists>front. sr_args res
        = front @ [''-t'', show_int shown @ ''ms'', ''-f'', ''mpegts'', ''pipe:1'']" .
    ultimately show ?thesis using ev by simp
  qed
  from bound produced result show ?thesis by blast
qed

text \<open>
  The sample wrapper (1920 by 1080) asked for an error screen of 90000 ms starts the encoder
  with \<open>-t 60000ms\<close>.
\<close>

theorem spawnError_duration_witness:
  "(60000::int) = min 60000 (case Some 90000 of None \<Rightarrow> 60000 | Some x \<Rightarrow> x)
   \<and> (\<exists>res this' front.
        spawnError sample_server (\<lambda>r. []) sample_ffmpeg ''Playback error'' None (Some 90000)
          = ([], Some (Inr (res, this')))
        \<and> sr_started res
        \<and> sr_args res = front @ [''-t'', ''60000ms'', ''-f'', ''mpegts'', ''pipe:1''])"
proof -
  have shown: "(60000::int) = min 60000 (case Some 90000 of None \<Rightarrow> 60000 | Some x \<Rightarrow> x)"
    by simp
  note inst = spawnError_duration [OF shown, of sample_server "\<lambda>r. []" sample_ffmpeg "''Playback error''" None]
  have cond: "enableTranscoding (ff_opts sample_ffmpeg)
      \<and> errorScreen (ff_opts sample_ffmpeg) \<noteq> ''kill''
      \<and> js_mod (ff_wantedW sample_ffmpeg) 2 \<noteq> 1 \<and> js_mod (ff_wantedH sample_ffmpeg) 2 \<noteq> 1"
    by (simp add: sample_ffmpeg_def FFMPEG_new_def sample_settings_def sample_context_def
        js_mod_def Let_def)
  have alive: "\<not> ff_hasBeenKilled sample_ffmpeg"
    by (simp add: sample_ffmpeg_def FFMPEG_new_def Let_def)
  from inst cond obtain events res this' where
    run: "spawnError sample_server (\<lambda>r. []) sample_ffmpeg ''Playback error'' None (Some 90000)
      = (events, Some (Inr (res, this')))"
    by blast
  with inst alive have "events = []" "sr_started res"
    "\<exists>front. sr_args res = front @ [''-t'', show_int 60000 @ ''ms'', ''-f'', ''mpegts'', ''pipe:1'']"
    by blast+
  then show ?thesis using run shown
    by (auto simp: show_int_def show_nat.simps)
qed
section \<open>Following redirects ends\<close>

subsection \<open>The passes of the loop\<close>

lemma walk_body_Continue_redirect:
  assumes body: "walk_body ops db resolve t st = Continue st'"
    and redirect': "is_redirect st'"
  obtains newChannel newLineup where
    "db (sp_channel (s_program (ws_currentProgram st))) = Some (newChannel, newLineup)"
    "resolve t newChannel newLineup = Inr (ws_currentProgram st')"
    "ws_channelContext st' = newChannel"
    "ws_redirectChannels st' = ws_redirectChannels st @ [sc_uuid (ws_channelContext st)]"
    "ws_cache st' =
       (if sp_channel (s_program (ws_currentProgram st))
             \<in> set (ws_redirectChannels st @ [sc_uuid (ws_channelContext st)])
        then recordPlayback ops (ws_cache st) (sc_uuid (ws_channelContext st)) t
               (recursive_redirect_item (ws_redirectChannels st @ [sc_uuid (ws_channelContext st)]))
        else ws_cache st)"
    "getCurrentLineupItem ops (ws_cache st') (sc_uuid newChannel) t = None"
proof (cases "db (sp_channel (s_program (ws_currentProgram st)))")
  case None
  with body have "ws_currentProgram st' = invalid_redirect_program"
    by (auto simp: walk_body_def Let_def)
  with redirect' show ?thesis
    by (simp add: is_redirect_def invalid_redirect_program_def)
next
  case (Some pair)
  obtain newChannel newLineup where pair: "pair = (newChannel, newLineup)" by (cases pair)
  show ?thesis
  proof (rule that [of newChannel newLineup])
    show "db (sp_channel (s_program (ws_currentProgram st))) = Some (newChannel, newLineup)"
      using Some pair by simp
  qed (use body Some pair in
        \<open>auto simp: walk_body_def Let_def split: option.splits sum.splits if_splits\<close>)
qed


lemma walk_step_progress:
  assumes laws: "cache_laws ops t"
    and fin: "finite (dom db)"
    and store: "store_consistent db"
    and inv: "walk_inv ops db resolve t st"
    and redirect: "is_redirect st"
    and body: "walk_body ops db resolve t st = Continue st'"
    and redirect': "is_redirect st'"
  shows "walk_inv ops db resolve t st'"
    and "walk_measure ops db t st' < walk_measure ops db t st"
proof -
  let ?cur = "sc_uuid (ws_channelContext st)"
  let ?visited = "ws_redirectChannels st"
  let ?target = "sp_channel (s_program (ws_currentProgram st))"
  let ?item = "recursive_redirect_item (?visited @ [?cur])"
  from body redirect' obtain newChannel newLineup where
    target: "db ?target = Some (newChannel, newLineup)" and
    resolved: "resolve t newChannel newLineup = Inr (ws_currentProgram st')" and
    ctx': "ws_channelContext st' = newChannel" and
    visited': "ws_redirectChannels st' = ?visited @ [?cur]" and
    cache': "ws_cache st' =
       (if ?target \<in> set (?visited @ [?cur])
        then recordPlayback ops (ws_cache st) ?cur t ?item else ws_cache st)" and
    miss': "getCurrentLineupItem ops (ws_cache st') (sc_uuid newChannel) t = None"
    by (rule walk_body_Continue_redirect)
  from inv obtain lineup where
    cur: "db ?cur = Some (ws_channelContext st, lineup)" and
    cur_resolved: "resolve t (ws_channelContext st) lineup = Inr (ws_currentProgram st)"
    by (auto simp: walk_inv_def)
  from inv have visited_inv: "\<forall>v \<in> set ?visited.
      \<exists>channel lineup p.
        db v = Some (channel, lineup) \<and> resolve t channel lineup = Inr p
        \<and> sp_type (s_program p) = ''redirect''
        \<and> (sp_channel (s_program p) \<in> set ?visited \<or> sp_channel (s_program p) = ?cur)"
    by (simp add: walk_inv_def)
  from inv have miss: "?cur \<in> set ?visited \<longrightarrow>
      getCurrentLineupItem ops (ws_cache st) ?cur t = None"
    by (simp add: walk_inv_def)
  from store target have new_uuid: "sc_uuid newChannel = ?target"
    by (auto simp: store_consistent_def)
  \<comment> \<open>the invariant after the pass\<close>
  have inv1: "\<exists>lineup. db (sc_uuid (ws_channelContext st')) = Some (ws_channelContext st', lineup)
      \<and> resolve t (ws_channelContext st') lineup = Inr (ws_currentProgram st')"
    using target resolved ctx' new_uuid by auto
  have inv2: "\<forall>v \<in> set (ws_redirectChannels st').
      \<exists>channel lineup p.
        db v = Some (channel, lineup) \<and> resolve t channel lineup = Inr p
        \<and> sp_type (s_program p) = ''redirect''
        \<and> (sp_channel (s_program p) \<in> set (ws_redirectChannels st')
             \<or> sp_channel (s_program p) = sc_uuid (ws_channelContext st'))"
  proof
    fix v assume "v \<in> set (ws_redirectChannels st')"
    then consider "v \<in> set ?visited" | "v = ?cur" using visited' by auto
    then show "\<exists>channel lineup p.
        db v = Some (channel, lineup) \<and> resolve t channel lineup = Inr p
        \<and> sp_type (s_program p) = ''redirect''
        \<and> (sp_channel (s_program p) \<in> set (ws_redirectChannels st')
             \<or> sp_channel (s_program p) = sc_uuid (ws_channelContext st'))"
    proof cases
      case 1
      with visited_inv obtain channel lineup p where
        "db v = Some (channel, lineup)" "resolve t channel lineup = Inr p"
        "sp_type (s_program p) = ''redirect''"
        "sp_channel (s_program p) \<in> set ?visited \<or> sp_channel (s_program p) = ?cur"
        by blast
      then show ?thesis using visited' by auto
    next
      case 2
      have "sp_type (s_program (ws_currentProgram st)) = ''redirect''"
        using redirect by (simp add: is_redirect_def)
      moreover have "?target = sc_uuid (ws_channelContext st')"
        using ctx' new_uuid by simp
      ultimately show ?thesis using 2 cur cur_resolved by blast
    qed
  qed
  have inv3: "sc_uuid (ws_channelContext st') \<in> set (ws_redirectChannels st') \<longrightarrow>
      getCurrentLineupItem ops (ws_cache st') (sc_uuid (ws_channelContext st')) t = None"
    using miss' ctx' by simp
  from inv1 inv2 inv3 show "walk_inv ops db resolve t st'"
    unfolding walk_inv_def by blast
  \<comment> \<open>the measure\<close>
  let ?U = "{channelId \<in> dom db. getCurrentLineupItem ops (ws_cache st) channelId t = None}"
  let ?U' = "{channelId \<in> dom db. getCurrentLineupItem ops (ws_cache st') channelId t = None}"
  have finU: "finite ?U" using fin by simp
  have sub: "?U' \<subseteq> ?U"
  proof
    fix x assume x: "x \<in> ?U'"
    show "x \<in> ?U"
    proof (cases "?target \<in> set (?visited @ [?cur])")
      case False
      with x cache' show ?thesis by simp
    next
      case True
      then have c: "ws_cache st' = recordPlayback ops (ws_cache st) ?cur t ?item"
        using cache' by simp
      have "x \<noteq> ?cur"
      proof
        assume "x = ?cur"
        with x c have "getCurrentLineupItem ops
            (recordPlayback ops (ws_cache st) ?cur t ?item) ?cur t = None" by simp
        with laws show False unfolding cache_laws_def by simp
      qed
      then have "getCurrentLineupItem ops (ws_cache st') x t
          = getCurrentLineupItem ops (ws_cache st) x t"
        using laws c unfolding cache_laws_def by simp
      with x show ?thesis by simp
    qed
  qed
  have cur_dom: "?cur \<in> dom db" using cur by auto
  show "walk_measure ops db t st' < walk_measure ops db t st"
  proof (cases "?cur \<in> set ?visited")
    case False
    have eq: "dom db - set (ws_redirectChannels st') = (dom db - set ?visited) - {?cur}"
      using visited' by auto
    have mem: "?cur \<in> dom db - set ?visited" using cur_dom False by simp
    have "finite (dom db - set ?visited)" using fin by simp
    from card_Diff1_less [OF this mem] eq
    have "card (dom db - set (ws_redirectChannels st')) < card (dom db - set ?visited)"
      by simp
    moreover have "card ?U' \<le> card ?U" using sub finU by (rule card_mono [rotated])
    ultimately show ?thesis by (simp add: walk_measure_def)
  next
    case True
    have same: "set (ws_redirectChannels st') = set ?visited"
      using visited' True by auto
    from visited_inv True obtain channel lineup' p where
      v: "db ?cur = Some (channel, lineup')" "resolve t channel lineup' = Inr p"
        "sp_channel (s_program p) \<in> set ?visited \<or> sp_channel (s_program p) = ?cur"
      by blast
    from v(1) cur have "channel = ws_channelContext st" "lineup' = lineup" by simp_all
    with v(2) cur_resolved have "p = ws_currentProgram st" by simp
    with v(3) have detected: "?target \<in> set (?visited @ [?cur])" by auto
    then have c: "ws_cache st' = recordPlayback ops (ws_cache st) ?cur t ?item"
      using cache' by simp
    have "getCurrentLineupItem ops (ws_cache st') ?cur t \<noteq> None"
      using laws c unfolding cache_laws_def by simp
    then have "?cur \<notin> ?U'" by simp
    moreover have "?cur \<in> ?U" using miss True cur_dom by simp
    ultimately have "?U' \<subset> ?U" using sub by blast
    then have "card ?U' < card ?U" using finU by (rule psubset_card_mono [rotated])
    then show ?thesis using same by (simp add: walk_measure_def)
  qed
qed

lemma walk_loop_terminates:
  assumes laws: "cache_laws ops t"
    and fin: "finite (dom db)"
    and store: "store_consistent db"
  shows "walk_inv ops db resolve t st \<Longrightarrow> walk_measure ops db t st \<le> k \<Longrightarrow>
         \<exists>r. walk_loop ops db resolve t (Suc k) st = Some r"
proof (induction k arbitrary: st)
  case 0
  show ?case
  proof (cases "is_redirect st")
    case False
    then show ?thesis by (simp add: walk_loop.simps)
  next
    case redirect: True
    show ?thesis
    proof (cases "walk_body ops db resolve t st")
      case (Break st')
      with redirect show ?thesis by (simp add: walk_loop.simps)
    next
      case (Throw e)
      with redirect show ?thesis by (simp add: walk_loop.simps)
    next
      case (Continue st')
      have "\<not> is_redirect st'"
      proof
        assume "is_redirect st'"
        from walk_step_progress(2) [OF laws fin store "0.prems"(1) redirect Continue this]
        show False using "0.prems"(2) by simp
      qed
      with redirect Continue show ?thesis by (simp add: walk_loop.simps)
    qed
  qed
next
  case (Suc k)
  show ?case
  proof (cases "is_redirect st")
    case False
    then show ?thesis by (simp add: walk_loop.simps)
  next
    case redirect: True
    show ?thesis
    proof (cases "walk_body ops db resolve t st")
      case (Break st')
      with redirect show ?thesis by (simp add: walk_loop.simps)
    next
      case (Throw e)
      with redirect show ?thesis by (simp add: walk_loop.simps)
    next
      case (Continue st')
      show ?thesis
      proof (cases "is_redirect st'")
        case False
        with redirect Continue show ?thesis
          by (simp add: walk_loop.simps [of _ _ _ _ "Suc (Suc k)"] walk_loop.simps [of _ _ _ _ "Suc k" st'])
      next
        case True
        note step = walk_step_progress [OF laws fin store Suc.prems(1) redirect Continue True]
        from step(2) Suc.prems(2) have "walk_measure ops db t st' \<le> k" by simp
        from Suc.IH [OF step(1) this] obtain r where
          "walk_loop ops db resolve t (Suc k) st' = Some r" by blast
        with redirect Continue show ?thesis
          by (simp add: walk_loop.simps [of _ _ _ _ "Suc (Suc k)"])
      qed
    qed
  qed
qed


lemma walk_start_inv:
  assumes "db (sc_uuid channel) = Some (channel, lineup)"
    and "resolve t channel lineup = Inr resolved"
  shows "walk_inv ops db resolve t (walk_start channel resolved cache)"
  using assms by (auto simp: walk_inv_def walk_start_def)

lemma walk_start_measure:
  assumes "finite (dom db)"
  shows "walk_measure ops db t (walk_start channel resolved cache) \<le> 2 * card (dom db)"
proof -
  have "card {channelId \<in> dom db. getCurrentLineupItem ops cache channelId t = None}
      \<le> card (dom db)"
    using assms by (intro card_mono) auto
  then show ?thesis by (simp add: walk_measure_def walk_start_def)
qed

lemma walk_loop_more_fuel:
  "walk_loop ops db resolve t n st = Some r \<Longrightarrow> n \<le> m \<Longrightarrow>
   walk_loop ops db resolve t m st = Some r"
proof (induction n arbitrary: m st)
  case 0
  then show ?case by (simp add: walk_loop.simps split: if_splits)
next
  case (Suc n)
  then obtain m' where m: "m = Suc m'" and le: "n \<le> m'" by (cases m) auto
  show ?case
  proof (cases "is_redirect st")
    case False
    with Suc.prems(1) show ?thesis by (simp add: walk_loop.simps)
  next
    case True
    show ?thesis
    proof (cases "walk_body ops db resolve t st")
      case (Continue st')
      with True Suc.prems(1) have "walk_loop ops db resolve t n st' = Some r"
        by (simp add: walk_loop.simps [of _ _ _ _ "Suc n"])
      from Suc.IH [OF this le] True Continue show ?thesis
        by (simp add: m walk_loop.simps [of _ _ _ _ "Suc m'"])
    next
      case (Break st')
      with True Suc.prems(1) show ?thesis
        by (simp add: m walk_loop.simps [of _ _ _ _ "Suc n"] walk_loop.simps [of _ _ _ _ "Suc m'"])
    next
      case (Throw e)
      with True Suc.prems(1) show ?thesis
        by (simp add: m walk_loop.simps [of _ _ _ _ "Suc n"] walk_loop.simps [of _ _ _ _ "Suc m'"])
    qed
  qed
qed

subsection \<open>What the loop ends with\<close>

lemma walk_body_cache:
  assumes laws: "cache_laws ops t"
    and trace: "walk_trace ops t st"
  defines "visited' \<equiv> ws_redirectChannels st @ [sc_uuid (ws_channelContext st)]"
  defines "cache1 \<equiv>
     (if sp_channel (s_program (ws_currentProgram st)) \<in> set visited'
      then recordPlayback ops (ws_cache st) (sc_uuid (ws_channelContext st)) t
             (recursive_redirect_item visited')
      else ws_cache st)"
  assumes hit: "getCurrentLineupItem ops cache1 channelId t = Some item"
  shows "\<exists>k < length visited'.
           item = recursive_redirect_item (take (Suc k) visited') \<and> visited' ! k = channelId"
proof -
  let ?cur = "sc_uuid (ws_channelContext st)"
  let ?visited = "ws_redirectChannels st"
  have old: "\<exists>k < length visited'.
           item = recursive_redirect_item (take (Suc k) visited') \<and> visited' ! k = channelId"
    if "getCurrentLineupItem ops (ws_cache st) channelId t = Some item"
  proof -
    from trace that obtain k where k: "k < length ?visited"
      "item = recursive_redirect_item (take (Suc k) ?visited)" "?visited ! k = channelId"
      unfolding walk_trace_def by blast
    then have "k < length visited'" "take (Suc k) visited' = take (Suc k) ?visited"
      "visited' ! k = channelId"
      by (simp_all add: visited'_def nth_append)
    with k(2) show ?thesis by auto
  qed
  show ?thesis
  proof (cases "sp_channel (s_program (ws_currentProgram st)) \<in> set visited'")
    case False
    with hit have "getCurrentLineupItem ops (ws_cache st) channelId t = Some item"
      by (simp add: cache1_def)
    then show ?thesis by (rule old)
  next
    case True
    then have c: "cache1 = recordPlayback ops (ws_cache st) ?cur t
        (recursive_redirect_item visited')"
      by (simp add: cache1_def)
    show ?thesis
    proof (cases "channelId = ?cur")
      case True
      with hit c laws have "item = recursive_redirect_item visited'"
        unfolding cache_laws_def by simp
      moreover have "length ?visited < length visited'" "visited' ! length ?visited = channelId"
        "take (Suc (length ?visited)) visited' = visited'"
        using True by (simp_all add: visited'_def)
      ultimately show ?thesis by metis
    next
      case False
      then have "getCurrentLineupItem ops cache1 channelId t
          = getCurrentLineupItem ops (ws_cache st) channelId t"
        using laws c unfolding cache_laws_def by simp
      with hit show ?thesis by (simp add: old)
    qed
  qed
qed

lemma walk_body_trace:
  assumes laws: "cache_laws ops t"
    and trace: "walk_trace ops t st"
  shows "case walk_body ops db resolve t st of
           Continue st' \<Rightarrow> walk_trace ops t st'
         | Break st' \<Rightarrow> walk_end st'
         | Throw e \<Rightarrow> True"
proof -
  let ?visited' = "ws_redirectChannels st @ [sc_uuid (ws_channelContext st)]"
  let ?cache1 = "(if sp_channel (s_program (ws_currentProgram st)) \<in> set ?visited'
      then recordPlayback ops (ws_cache st) (sc_uuid (ws_channelContext st)) t
             (recursive_redirect_item ?visited')
      else ws_cache st)"
  note hit = walk_body_cache [OF laws trace]
  have none: "ws_lineupItem st = None" using trace by (simp add: walk_trace_def)
  show ?thesis
  proof (cases "walk_body ops db resolve t st")
    case (Throw e)
    then show ?thesis by simp
  next
    case (Continue st')
    then have "ws_lineupItem st' = ws_lineupItem st" "ws_redirectChannels st' = ?visited'"
      "ws_cache st' = ?cache1"
      by (auto simp: walk_body_def Let_def split: option.splits sum.splits)
    with hit none have "walk_trace ops t st'"
      unfolding walk_trace_def by simp
    with Continue show ?thesis by simp
  next
    case (Break st')
    then obtain newChannel newLineup item where
      "getCurrentLineupItem ops ?cache1 (sc_uuid newChannel) t = Some item"
      "ws_lineupItem st' = Some item" "ws_redirectChannels st' = ?visited'"
      "ws_channelContext st' = newChannel"
      by (auto simp: walk_body_def Let_def split: option.splits sum.splits)
    with hit [of "sc_uuid newChannel" item] have "walk_end st'"
      unfolding walk_end_def by simp
    with Break show ?thesis by simp
  qed
qed

lemma walk_loop_end:
  assumes laws: "cache_laws ops t"
  shows "walk_trace ops t st \<Longrightarrow> walk_loop ops db resolve t n st = Some (Inr st') \<Longrightarrow>
         walk_end st'"
proof (induction n arbitrary: st)
  case 0
  then show ?case
    by (auto simp: walk_loop.simps walk_end_def walk_trace_def split: if_splits)
next
  case (Suc n)
  show ?case
  proof (cases "is_redirect st")
    case False
    with Suc.prems show ?thesis
      by (auto simp: walk_loop.simps walk_end_def walk_trace_def)
  next
    case True
    note step = walk_body_trace [OF laws Suc.prems(1), of db resolve]
    show ?thesis
    proof (cases "walk_body ops db resolve t st")
      case (Continue st1)
      with True Suc.prems(2) have "walk_loop ops db resolve t n st1 = Some (Inr st')"
        by (simp add: walk_loop.simps [of _ _ _ _ "Suc n"])
      moreover from step Continue have "walk_trace ops t st1" by simp
      ultimately show ?thesis by (rule Suc.IH [rotated])
    next
      case (Break st1)
      with True Suc.prems(2) have "st' = st1"
        by (simp add: walk_loop.simps [of _ _ _ _ "Suc n"])
      with step Break show ?thesis by simp
    next
      case (Throw e)
      with True Suc.prems(2) show ?thesis
        by (simp add: walk_loop.simps [of _ _ _ _ "Suc n"])
    qed
  qed
qed

subsection \<open>The text of the error item\<close>

lemma str_includes_Nil: "str_includes s []"
  by (cases s) simp_all

lemma str_includes_self_append: "str_includes (s @ b) s"
  by (cases s) (simp_all add: str_includes_Nil)

lemma str_includes_append_left: "str_includes s sub \<Longrightarrow> str_includes (a @ s) sub"
  by (induction a) simp_all

lemma join_includes: "v \<in> set rs \<Longrightarrow> str_includes (join sep rs) v"
proof (induction sep rs rule: join.induct)
  case (1 sep)
  then show ?case by simp
next
  case (2 sep x)
  then show ?case using str_includes_self_append [of v "[]"] by simp
next
  case (3 sep x y ys)
  show ?case
  proof (cases "v = x")
    case True
    then show ?thesis using str_includes_self_append [of x "sep @ join sep (y # ys)"] by simp
  next
    case False
    with 3 have "str_includes (join sep (y # ys)) v" by simp
    then have "str_includes ((x @ sep) @ join sep (y # ys)) v"
      by (rule str_includes_append_left)
    then show ?thesis by simp
  qed
qed

lemma recursive_redirect_item_text:
  "sl_type (recursive_redirect_item rs) = ''offline''"
  "sl_duration (recursive_redirect_item rs) = 60000"
  "\<exists>e. sl_error (recursive_redirect_item rs) = Some e \<and> (\<forall>v \<in> set rs. str_includes e v)"
  by (simp_all add: recursive_redirect_item_def join_includes str_includes_append_left)

subsection \<open>Scenario S5\<close>

lemma sample_cache_laws: "cache_laws sample_cache t"
  by (simp add: cache_laws_def sample_cache_def)

lemma S5_store_dom: "dom S5_store = {''X'', ''Y''}"
  by (auto simp: S5_store_def dom_def split: if_splits)

lemma S5_store_consistent: "store_consistent S5_store"
  by (simp add: store_consistent_def S5_store_def S5_X_def S5_Y_def)

lemmas S5_defs = S5_walk_def resolve_redirects_def walk_start_def walk_body_def is_redirect_def
  lineup_resolver_def getCurrentProgramAndTimeElapsed_def channel_with_def content_def
  js_rem_def SLACK_def redirect_to_def S5_store_def S5_X_def S5_Y_def sample_cache_def
  Let_def

lemma S5_three_passes:
  "S5_walk (Suc (Suc (Suc n)))
   = Some (Inr \<lparr>ws_currentProgram =
                  \<lparr>s_program = redirect_to ''Y'' 600000, s_timeElapsed = 400000,
                   s_programIndex = 0\<rparr>,
                ws_channelContext = S5_Y,
                ws_redirectChannels = [''X'', ''Y'', ''X''],
                ws_upperBounds = [200000, 200000, 200000],
                ws_lineupItem = Some (recursive_redirect_item [''X'', ''Y'']),
                ws_cache = [(''X'', 1000000, recursive_redirect_item [''X'', ''Y'', ''X'']),
                            (''Y'', 1000000, recursive_redirect_item [''X'', ''Y''])]\<rparr>)"
  by (simp add: S5_defs walk_loop.simps [of _ _ _ _ "Suc k" for k])

lemma S5_two_passes: "S5_walk (Suc (Suc 0)) = None"
  by (simp add: S5_defs walk_loop.simps [of _ _ _ _ "Suc k" for k]
      walk_loop.simps [of _ _ _ _ 0])

text \<open>
  Claim C3, as the code has it.  Finding the target of a redirect among the channels visited
  does not end the loop: the loop records the 60000 ms offline item \<open>Error\<close>, whose text
  lists the channels visited, as the playback of the channel it is leaving, and goes on to
  the target.  It ends when the playback cache has a current lineup item for the channel
  loaded, which the record brings about the next time the walk comes to that channel.  So
  with a cache that returns such a record at the timestamp of the request, and a store of
  \<open>N\<close> channels that holds the channel of the request, the resolution ends within
  \<open>2 * N + 1\<close> passes through the loop.  If moreover the cache has no current lineup item at
  the start, the resolution ends with an exception of the resolver, or at a program that is
  no redirect, or with the offline item of 60000 ms recorded for the channel to which
  the walk has come back; its error text contains the id of every channel visited up to the
  pass that recorded it.
\<close>

theorem redirect_walk_ends:
  assumes laws: "cache_laws channelCache t"
    and fin: "finite (dom channelDB)"
    and store: "store_consistent channelDB"
    and start: "channelDB (sc_uuid channel) = Some (channel, lineup)"
  shows "\<exists>r. resolve_redirects channelCache channelDB resolve t (2 * card (dom channelDB) + 1)
              channel lineup cache = Some r
     \<and> ((\<forall>channelId. getCurrentLineupItem channelCache cache channelId t = None) \<longrightarrow>
        (case r of
           Inl e \<Rightarrow> True
         | Inr st \<Rightarrow>
             (case ws_lineupItem st of
                None \<Rightarrow> \<not> is_redirect st
              | Some item \<Rightarrow>
                  sl_type item = ''offline'' \<and> sl_duration item = 60000
                  \<and> (\<exists>k < length (ws_redirectChannels st). \<exists>e.
                        ws_redirectChannels st ! k = sc_uuid (ws_channelContext st)
                        \<and> item = recursive_redirect_item (take (Suc k) (ws_redirectChannels st))
                        \<and> sl_error item = Some e
                        \<and> (\<forall>v \<in> set (take (Suc k) (ws_redirectChannels st)).
                              str_includes e v)))))"
proof (cases "resolve t channel lineup")
  case (Inl e)
  then show ?thesis by (simp add: resolve_redirects_def)
next
  case (Inr resolved)
  let ?st = "walk_start channel resolved cache"
  let ?n = "2 * card (dom channelDB)"
  have inv: "walk_inv channelCache channelDB resolve t ?st"
    using start Inr by (rule walk_start_inv)
  have "walk_measure channelCache channelDB t ?st \<le> ?n"
    using fin by (rule walk_start_measure)
  from walk_loop_terminates [OF laws fin store inv this] obtain r where
    r: "walk_loop channelCache channelDB resolve t (Suc ?n) ?st = Some r" by blast
  have run: "resolve_redirects channelCache channelDB resolve t (?n + 1) channel lineup cache
      = Some r"
    using Inr r by (simp add: resolve_redirects_def)
  have "case r of
           Inl e \<Rightarrow> True
         | Inr st \<Rightarrow>
             (case ws_lineupItem st of
                None \<Rightarrow> \<not> is_redirect st
              | Some item \<Rightarrow>
                  sl_type item = ''offline'' \<and> sl_duration item = 60000
                  \<and> (\<exists>k < length (ws_redirectChannels st). \<exists>e.
                        ws_redirectChannels st ! k = sc_uuid (ws_channelContext st)
                        \<and> item = recursive_redirect_item (take (Suc k) (ws_redirectChannels st))
                        \<and> sl_error item = Some e
                        \<and> (\<forall>v \<in> set (take (Suc k) (ws_redirectChannels st)).
                              str_includes e v)))"
    if fresh: "\<forall>channelId. getCurrentLineupItem channelCache cache channelId t = None"
  proof (cases r)
    case (Inl e)
    then show ?thesis by simp
  next
    case (Inr st)
    have "walk_trace channelCache t ?st"
      using fresh by (simp add: walk_trace_def walk_start_def)
    from walk_loop_end [OF laws this] r Inr have ending: "walk_end st" by simp
    show ?thesis
    proof (cases "ws_lineupItem st")
      case None
      with ending Inr show ?thesis by (simp add: walk_end_def)
    next
      case (Some item)
      with ending obtain k where k: "k < length (ws_redirectChannels st)"
        "item = recursive_redirect_item (take (Suc k) (ws_redirectChannels st))"
        "ws_redirectChannels st ! k = sc_uuid (ws_channelContext st)"
        by (auto simp: walk_end_def)
      from recursive_redirect_item_text(3) [of "take (Suc k) (ws_redirectChannels st)"] k(2)
      obtain e where e: "sl_error item = Some e"
        "\<forall>v \<in> set (take (Suc k) (ws_redirectChannels st)). str_includes e v"
        by auto
      have "sl_type item = ''offline''" "sl_duration item = 60000"
        using k(2) by (simp_all add: recursive_redirect_item_text)
      with k e Some Inr show ?thesis by auto
    qed
  qed
  with run show ?thesis by blast
qed

text \<open>
  Scenario S5 at the timestamp 1000000: the resolution of X ends with the offline item of
  60000 ms whose error text names X and Y; the loop after it bounds the stream by the
  200000 ms that remain of the redirect.
\<close>

theorem redirect_walk_S5:
  "cache_laws sample_cache 1000000 \<and> finite (dom S5_store) \<and> store_consistent S5_store
   \<and> S5_store (sc_uuid S5_X) = Some (S5_X, [redirect_to ''Y'' 600000])
   \<and> (\<forall>channelId. getCurrentLineupItem sample_cache [] channelId 1000000 = None)
   \<and> (\<exists>st item.
         S5_walk (2 * card (dom S5_store) + 1) = Some (Inr st)
         \<and> ws_lineupItem st = Some item
         \<and> sl_type item = ''offline'' \<and> sl_duration item = 60000
         \<and> sl_error item = Some ''Recursive channel redirect found: X, Y''
         \<and> str_includes ''Recursive channel redirect found: X, Y'' ''X''
         \<and> str_includes ''Recursive channel redirect found: X, Y'' ''Y''
         \<and> fst (adjust_upper_bounds sample_cache 1000000 st item)
             = item\<lparr>sl_streamDuration := Some 200000\<rparr>)"
proof -
  have laws: "cache_laws sample_cache 1000000" by (rule sample_cache_laws)
  have fin: "finite (dom S5_store)" by (simp add: S5_store_dom)
  have store: "store_consistent S5_store" by (rule S5_store_consistent)
  have start: "S5_store (sc_uuid S5_X) = Some (S5_X, [redirect_to ''Y'' 600000])"
    by (simp add: S5_store_def S5_X_def)
  have fresh: "\<forall>channelId. getCurrentLineupItem sample_cache [] channelId 1000000 = None"
    by (simp add: sample_cache_def)
  from redirect_walk_ends [OF laws fin store start, of lineup_resolver "[]"] fresh
  obtain r where r: "S5_walk (2 * card (dom S5_store) + 1) = Some r"
    and ending: "case r of
           Inl e \<Rightarrow> True
         | Inr st \<Rightarrow>
             (case ws_lineupItem st of
                None \<Rightarrow> \<not> is_redirect st
              | Some item \<Rightarrow> sl_type item = ''offline'' \<and> sl_duration item = 60000
                  \<and> (\<exists>k < length (ws_redirectChannels st). \<exists>e.
                        ws_redirectChannels st ! k = sc_uuid (ws_channelContext st)
                        \<and> item = recursive_redirect_item (take (Suc k) (ws_redirectChannels st))
                        \<and> sl_error item = Some e
                        \<and> (\<forall>v \<in> set (take (Suc k) (ws_redirectChannels st)).
                              str_includes e v)))"
    unfolding S5_walk_def by blast
  have fuel: "2 * card (dom S5_store) + 1 = Suc (Suc (Suc 2))"
    by (simp add: S5_store_dom)
  from r have st: "r = Inr \<lparr>ws_currentProgram =
                  \<lparr>s_program = redirect_to ''Y'' 600000, s_timeElapsed = 400000,
                   s_programIndex = 0\<rparr>,
                ws_channelContext = S5_Y,
                ws_redirectChannels = [''X'', ''Y'', ''X''],
                ws_upperBounds = [200000, 200000, 200000],
                ws_lineupItem = Some (recursive_redirect_item [''X'', ''Y'']),
                ws_cache = [(''X'', 1000000, recursive_redirect_item [''X'', ''Y'', ''X'']),
                            (''Y'', 1000000, recursive_redirect_item [''X'', ''Y''])]\<rparr>"
    unfolding fuel S5_three_passes by simp
  have item: "sl_error (recursive_redirect_item [''X'', ''Y''])
      = Some ''Recursive channel redirect found: X, Y''"
    by (simp add: recursive_redirect_item_def)
  have incl: "str_includes ''Recursive channel redirect found: X, Y'' ''X''"
    "str_includes ''Recursive channel redirect found: X, Y'' ''Y''"
    by simp_all
  have bounds: "fst (adjust_upper_bounds sample_cache 1000000
       \<lparr>ws_currentProgram =
                  \<lparr>s_program = redirect_to ''Y'' 600000, s_timeElapsed = 400000,
                   s_programIndex = 0\<rparr>,
                ws_channelContext = S5_Y,
                ws_redirectChannels = [''X'', ''Y'', ''X''],
                ws_upperBounds = [200000, 200000, 200000],
                ws_lineupItem = Some (recursive_redirect_item [''X'', ''Y'']),
                ws_cache = [(''X'', 1000000, recursive_redirect_item [''X'', ''Y'', ''X'']),
                            (''Y'', 1000000, recursive_redirect_item [''X'', ''Y''])]\<rparr>
       (recursive_redirect_item [''X'', ''Y'']))
     = (recursive_redirect_item [''X'', ''Y''])\<lparr>sl_streamDuration := Some 200000\<rparr>"
    by (simp add: adjust_upper_bounds_def recursive_redirect_item_def nth_opt_def
        sample_cache_def MAX_SAFE_INTEGER_def Let_def upt_rec)
  from r st item incl bounds ending laws fin store start fresh show ?thesis
    by (simp add: recursive_redirect_item_text)
qed

text \<open>
  The bound of the claim as the spec words it, one pass for each channel, fails for the two
  channels of scenario S5: after two passes the loop wants a third, which comes back to Y
  and finds there the item recorded in the second pass.
\<close>

theorem redirect_walk_three_passes_counterexample:
  "card (dom S5_store) = 2
   \<and> S5_walk 2 = None
   \<and> (\<exists>st. S5_walk 3 = Some (Inr st)
         \<and> ws_redirectChannels st = [''X'', ''Y'', ''X'']
         \<and> ws_lineupItem st = Some (recursive_redirect_item [''X'', ''Y'']))"
  using S5_two_passes S5_three_passes [of 0]
  by (simp add: S5_store_dom numeral_2_eq_2 numeral_3_eq_3)
end
